theory Spec2Isabelle
  imports Main "HOL-Library.Word" "HOL-Library.Sublist"
begin

unbundle bit_operations_syntax

section \<open>Constants of blocks.py\<close>

text \<open>Python integers are unbounded, so flag words and field values are \<open>int\<close>;
  \<open>&\<close> is \<open>AND\<close> and \<open>>>\<close> is \<open>drop_bit\<close> on \<open>int\<close>.\<close>

definition BLOCK_HAS_EXTENDED_LAYOUT :: int where "BLOCK_HAS_EXTENDED_LAYOUT = 0x80000000"
definition BLOCK_HAS_SIGNATURE :: int where "BLOCK_HAS_SIGNATURE = 0x40000000"
definition BLOCK_IS_GLOBAL :: int where "BLOCK_IS_GLOBAL = 0x10000000"
definition BLOCK_HAS_COPY_DISPOSE :: int where "BLOCK_HAS_COPY_DISPOSE = 0x02000000"

definition BLOCK_BYREF_HAS_COPY_DISPOSE :: int where "BLOCK_BYREF_HAS_COPY_DISPOSE = 0x02000000"
definition BLOCK_BYREF_LAYOUT_MASK :: int where "BLOCK_BYREF_LAYOUT_MASK = 0x70000000"
definition BLOCK_BYREF_LAYOUT_EXTENDED :: int where "BLOCK_BYREF_LAYOUT_EXTENDED = 0x10000000"
definition BLOCK_BYREF_LAYOUT_NON_OBJECT :: int where "BLOCK_BYREF_LAYOUT_NON_OBJECT = 0x20000000"
definition BLOCK_BYREF_LAYOUT_STRONG :: int where "BLOCK_BYREF_LAYOUT_STRONG = 0x30000000"
definition BLOCK_BYREF_LAYOUT_WEAK :: int where "BLOCK_BYREF_LAYOUT_WEAK = 0x40000000"
definition BLOCK_BYREF_LAYOUT_UNRETAINED :: int where "BLOCK_BYREF_LAYOUT_UNRETAINED = 0x50000000"

definition BLOCK_LAYOUT_ESCAPE :: int where "BLOCK_LAYOUT_ESCAPE = 0x0"
definition BLOCK_LAYOUT_NON_OBJECT_BYTES :: int where "BLOCK_LAYOUT_NON_OBJECT_BYTES = 0x1"
definition BLOCK_LAYOUT_NON_OBJECT_WORDS :: int where "BLOCK_LAYOUT_NON_OBJECT_WORDS = 0x2"
definition BLOCK_LAYOUT_STRONG :: int where "BLOCK_LAYOUT_STRONG = 0x3"
definition BLOCK_LAYOUT_BYREF :: int where "BLOCK_LAYOUT_BYREF = 0x4"
definition BLOCK_LAYOUT_WEAK :: int where "BLOCK_LAYOUT_WEAK = 0x5"
definition BLOCK_LAYOUT_UNRETAINED :: int where "BLOCK_LAYOUT_UNRETAINED = 0x6"

section \<open>Exceptions\<close>

text \<open>Every \<open>raise\<close>, failed \<open>assert\<close> and failing attribute or variable lookup of the
  source is a value of this type; a function that can raise returns \<open>error + 'a\<close>.
  \<open>HostError\<close> is the exception a host call raises when it is given Python's \<open>None\<close> for
  an address (\<open>get_ascii_string_at(None, 0)\<close>).\<close>

datatype error =
    AssertionError
  | AttributeError
  | UnboundLocalError
  | RuntimeError
  | NotImplementedError
  | TypeError
  | IndexError
  | HostError

section \<open>The binary view and its reader\<close>

text \<open>The host's \<open>BinaryView\<close> is outside the repository. It is taken here as one
  contiguous little-endian image (both supported architectures are little-endian) with
  the host's string table. \<open>BinaryReader.read8/32/64\<close> return \<open>None\<close> at an unreadable
  address and do not raise; what becomes of that \<open>None\<close> is written out at each caller.\<close>

record binary_view =
  bv_start :: int
  bv_data :: "8 word list"
  bv_ascii_string_at :: "int \<Rightarrow> string option"

definition bv_end :: "binary_view \<Rightarrow> int" where
  "bv_end bv = bv_start bv + int (length (bv_data bv))"

definition read_bytes :: "binary_view \<Rightarrow> int \<Rightarrow> nat \<Rightarrow> 8 word list option" where
  "read_bytes bv off n =
     (if bv_start bv \<le> off \<and> off + int n \<le> bv_end bv
      then Some (take n (drop (nat (off - bv_start bv)) (bv_data bv)))
      else None)"

fun le_int :: "8 word list \<Rightarrow> int" where
  "le_int [] = 0"
| "le_int (b # bs) = uint b + 256 * le_int bs"

text \<open>A read returns the value and the reader's new offset.\<close>

definition read_le :: "binary_view \<Rightarrow> int \<Rightarrow> nat \<Rightarrow> (int \<times> int) option" where
  "read_le bv off n =
     (case read_bytes bv off n of
        None \<Rightarrow> None
      | Some bs \<Rightarrow> Some (le_int bs, off + int n))"

definition read8 :: "binary_view \<Rightarrow> int \<Rightarrow> (int \<times> int) option" where
  "read8 bv off = read_le bv off 1"

definition read32 :: "binary_view \<Rightarrow> int \<Rightarrow> (int \<times> int) option" where
  "read32 bv off = read_le bv off 4"

definition read64 :: "binary_view \<Rightarrow> int \<Rightarrow> (int \<times> int) option" where
  "read64 bv off = read_le bv off 8"

text \<open>\<open>x = br.read32()\<close> and \<open>x = br.read64()\<close> as an assignment: the value bound to \<open>x\<close>,
  which is Python's \<open>None\<close> after a failed read, and the reader's offset afterwards. A
  failed read leaves the reader where it is.\<close>

definition read32_value :: "binary_view \<Rightarrow> int \<Rightarrow> int option \<times> int" where
  "read32_value bv off =
     (case read32 bv off of None \<Rightarrow> (None, off) | Some (v, off') \<Rightarrow> (Some v, off'))"

definition read64_value :: "binary_view \<Rightarrow> int \<Rightarrow> int option \<times> int" where
  "read64_value bv off =
     (case read64 bv off of None \<Rightarrow> (None, off) | Some (v, off') \<Rightarrow> (Some v, off'))"

section \<open>High-level IL nodes\<close>

text \<open>The node classes the source tests with \<open>isinstance\<close>. A \<open>Variable\<close> is represented
  by its \<open>identifier\<close>. \<open>HighLevelILImport\<close> carries what \<open>str\<close> and \<open>.address\<close> return;
  \<open>HighLevelILStructField\<close> and \<open>HighLevelILDerefField\<close> carry \<open>src\<close> and
  \<open>member_index\<close>. \<open>HighLevelILOther\<close> stands for every other node class (with its
  class name). An instruction of a function is a node with its \<open>address\<close>.\<close>

type_synonym var_id = int

datatype hlil =
    HighLevelILVarDeclare var_id
  | HighLevelILVarInit var_id hlil
  | HighLevelILAssign hlil hlil
  | HighLevelILVar var_id
  | HighLevelILStructField hlil nat
  | HighLevelILArrayIndex hlil hlil
  | HighLevelILDerefField hlil nat
  | HighLevelILDeref hlil
  | HighLevelILAddressOf hlil
  | HighLevelILImport string int
  | HighLevelILConst int
  | HighLevelILConstPtr int
  | HighLevelILCall
  | HighLevelILOther string

type_synonym insn = "int \<times> hlil"

section \<open>BlockLiteral\<close>

text \<open>\<open>insn_or_data_var\<close>: the instruction of a stack block or the data variable (by its
  address) of a global block.\<close>

datatype insn_or_data_var = Insn insn | DataVar int

fun target_address :: "insn_or_data_var \<Rightarrow> int" where
  "target_address (Insn i) = fst i"
| "target_address (DataVar a) = a"

text \<open>The attributes \<open>isa\<close>, \<open>invoke\<close> and \<open>descriptor\<close> hold what the constructor was given,
  of type \<open>'v\<close>: integers (\<open>'v = int\<close>) where \<open>from_stack\<close> takes them from constants of the
  HLIL, results of a read (\<open>'v = int option\<close>, Python's \<open>None\<close> after a failed read) where
  \<open>from_data\<close> takes them from the reader. \<open>bl_reserved\<close> is \<open>None\<close> where \<open>from_stack\<close> binds
  \<open>reserved = None\<close> or the read of \<open>from_data\<close> fails. \<open>flags\<close> of a constructed literal is
  an integer: \<open>__init__\<close> computes \<open>self.flags & BLOCK_IS_GLOBAL\<close>.\<close>

record 'v block_literal =
  bl_is_stack_block :: bool
  bl_target :: insn_or_data_var
  bl_address :: int
  bl_isa :: 'v
  bl_flags :: int
  bl_reserved :: "int option"
  bl_invoke :: 'v
  bl_descriptor :: 'v

text \<open>\<open>BlockLiteral.__init__\<close> on integers: the four assertions in the source's order.\<close>

definition BlockLiteral_init ::
  "bool \<Rightarrow> insn_or_data_var \<Rightarrow> int \<Rightarrow> int \<Rightarrow> int option \<Rightarrow> int \<Rightarrow> int
     \<Rightarrow> error + int block_literal" where
  "BlockLiteral_init is_stack_block tgt isa flags reserved invoke descriptor =
     (if invoke = 0 then Inl AssertionError
      else if descriptor = 0 then Inl AssertionError
      else if is_stack_block then
        (if flags AND BLOCK_IS_GLOBAL = 0
         then Inr \<lparr>bl_is_stack_block = is_stack_block, bl_target = tgt,
                   bl_address = target_address tgt, bl_isa = isa, bl_flags = flags,
                   bl_reserved = reserved, bl_invoke = invoke, bl_descriptor = descriptor\<rparr>
         else Inl AssertionError)
      else
        (if flags AND BLOCK_IS_GLOBAL \<noteq> 0
         then Inr \<lparr>bl_is_stack_block = is_stack_block, bl_target = tgt,
                   bl_address = target_address tgt, bl_isa = isa, bl_flags = flags,
                   bl_reserved = reserved, bl_invoke = invoke, bl_descriptor = descriptor\<rparr>
         else Inl AssertionError))"

text \<open>\<open>BlockLiteral.__init__\<close> on the results of reads, as \<open>from_data\<close> calls it. \<open>None != 0\<close>
  holds, so the first two assertions pass on \<open>None\<close>; \<open>None & BLOCK_IS_GLOBAL\<close> raises
  TypeError.\<close>

definition BlockLiteral_init_values ::
  "bool \<Rightarrow> insn_or_data_var \<Rightarrow> int option \<Rightarrow> int option \<Rightarrow> int option \<Rightarrow> int option
     \<Rightarrow> int option \<Rightarrow> error + int option block_literal" where
  "BlockLiteral_init_values is_stack_block tgt isa flags reserved invoke descriptor =
     (if invoke = Some 0 then Inl AssertionError
      else if descriptor = Some 0 then Inl AssertionError
      else
        (case flags of
           None \<Rightarrow> Inl TypeError
         | Some f \<Rightarrow>
            if is_stack_block then
              (if f AND BLOCK_IS_GLOBAL = 0
               then Inr \<lparr>bl_is_stack_block = is_stack_block, bl_target = tgt,
                         bl_address = target_address tgt, bl_isa = isa, bl_flags = f,
                         bl_reserved = reserved, bl_invoke = invoke,
                         bl_descriptor = descriptor\<rparr>
               else Inl AssertionError)
            else
              (if f AND BLOCK_IS_GLOBAL \<noteq> 0
               then Inr \<lparr>bl_is_stack_block = is_stack_block, bl_target = tgt,
                         bl_address = target_address tgt, bl_isa = isa, bl_flags = f,
                         bl_reserved = reserved, bl_invoke = invoke,
                         bl_descriptor = descriptor\<rparr>
               else Inl AssertionError)))"

text \<open>\<open>BlockLiteral.from_data\<close>: five sequential reads, 32 bytes, whose results go to
  \<open>__init__\<close> as they are.\<close>

definition from_data :: "binary_view \<Rightarrow> int \<Rightarrow> error + int option block_literal" where
  "from_data bv address =
     (case read64_value bv address of (isa, o1) \<Rightarrow>
      (case read32_value bv o1 of (flags, o2) \<Rightarrow>
       (case read32_value bv o2 of (reserved, o3) \<Rightarrow>
        (case read64_value bv o3 of (invoke, o4) \<Rightarrow>
         (case read64_value bv o4 of (descriptor, o5) \<Rightarrow>
            BlockLiteral_init_values False (DataVar address) isa flags reserved
              invoke descriptor)))))"

section \<open>Structure builder\<close>

text \<open>The types the source appends to a structure, each named after the type string or
  plugin type it is built from. All pointers are 8 bytes (the plugin is only valid for
  aarch64 and x86_64).\<close>

datatype ctype =
    Class
  | ObjcId
  | VolatileUInt32
  | UInt32
  | VolatileInt32
  | UInt64
  | UInt8Array nat
  | VoidPtr
  | UInt8ConstPtr
  | BlockInvokeFunction
  | BlockByrefKeepFunction
  | BlockByrefDestroyFunction
  | PointerTo string

fun type_width :: "ctype \<Rightarrow> nat" where
  "type_width VolatileUInt32 = 4"
| "type_width UInt32 = 4"
| "type_width VolatileInt32 = 4"
| "type_width (UInt8Array n) = n"
| "type_width _ = 8"

fun type_alignment :: "ctype \<Rightarrow> nat" where
  "type_alignment VolatileUInt32 = 4"
| "type_alignment UInt32 = 4"
| "type_alignment VolatileInt32 = 4"
| "type_alignment (UInt8Array n) = 1"
| "type_alignment _ = 8"

record struct_member =
  mtype :: ctype
  mname :: string
  moffset :: nat

record structure_builder =
  packed :: bool
  members :: "struct_member list"
  width :: nat

definition StructureBuilder_create :: "bool \<Rightarrow> structure_builder" where
  "StructureBuilder_create p = \<lparr>packed = p, members = [], width = 0\<rparr>"

definition align_up :: "nat \<Rightarrow> nat \<Rightarrow> nat" where
  "align_up w a = ((w + a - 1) div a) * a"

text \<open>\<open>StructureBuilder.append\<close> is the host's: the member goes at the current width of a
  packed structure, and at the next multiple of its alignment otherwise.\<close>

definition struct_append :: "ctype \<Rightarrow> string \<Rightarrow> structure_builder \<Rightarrow> structure_builder" where
  "struct_append ty nm s =
     (let off = (if packed s then width s else align_up (width s) (type_alignment ty))
      in s\<lparr>members := members s @ [\<lparr>mtype = ty, mname = nm, moffset = off\<rparr>],
            width := off + type_width ty\<rparr>)"

text \<open>\<open>StructureBuilder.replace(index, type, name)\<close> keeps the member's offset.\<close>

definition struct_replace :: "nat \<Rightarrow> ctype \<Rightarrow> string \<Rightarrow> structure_builder \<Rightarrow> structure_builder" where
  "struct_replace i ty nm s =
     s\<lparr>members := (members s)[i := \<lparr>mtype = ty, mname = nm, moffset = moffset (members s ! i)\<rparr>]\<rparr>"

fun index_of_name :: "string \<Rightarrow> struct_member list \<Rightarrow> nat option" where
  "index_of_name nm [] = None"
| "index_of_name nm (m # ms) =
     (if mname m = nm then Some 0 else map_option Suc (index_of_name nm ms))"

definition index_by_name :: "structure_builder \<Rightarrow> string \<Rightarrow> nat option" where
  "index_by_name s nm = index_of_name nm (members s)"

text \<open>Python's \<open>f"{n:x}"\<close>: lower-case hexadecimal without prefix.\<close>

definition hex_digit :: "nat \<Rightarrow> char" where
  "hex_digit d = ''0123456789abcdef'' ! d"

function hex_str :: "nat \<Rightarrow> string" where
  "hex_str n = (if n < 16 then [hex_digit n] else hex_str (n div 16) @ [hex_digit (n mod 16)])"
  by pat_completeness auto
termination
  by (relation "measure (\<lambda>n. n)") auto

declare hex_str.simps [simp del]

section \<open>BlockDescriptor record\<close>

text \<open>\<open>bd_reserved\<close>, \<open>bd_copy\<close> and \<open>bd_dispose\<close> are always assigned: \<open>None\<close> is Python's
  \<open>None\<close>, the result of a failed read or (\<open>copy\<close>, \<open>dispose\<close>) the value given when the
  flag is clear. \<open>bd_size\<close> is an integer once \<open>assert self.size >= 0x20\<close> has passed.
  \<open>signature\<close>, \<open>signature_raw\<close> and \<open>layout\<close> are assigned only under HAS_SIGNATURE: there
  \<open>None\<close> means the attribute was never assigned (reading it raises AttributeError), and
  \<open>bd_signature_raw = Some None\<close>, \<open>bd_layout = Some None\<close> are the attribute assigned
  Python's \<open>None\<close> (for \<open>layout\<close>: the result of a failed read).\<close>

record block_descriptor =
  bd_address :: int
  bd_block_flags :: int
  bd_reserved :: "int option"
  bd_size :: int
  bd_copy :: "int option"
  bd_dispose :: "int option"
  bd_signature :: "int option"
  bd_signature_raw :: "string option option"
  bd_layout :: "int option option"
  bd_layout_end :: "int option"

definition imported_variables_size :: "block_descriptor \<Rightarrow> int" where
  "imported_variables_size bd = bd_size bd - 0x20"

definition block_has_copy_dispose :: "block_descriptor \<Rightarrow> bool" where
  "block_has_copy_dispose bd \<longleftrightarrow> bd_block_flags bd AND BLOCK_HAS_COPY_DISPOSE \<noteq> 0"

definition block_has_signature :: "block_descriptor \<Rightarrow> bool" where
  "block_has_signature bd \<longleftrightarrow> bd_block_flags bd AND BLOCK_HAS_SIGNATURE \<noteq> 0"

definition block_has_extended_layout :: "block_descriptor \<Rightarrow> bool" where
  "block_has_extended_layout bd \<longleftrightarrow> bd_block_flags bd AND BLOCK_HAS_EXTENDED_LAYOUT \<noteq> 0"

section \<open>append_layout_fields\<close>

text \<open>What the source prints is collected as a list of messages.\<close>

datatype message =
    UnknownLayoutOp int
  | ByrefInfo int int int
  | ByrefFailed int
  | SkippingRhs hlil
  | ByrefSrcNotVar hlil
  | ByrefVarNotFound hlil var_id

text \<open>\<open>for _ in range(n): struct.append(ty, f"{prefix}{struct.width:x}")\<close>\<close>

fun append_each :: "nat \<Rightarrow> ctype \<Rightarrow> string \<Rightarrow> structure_builder \<Rightarrow> structure_builder" where
  "append_each 0 ty pre s = s"
| "append_each (Suc n) ty pre s =
     append_each n ty pre (struct_append ty (pre @ hex_str (width s)) s)"

text \<open>The byref loop also records \<open>len(struct.members)\<close> before each append, when
  \<open>byref_indexes\<close> is given.\<close>

fun append_byref_ptrs ::
  "nat \<Rightarrow> structure_builder \<Rightarrow> nat list option \<Rightarrow> structure_builder \<times> nat list option" where
  "append_byref_ptrs 0 s byref_indexes = (s, byref_indexes)"
| "append_byref_ptrs (Suc n) s byref_indexes =
     append_byref_ptrs n
       (struct_append ObjcId (''byref_ptr_'' @ hex_str (width s)) s)
       (map_option (\<lambda>l. l @ [length (members s)]) byref_indexes)"

text \<open>The \<open>while True\<close> loop of the bytecode encoding, from reader offset \<open>off\<close>. It returns
  the structure, the byref indexes, \<open>br.offset\<close> after the loop and the warnings.\<close>

function layout_bytecode ::
  "binary_view \<Rightarrow> int \<Rightarrow> structure_builder \<Rightarrow> nat list option
     \<Rightarrow> error + (structure_builder \<times> nat list option \<times> int \<times> message list)" where
  "layout_bytecode bv off s byref_indexes =
     (case read8 bv off of
        None \<Rightarrow> Inl TypeError
      | Some (op, off') \<Rightarrow>
          (let opcode = drop_bit 4 (op AND 0xf0); oparg = op AND 0x0f in
           if opcode = BLOCK_LAYOUT_ESCAPE then Inr (s, byref_indexes, off', [])
           else if opcode = BLOCK_LAYOUT_NON_OBJECT_BYTES then
             layout_bytecode bv off'
               (struct_append (UInt8Array (nat oparg)) (''non_object_'' @ hex_str (width s)) s)
               byref_indexes
           else if opcode = BLOCK_LAYOUT_NON_OBJECT_WORDS then
             layout_bytecode bv off' (append_each (nat oparg) UInt64 ''non_object_'' s)
               byref_indexes
           else if opcode = BLOCK_LAYOUT_STRONG then
             layout_bytecode bv off' (append_each (nat oparg) ObjcId ''strong_ptr_'' s)
               byref_indexes
           else if opcode = BLOCK_LAYOUT_BYREF then
             layout_bytecode bv off' (fst (append_byref_ptrs (nat oparg) s byref_indexes))
               (snd (append_byref_ptrs (nat oparg) s byref_indexes))
           else if opcode = BLOCK_LAYOUT_WEAK then
             layout_bytecode bv off' (append_each (nat oparg) ObjcId ''weak_ptr_'' s)
               byref_indexes
           else if opcode = BLOCK_LAYOUT_UNRETAINED then
             layout_bytecode bv off' (append_each (nat oparg) ObjcId ''unretained_ptr_'' s)
               byref_indexes
           else Inr (s, byref_indexes, off', [UnknownLayoutOp op])))"
  by pat_completeness auto
termination
proof (relation "measure (\<lambda>(bv, off, s, bi). nat (bv_end bv - off))", goal_cases)
  case 1
  show ?case by simp
next
  case (2 bv off s bi x2 x y)
  then show ?case
    by (auto simp: read8_def read_le_def read_bytes_def split: if_splits)
next
  case (3 bv off s bi x2 x y)
  then show ?case
    by (auto simp: read8_def read_le_def read_bytes_def split: if_splits)
next
  case (4 bv off s bi x2 x y)
  then show ?case
    by (auto simp: read8_def read_le_def read_bytes_def split: if_splits)
next
  case (5 bv off s bi x2 x y)
  then show ?case
    by (auto simp: read8_def read_le_def read_bytes_def split: if_splits)
next
  case (6 bv off s bi x2 x y)
  then show ?case
    by (auto simp: read8_def read_le_def read_bytes_def split: if_splits)
next
  case (7 bv off s bi x2 x y)
  then show ?case
    by (auto simp: read8_def read_le_def read_bytes_def split: if_splits)
qed

declare layout_bytecode.simps [simp del]

text \<open>\<open>append_layout_fields(bv, struct, layout, block_has_extended_layout, byref_indexes,
  layout_end_obj)\<close>. The structure, \<open>byref_indexes\<close> and \<open>layout_end_obj\<close> are mutated
  in place by the source and returned here.\<close>

definition append_layout_fields ::
  "binary_view \<Rightarrow> structure_builder \<Rightarrow> int \<Rightarrow> bool \<Rightarrow> nat list option
     \<Rightarrow> block_descriptor option
     \<Rightarrow> error + (structure_builder \<times> nat list option \<times> block_descriptor option \<times> message list)" where
  "append_layout_fields bv s layout ext byref_indexes layout_end_obj =
     (if layout = 0 then Inr (s, byref_indexes, layout_end_obj, [])
      else if \<not> ext then Inr (s, byref_indexes, layout_end_obj, [])
      else if layout < 0x1000 then
        (let n_strong_ptrs = nat (drop_bit 8 layout AND 0xf);
             n_byref_ptrs = nat (drop_bit 4 layout AND 0xf);
             n_weak_ptrs = nat (layout AND 0xf);
             s1 = append_each n_strong_ptrs ObjcId ''strong_ptr_'' s;
             r = append_byref_ptrs n_byref_ptrs s1 byref_indexes;
             s3 = append_each n_weak_ptrs ObjcId ''weak_ptr_'' (fst r)
         in Inr (s3, snd r, layout_end_obj, []))
      else
        (case layout_bytecode bv layout s byref_indexes of
           Inl e \<Rightarrow> Inl e
         | Inr (s', bi', off, msgs) \<Rightarrow>
             Inr (s', bi',
                  map_option (\<lambda>bd. bd\<lparr>bd_layout_end := Some off\<rparr>) layout_end_obj,
                  msgs)))"


section \<open>BlockDescriptor.__init__\<close>

text \<open>The block \<open>if self.block_has_copy_dispose: ... else: ...\<close>, from reader offset
  \<open>off\<close>: the values of \<open>self.copy\<close> and \<open>self.dispose\<close> and the reader's new offset. The
  result of a failed read is stored as it is.\<close>

definition read_copy_dispose ::
  "binary_view \<Rightarrow> int \<Rightarrow> int \<Rightarrow> int option \<times> int option \<times> int" where
  "read_copy_dispose bv block_flags off =
     (if block_flags AND BLOCK_HAS_COPY_DISPOSE \<noteq> 0
      then (case read64_value bv off of (copy, o3) \<Rightarrow>
            (case read64_value bv o3 of (dispose, o4) \<Rightarrow> (copy, dispose, o4)))
      else (None, None, off))"

text \<open>The block \<open>if self.block_has_signature: ...\<close> (it has no \<open>else\<close>): the attributes
  \<open>signature\<close>, \<open>signature_raw\<close> and \<open>layout\<close>, each \<open>None\<close> when never assigned. A
  \<open>signature\<close> that is \<open>None\<close> (a failed read) differs from 0 and goes to
  \<open>get_ascii_string_at\<close>, which raises. \<open>get_ascii_string_at\<close> returns \<open>None\<close> where the host
  finds no string, and \<open>.raw\<close> of that raises AttributeError. The result of the read of
  \<open>layout\<close> is stored as it is.\<close>

definition read_signature_layout ::
  "binary_view \<Rightarrow> int \<Rightarrow> int
     \<Rightarrow> error + (int option \<times> string option option \<times> int option option)" where
  "read_signature_layout bv block_flags off =
     (if block_flags AND BLOCK_HAS_SIGNATURE \<noteq> 0 then
        (case read64_value bv off of (signature_value, o5) \<Rightarrow>
         (case signature_value of
            None \<Rightarrow> Inl HostError
          | Some signature \<Rightarrow>
             (case (if signature \<noteq> 0
                    then (case bv_ascii_string_at bv signature of
                            None \<Rightarrow> Inl AttributeError
                          | Some raw \<Rightarrow> Inr (Some raw))
                    else Inr None) of
                Inl e \<Rightarrow> Inl e
              | Inr signature_raw \<Rightarrow>
                  Inr (Some signature, Some signature_raw,
                       Some (fst (read64_value bv o5))))))
      else Inr (None, None, None))"

text \<open>\<open>BlockDescriptor.__init__(bv, descriptor_address, block_flags)\<close> at an integer
  address. \<open>self.reserved\<close> keeps the result of its read; \<open>assert self.size >= 0x20\<close>
  raises TypeError on \<open>None\<close>.\<close>

definition BlockDescriptor_init :: "binary_view \<Rightarrow> int \<Rightarrow> int \<Rightarrow> error + block_descriptor" where
  "BlockDescriptor_init bv descriptor_address block_flags =
     (case read64_value bv descriptor_address of (reserved, o1) \<Rightarrow>
      (case read64_value bv o1 of (size_value, o2) \<Rightarrow>
       (case size_value of
          None \<Rightarrow> Inl TypeError
        | Some sz \<Rightarrow>
           if \<not> 0x20 \<le> sz then Inl AssertionError
           else
            (case read_copy_dispose bv block_flags o2 of (copy, dispose, o4) \<Rightarrow>
             (case read_signature_layout bv block_flags o4 of
                Inl e \<Rightarrow> Inl e
              | Inr (signature, signature_raw, layout) \<Rightarrow>
                  Inr \<lparr>bd_address = descriptor_address, bd_block_flags = block_flags,
                       bd_reserved = reserved, bd_size = sz,
                       bd_copy = copy, bd_dispose = dispose,
                       bd_signature = signature, bd_signature_raw = signature_raw,
                       bd_layout = layout, bd_layout_end = None\<rparr>)))))"

section \<open>Scanning field assignments\<close>

text \<open>\<open>.var\<close> exists on a variable node and on a declaration; on any other node the
  attribute lookup raises.\<close>

definition node_var :: "hlil \<Rightarrow> error + var_id" where
  "node_var e =
     (case e of
        HighLevelILVar v \<Rightarrow> Inr v
      | HighLevelILVarDeclare v \<Rightarrow> Inr v
      | _ \<Rightarrow> Inl AttributeError)"

text \<open>\<open>shinobi.reload_hlil_instruction\<close>: the first instruction at the same address in the
  function's current HLIL (\<open>func\<close>, as the host presents it after the retyping), else the
  \<open>assert False\<close>.\<close>

fun reload_hlil_instruction :: "insn list \<Rightarrow> insn \<Rightarrow> error + insn" where
  "reload_hlil_instruction [] hlil_insn = Inl AssertionError"
| "reload_hlil_instruction (i # is) hlil_insn =
     (if fst i = fst hlil_insn then Inr i else reload_hlil_instruction is hlil_insn)"

text \<open>The variable at the root of \<open>insn.dest.src\<close> in
  \<open>yield_struct_field_assign_hlil_instructions_for_var_id\<close>: \<open>Inr None\<close> is \<open>continue\<close>,
  \<open>Inl\<close> the \<open>raise NotImplementedError\<close>.\<close>

definition dest_src_var :: "hlil \<Rightarrow> error + var_id option" where
  "dest_src_var dsrc =
     (case dsrc of
        HighLevelILVar v \<Rightarrow> Inr (Some v)
      | HighLevelILArrayIndex src idx \<Rightarrow>
          (case src of HighLevelILVar v \<Rightarrow> Inr (Some v) | _ \<Rightarrow> Inr None)
      | HighLevelILStructField src k \<Rightarrow>
          (case src of HighLevelILVar v \<Rightarrow> Inr (Some v) | _ \<Rightarrow> Inr None)
      | HighLevelILDerefField src k \<Rightarrow> Inr None
      | _ \<Rightarrow> Inl NotImplementedError)"

text \<open>One step of the generator \<open>yield_struct_field_assign_hlil_instructions_for_var_id\<close>:
  \<open>Inr (Some (member_index, src))\<close> when the instruction is yielded (the consumers read
  only \<open>insn.dest.member_index\<close> and \<open>insn.src\<close>), \<open>Inr None\<close> when it is skipped. The
  generator is lazy, so each consuming loop below calls this per instruction.\<close>

definition yield_struct_field_assign :: "var_id \<Rightarrow> insn \<Rightarrow> error + (nat \<times> hlil) option" where
  "yield_struct_field_assign var_id insn =
     (case snd insn of
        HighLevelILAssign dest src \<Rightarrow>
          (case dest of
             HighLevelILStructField dsrc member_index \<Rightarrow>
               (case dest_src_var dsrc of
                  Inl e \<Rightarrow> Inl e
                | Inr None \<Rightarrow> Inr None
                | Inr (Some v) \<Rightarrow>
                    if v \<noteq> var_id then Inr None else Inr (Some (member_index, src)))
           | _ \<Rightarrow> Inr None)
      | _ \<Rightarrow> Inr None)"

text \<open>\<open>isinstance(src, (HighLevelILConst, HighLevelILConstPtr))\<close> with \<open>src.constant\<close>.\<close>

definition const_value :: "hlil \<Rightarrow> int option" where
  "const_value src =
     (case src of
        HighLevelILConst c \<Rightarrow> Some c
      | HighLevelILConstPtr c \<Rightarrow> Some c
      | _ \<Rightarrow> None)"

section \<open>BlockLiteral.from_stack\<close>

text \<open>The five local variables of the loop; \<open>None\<close> is an unbound name.
  \<open>l_reserved = Some None\<close> is \<open>reserved\<close> bound to Python's \<open>None\<close>.\<close>

record from_stack_locals =
  l_isa :: "int option"
  l_flags :: "int option"
  l_reserved :: "int option option"
  l_invoke :: "int option"
  l_descriptor :: "int option"

definition no_locals :: from_stack_locals where
  "no_locals = \<lparr>l_isa = None, l_flags = None, l_reserved = None, l_invoke = None,
                 l_descriptor = None\<rparr>"

definition all_bound :: "from_stack_locals \<Rightarrow> bool" where
  "all_bound L \<longleftrightarrow> l_isa L \<noteq> None \<and> l_flags L \<noteq> None \<and> l_reserved L \<noteq> None
                   \<and> l_invoke L \<noteq> None \<and> l_descriptor L \<noteq> None"

text \<open>The \<open>if\<close>/\<open>elif\<close> chain on \<open>insn.dest.member_index\<close>.\<close>

definition from_stack_assign :: "nat \<Rightarrow> hlil \<Rightarrow> from_stack_locals \<Rightarrow> error + from_stack_locals" where
  "from_stack_assign member_index src L =
     (if member_index = 0 then
        (case src of
           HighLevelILImport nm addr \<Rightarrow>
             if nm = ''__NSConcreteStackBlock'' then Inr (L\<lparr>l_isa := Some addr\<rparr>) else Inr L
         | _ \<Rightarrow> Inr L)
      else if member_index = 1 then
        (case src of
           HighLevelILStructField s k \<Rightarrow> Inl RuntimeError
         | _ \<Rightarrow> (case const_value src of
                   Some c \<Rightarrow> Inr (L\<lparr>l_flags := Some c\<rparr>)
                 | None \<Rightarrow> Inr L))
      else if member_index = 2 then Inr (L\<lparr>l_reserved := Some (const_value src)\<rparr>)
      else if member_index = 3 then
        (case const_value src of
           Some c \<Rightarrow> Inr (L\<lparr>l_invoke := Some c\<rparr>)
         | None \<Rightarrow> Inr L)
      else if member_index = 4 then
        (case const_value src of
           Some c \<Rightarrow> Inr (L\<lparr>l_descriptor := Some c\<rparr>)
         | None \<Rightarrow> Inr L)
      else Inr L)"

text \<open>The \<open>for insn in ...\<close> loop with its \<open>break\<close> once all five names are bound.\<close>

fun from_stack_loop :: "var_id \<Rightarrow> insn list \<Rightarrow> from_stack_locals \<Rightarrow> error + from_stack_locals" where
  "from_stack_loop var_id [] L = Inr L"
| "from_stack_loop var_id (insn # rest) L =
     (case yield_struct_field_assign var_id insn of
        Inl e \<Rightarrow> Inl e
      | Inr None \<Rightarrow> from_stack_loop var_id rest L
      | Inr (Some (member_index, src)) \<Rightarrow>
          (case from_stack_assign member_index src L of
             Inl e \<Rightarrow> Inl e
           | Inr L' \<Rightarrow> if all_bound L' then Inr L' else from_stack_loop var_id rest L'))"

text \<open>\<open>stack_var_id\<close> from the reloaded \<open>bl_insn\<close>.\<close>

definition from_stack_var_id :: "insn \<Rightarrow> error + var_id" where
  "from_stack_var_id bl_insn =
     (case snd bl_insn of
        HighLevelILVarDeclare v \<Rightarrow> Inr v
      | HighLevelILVarInit v src \<Rightarrow> Inr v
      | HighLevelILAssign dest src \<Rightarrow>
          (case dest of
             HighLevelILStructField dsrc k \<Rightarrow> node_var dsrc
           | _ \<Rightarrow> Inl RuntimeError)
      | _ \<Rightarrow> Inl RuntimeError)"

text \<open>\<open>BlockLiteral.from_stack(bv, bl_insn, bl_var)\<close>. \<open>func\<close> is the HLIL of the function
  after \<open>bl_var.type\<close> was set to \<open>Block_literal\<close> (line 286; the effect of that assignment
  on the host's variables is \<open>from_stack_retype\<close> below, which the stack pipeline applies).
  The call \<open>cls(..., isa, flags, reserved, invoke, descriptor)\<close> raises UnboundLocalError
  at the first unbound name.\<close>

definition from_stack :: "insn list \<Rightarrow> insn \<Rightarrow> error + int block_literal" where
  "from_stack func bl_insn0 =
     (case reload_hlil_instruction func bl_insn0 of Inl e \<Rightarrow> Inl e | Inr bl_insn \<Rightarrow>
      (case from_stack_var_id bl_insn of Inl e \<Rightarrow> Inl e | Inr stack_var_id \<Rightarrow>
       (case from_stack_loop stack_var_id func no_locals of Inl e \<Rightarrow> Inl e | Inr L \<Rightarrow>
        (case l_isa L of None \<Rightarrow> Inl UnboundLocalError | Some isa \<Rightarrow>
         (case l_flags L of None \<Rightarrow> Inl UnboundLocalError | Some flags \<Rightarrow>
          (case l_reserved L of None \<Rightarrow> Inl UnboundLocalError | Some reserved \<Rightarrow>
           (case l_invoke L of None \<Rightarrow> Inl UnboundLocalError | Some invoke \<Rightarrow>
            (case l_descriptor L of None \<Rightarrow> Inl UnboundLocalError | Some descriptor \<Rightarrow>
               BlockLiteral_init True (Insn bl_insn) isa flags reserved invoke descriptor))))))))"


section \<open>BlockLiteral.annotate_literal\<close>

definition hex_int :: "int \<Rightarrow> string" where
  "hex_int i = (if i < 0 then CHR ''-'' # hex_str (nat (- i)) else hex_str (nat i))"

text \<open>The two comments \<open>annotate_literal\<close> can set at the literal's address:
  \<open>SizeMismatch size width n_unaccounted\<close> for the "bytes missing" note, and
  \<open>AlreadyAnnotated var_name var_type struct_type_name\<close>.\<close>

datatype comment =
    SizeMismatch int nat int
  | AlreadyAnnotated string string string

text \<open>What the host knows of the annotated variable before the call.\<close>

record variable_info =
  var_name :: string
  var_type :: string


text \<open>The attributes \<open>annotate_literal\<close> assigns on the literal, the descriptor as
  \<open>append_layout_fields\<close> left it, and the effects on the host: the name and the type
  given to the stack variable or data variable (\<open>None\<close>: not touched), the comment set,
  the warnings printed. \<open>la_byref_indexes = None\<close>: the attribute was never assigned.\<close>

record literal_annotation =
  la_struct_builder :: structure_builder
  la_struct_name :: string
  la_byref_indexes :: "nat list option"
  la_descriptor :: block_descriptor
  la_insn :: "insn_or_data_var"
  la_var_name :: "string option"
  la_var_type :: "string option"
  la_comment :: "comment option"
  la_messages :: "message list"

definition literal_header :: structure_builder where
  "literal_header =
     struct_append (PointerTo ''Block_descriptor_1'') ''descriptor''
       (struct_append BlockInvokeFunction ''invoke''
         (struct_append UInt32 ''reserved''
           (struct_append VolatileUInt32 ''flags''
             (struct_append Class ''isa'' (StructureBuilder_create True)))))"

text \<open>The stack variable of \<open>self.insn\<close> in \<open>annotate_literal\<close>.\<close>

definition annotate_literal_stack_var :: "insn_or_data_var \<Rightarrow> error + var_id" where
  "annotate_literal_stack_var tgt =
     (case tgt of
        DataVar a \<Rightarrow> Inl AttributeError
      | Insn insn \<Rightarrow>
          (case snd insn of
             HighLevelILVarDeclare v \<Rightarrow> Inr v
           | HighLevelILAssign dest src \<Rightarrow>
               (case dest of
                  HighLevelILStructField dsrc k \<Rightarrow> node_var dsrc
                | _ \<Rightarrow> Inl RuntimeError)
           | _ \<Rightarrow> Inl RuntimeError))"

text \<open>The final size check (lines 417-421), on the finished annotation.\<close>

definition size_check :: "block_descriptor \<Rightarrow> literal_annotation \<Rightarrow> literal_annotation" where
  "size_check bd la =
     (if int (width (la_struct_builder la)) < bd_size bd
      then la\<lparr>la_comment :=
                Some (SizeMismatch (bd_size bd) (width (la_struct_builder la))
                        (bd_size bd - int (width (la_struct_builder la))))\<rparr>
      else la)"

text \<open>Lines 373-381: the packed structure with the five header members and, when
  \<open>bd.imported_variables_size > 0\<close>, the layout fields. \<open>bd.layout\<close> is evaluated as an
  argument of the call, so it raises AttributeError when the attribute was never
  assigned. With \<open>bd.layout\<close> Python's \<open>None\<close>, \<open>append_layout_fields\<close> finds \<open>layout == 0\<close>
  false, returns at \<open>if not block_has_extended_layout\<close>, and otherwise raises TypeError
  at \<open>layout < 0x1000\<close>. The result is the structure, \<open>self.byref_indexes\<close> (\<open>None\<close>: never
  assigned), the descriptor (with \<open>layout_end\<close> set by the bytecode decoder) and the
  warnings.\<close>

definition literal_struct ::
  "binary_view \<Rightarrow> block_descriptor
     \<Rightarrow> error + (structure_builder \<times> nat list option \<times> block_descriptor \<times> message list)" where
  "literal_struct bv bd =
     (if imported_variables_size bd > 0 then
        (case bd_layout bd of
           None \<Rightarrow> Inl AttributeError
         | Some None \<Rightarrow>
             if \<not> block_has_extended_layout bd then Inr (literal_header, Some [], bd, [])
             else Inl TypeError
         | Some (Some layout) \<Rightarrow>
             (case append_layout_fields bv literal_header layout
                     (block_has_extended_layout bd) (Some []) (Some bd) of
                Inl e \<Rightarrow> Inl e
              | Inr (s, bi, leo, msgs) \<Rightarrow>
                  Inr (s, bi, (case leo of None \<Rightarrow> bd | Some bd' \<Rightarrow> bd'), msgs)))
      else Inr (literal_header, None, bd, []))"

text \<open>Lines 388-412, the stack block: the variable of \<open>self.insn\<close>, the early \<open>return\<close>
  when it already has another \<open>Block_literal_\<close> type (the flag is \<open>True\<close>), else the
  renaming, retyping and reload (the flag is \<open>False\<close>).\<close>

definition annotate_stack_var ::
  "insn list \<Rightarrow> (var_id \<Rightarrow> variable_info) \<Rightarrow> 'v block_literal \<Rightarrow> literal_annotation
     \<Rightarrow> error + (literal_annotation \<times> bool)" where
  "annotate_stack_var func vars bl la =
     (case annotate_literal_stack_var (bl_target bl) of
        Inl e \<Rightarrow> Inl e
      | Inr v \<Rightarrow>
         if prefix ''struct Block_literal_'' (var_type (vars v))
            \<and> var_type (vars v) \<noteq> ''struct '' @ la_struct_name la
         then Inr (la\<lparr>la_comment :=
                       Some (AlreadyAnnotated (var_name (vars v)) (var_type (vars v))
                               (''struct '' @ la_struct_name la))\<rparr>, True)
         else
           (case (case bl_target bl of
                    Insn i \<Rightarrow> reload_hlil_instruction func i
                  | DataVar a \<Rightarrow> Inl AttributeError) of
              Inl e \<Rightarrow> Inl e
            | Inr insn' \<Rightarrow>
                Inr (la\<lparr>la_var_name :=
                           (if prefix ''stack_block_'' (var_name (vars v)) then None
                            else Some (''stack_block_'' @ var_name (vars v))),
                         la_var_type := Some (''struct '' @ la_struct_name la),
                         la_insn := Insn insn'\<rparr>, False)))"

text \<open>\<open>annotate_literal(self, bd)\<close>. \<open>func\<close> is the function's HLIL for the reload and
  \<open>vars\<close> the host's variables at the call; a global block uses neither.\<close>

definition annotate_literal ::
  "binary_view \<Rightarrow> insn list \<Rightarrow> (var_id \<Rightarrow> variable_info) \<Rightarrow> 'v block_literal
     \<Rightarrow> block_descriptor \<Rightarrow> error + literal_annotation" where
  "annotate_literal bv func vars bl bd =
     (case literal_struct bv bd of
        Inl e \<Rightarrow> Inl e
      | Inr (struct, byref_indexes, bd', msgs) \<Rightarrow>
         (let la = \<lparr>la_struct_builder = struct,
                    la_struct_name = ''Block_literal_'' @ hex_int (bl_address bl),
                    la_byref_indexes = byref_indexes, la_descriptor = bd',
                    la_insn = bl_target bl, la_var_name = None, la_var_type = None,
                    la_comment = None, la_messages = msgs\<rparr>
          in if bl_is_stack_block bl then
               (case annotate_stack_var func vars bl la of
                  Inl e \<Rightarrow> Inl e
                | Inr (la', returned) \<Rightarrow>
                    if returned then Inr la' else Inr (size_check bd' la'))
             else
               Inr (size_check bd'
                     (la\<lparr>la_var_name := Some (''global_block_'' @ hex_int (bl_address bl)),
                          la_var_type := Some (''struct '' @ la_struct_name la)\<rparr>))))"

section \<open>The global block pipeline\<close>

text \<open>The \<open>try\<close> block of \<open>annotate_global_block_literal\<close> up to \<open>annotate_literal\<close>:
  \<open>from_data\<close>, \<open>print(bl)\<close>, \<open>BlockDescriptor\<close>, \<open>print(bd)\<close>, \<open>annotate_literal\<close>.
  \<open>print(bl)\<close> formats \<open>invoke\<close> and \<open>descriptor\<close> with \<open>:x\<close>, which raises TypeError on
  \<open>None\<close>; \<open>print(bd)\<close> formats the address and the size, which are integers. An
  exception in any of these is caught by the \<open>except\<close> clause, which prints it and
  returns: the instance is given up.\<close>

definition annotate_global_block_literal ::
  "binary_view \<Rightarrow> int \<Rightarrow> error + (int option block_literal \<times> literal_annotation)" where
  "annotate_global_block_literal bv block_literal_addr =
     (case from_data bv block_literal_addr of Inl e \<Rightarrow> Inl e | Inr bl \<Rightarrow>
      (case bl_invoke bl of
         None \<Rightarrow> Inl TypeError
       | Some invoke \<Rightarrow>
          (case bl_descriptor bl of
             None \<Rightarrow> Inl TypeError
           | Some descriptor \<Rightarrow>
              (case BlockDescriptor_init bv descriptor (bl_flags bl) of
                 Inl e \<Rightarrow> Inl e
               | Inr bd \<Rightarrow>
                  (case annotate_literal bv [] (\<lambda>v. \<lparr>var_name = [], var_type = []\<rparr>) bl bd of
                     Inl e \<Rightarrow> Inl e
                   | Inr la \<Rightarrow> Inr (bl, la))))))"

section \<open>The stack block pipeline\<close>

section \<open>Byref cells of a stack block\<close>

text \<open>The second \<open>try\<close> block of \<open>annotate_stack_block_literal\<close> (lines 735-881). \<open>func\<close> is
  the HLIL of the function as the host presents it with the struct types applied; variable
  identifiers are stable across the reloads, as the source assumes (line 791). The names
  and types the source gives to the byref variables themselves are host state and are not
  tracked; the types it defines are.\<close>

text \<open>The type registry \<open>bv.define_type(id, name, struct)\<close> writes to.\<close>

definition define_type ::
  "string \<Rightarrow> structure_builder \<Rightarrow> (string \<times> structure_builder) list
     \<Rightarrow> (string \<times> structure_builder) list" where
  "define_type nm s reg =
     (case map_of reg nm of
        None \<Rightarrow> reg @ [(nm, s)]
      | Some old \<Rightarrow> map (\<lambda>e. if fst e = nm then (nm, s) else e) reg)"

text \<open>The names that stay bound from one iteration of the byref loop to the next
  (\<open>byref_flags\<close>, \<open>byref_size\<close>, \<open>byref_layout\<close>; \<open>None\<close> is unbound), the literal's
  structure, the registry, and what was printed.\<close>

record byref_state =
  bs_byref_flags :: "int option"
  bs_byref_size :: "int option"
  bs_byref_layout :: "int option"
  bs_literal_struct :: structure_builder
  bs_types :: "(string \<times> structure_builder) list"
  bs_messages :: "message list"

text \<open>Lines 740-756: \<open>Some (Some src)\<close> for an address-of source, \<open>Some None\<close> for the
  listed node classes (\<open>insn_src = None\<close>), \<open>None\<close> for the "Skipping" branch.\<close>

definition byref_insn_src :: "hlil \<Rightarrow> hlil option option" where
  "byref_insn_src src =
     (case src of
        HighLevelILAddressOf x \<Rightarrow> Some (Some src)
      | HighLevelILDerefField s k \<Rightarrow> Some None
      | HighLevelILDeref s \<Rightarrow> Some None
      | HighLevelILImport nm a \<Rightarrow> Some None
      | HighLevelILConst c \<Rightarrow> Some None
      | HighLevelILConstPtr c \<Rightarrow> Some None
      | HighLevelILCall \<Rightarrow> Some None
      | HighLevelILStructField s k \<Rightarrow> Some None
      | HighLevelILVar w \<Rightarrow> Some None
      | _ \<Rightarrow> None)"

fun collect_byref_srcs ::
  "var_id \<Rightarrow> nat list \<Rightarrow> insn list \<Rightarrow> (hlil option \<times> nat) list \<Rightarrow> message list
     \<Rightarrow> error + ((hlil option \<times> nat) list \<times> message list)" where
  "collect_byref_srcs v byref_indexes [] byref_srcs msgs = Inr (byref_srcs, msgs)"
| "collect_byref_srcs v byref_indexes (insn # rest) byref_srcs msgs =
     (case yield_struct_field_assign v insn of
        Inl e \<Rightarrow> Inl e
      | Inr None \<Rightarrow> collect_byref_srcs v byref_indexes rest byref_srcs msgs
      | Inr (Some (member_index, src)) \<Rightarrow>
          (case byref_insn_src src of
             None \<Rightarrow>
               collect_byref_srcs v byref_indexes rest byref_srcs (msgs @ [SkippingRhs src])
           | Some insn_src \<Rightarrow>
               collect_byref_srcs v byref_indexes rest
                 (if List.member byref_indexes member_index
                  then byref_srcs @ [(insn_src, member_index)] else byref_srcs)
                 msgs))"

text \<open>Lines 771-789: the first declaration or initialisation of the variable.\<close>

fun find_byref_insn :: "var_id \<Rightarrow> insn list \<Rightarrow> insn option" where
  "find_byref_insn var_id [] = None"
| "find_byref_insn var_id (insn # rest) =
     (case snd insn of
        HighLevelILVarDeclare w \<Rightarrow>
          if w = var_id then Some insn else find_byref_insn var_id rest
      | HighLevelILVarInit w src \<Rightarrow>
          if w = var_id then Some insn else find_byref_insn var_id rest
      | _ \<Rightarrow> find_byref_insn var_id rest)"

definition byref_header :: structure_builder where
  "byref_header =
     struct_append UInt32 ''size''
       (struct_append VolatileInt32 ''flags''
         (struct_append VoidPtr ''forwarding''
           (struct_append Class ''isa'' (StructureBuilder_create False))))"

text \<open>Lines 806-816: the scan for constant assignments to fields 2 (flags) and 3 (size),
  starting from the values the two names have on entry.\<close>

fun scan_flags_size ::
  "var_id \<Rightarrow> insn list \<Rightarrow> int option \<times> int option \<Rightarrow> error + (int option \<times> int option)" where
  "scan_flags_size v [] fs = Inr fs"
| "scan_flags_size v (insn # rest) fs =
     (case yield_struct_field_assign v insn of
        Inl e \<Rightarrow> Inl e
      | Inr None \<Rightarrow> scan_flags_size v rest fs
      | Inr (Some (member_index, src)) \<Rightarrow>
          if member_index = 2 then
            (case const_value src of
               Some c \<Rightarrow> scan_flags_size v rest (Some c, snd fs)
             | None \<Rightarrow> scan_flags_size v rest fs)
          else if member_index = 3 then
            (case const_value src of
               Some c \<Rightarrow> scan_flags_size v rest (fst fs, Some c)
             | None \<Rightarrow> scan_flags_size v rest fs)
          else scan_flags_size v rest fs)"

text \<open>Lines 833-838: the first assignment to the layout member; \<open>Inr None\<close> when the loop
  ends without one (\<open>byref_layout\<close> keeps whatever it was bound to).\<close>

fun scan_layout :: "var_id \<Rightarrow> nat \<Rightarrow> insn list \<Rightarrow> error + int option" where
  "scan_layout v layout_index [] = Inr None"
| "scan_layout v layout_index (insn # rest) =
     (case yield_struct_field_assign v insn of
        Inl e \<Rightarrow> Inl e
      | Inr None \<Rightarrow> scan_layout v layout_index rest
      | Inr (Some (member_index, src)) \<Rightarrow>
          if member_index = layout_index then
            (case const_value src of
               None \<Rightarrow> Inl AssertionError
             | Some c \<Rightarrow> Inr (Some c))
          else scan_layout v layout_index rest)"

text \<open>Lines 823-825.\<close>

definition byref_keep_destroy :: "int \<Rightarrow> structure_builder \<Rightarrow> structure_builder" where
  "byref_keep_destroy byref_flags s =
     (if byref_flags AND BLOCK_BYREF_HAS_COPY_DISPOSE \<noteq> 0
      then struct_append BlockByrefDestroyFunction ''byref_destroy''
             (struct_append BlockByrefKeepFunction ''byref_keep'' s)
      else s)"

text \<open>Lines 828-844, the extended layout: the \<open>layout\<close> member, the reload, the scan for
  its constant, the retyping of the member and the nested \<open>append_layout_fields\<close>.
  \<open>byref_layout\<close> is the value the name has on entry; reading it unbound raises.\<close>

definition byref_extended_layout ::
  "binary_view \<Rightarrow> insn list \<Rightarrow> insn \<Rightarrow> int option \<Rightarrow> structure_builder
     \<Rightarrow> error + (structure_builder \<times> int option \<times> message list)" where
  "byref_extended_layout bv func byref_insn byref_layout s =
     (let s1 = struct_append VoidPtr ''layout'' s in
      case index_by_name s1 ''layout'' of None \<Rightarrow> Inl TypeError | Some layout_index \<Rightarrow>
      (case reload_hlil_instruction func byref_insn of Inl e \<Rightarrow> Inl e | Inr byref_insn' \<Rightarrow>
       (case node_var (snd byref_insn') of Inl e \<Rightarrow> Inl e | Inr v \<Rightarrow>
        (case scan_layout v layout_index func of Inl e \<Rightarrow> Inl e | Inr found \<Rightarrow>
         (case (case found of Some c \<Rightarrow> Some c | None \<Rightarrow> byref_layout) of
            None \<Rightarrow> Inl UnboundLocalError
          | Some layout \<Rightarrow>
             (let s2 = (if layout \<noteq> 0 then
                          (if layout < 0x1000 then struct_replace layout_index UInt64 ''layout'' s1
                           else struct_replace layout_index UInt8ConstPtr ''layout'' s1)
                        else s1) in
              case append_layout_fields bv s2 layout True None None of
                Inl e \<Rightarrow> Inl e
              | Inr (s3, bi, leo, msgs) \<Rightarrow> Inr (s3, Some layout, msgs)))))))"

text \<open>Lines 826-852: the payload selected by the layout nibble of \<open>byref_flags\<close>. The result
  is the structure, the binding of \<open>byref_layout\<close> afterwards and the warnings.\<close>

definition byref_payload ::
  "binary_view \<Rightarrow> insn list \<Rightarrow> insn \<Rightarrow> int \<Rightarrow> int option \<Rightarrow> structure_builder
     \<Rightarrow> error + (structure_builder \<times> int option \<times> message list)" where
  "byref_payload bv func byref_insn byref_flags byref_layout s =
     (let byref_layout_nibble = byref_flags AND BLOCK_BYREF_LAYOUT_MASK in
      if byref_layout_nibble = BLOCK_BYREF_LAYOUT_EXTENDED then
        byref_extended_layout bv func byref_insn byref_layout s
      else if byref_layout_nibble = BLOCK_BYREF_LAYOUT_NON_OBJECT then
        Inr (struct_append UInt64 ''non_object_0'' s, byref_layout, [])
      else if byref_layout_nibble = BLOCK_BYREF_LAYOUT_STRONG then
        Inr (struct_append ObjcId ''strong_ptr_0'' s, byref_layout, [])
      else if byref_layout_nibble = BLOCK_BYREF_LAYOUT_WEAK then
        Inr (struct_append ObjcId ''weak_ptr_0'' s, byref_layout, [])
      else if byref_layout_nibble = BLOCK_BYREF_LAYOUT_UNRETAINED then
        Inr (struct_append ObjcId ''unretained_ptr_0'' s, byref_layout, [])
      else Inr (s, byref_layout, []))"

text \<open>Lines 823-852 together: the members appended after the fixed header.\<close>

definition byref_members ::
  "binary_view \<Rightarrow> insn list \<Rightarrow> insn \<Rightarrow> int \<Rightarrow> int option \<Rightarrow> structure_builder
     \<Rightarrow> error + (structure_builder \<times> int option \<times> message list)" where
  "byref_members bv func byref_insn byref_flags byref_layout s =
     byref_payload bv func byref_insn byref_flags byref_layout (byref_keep_destroy byref_flags s)"

text \<open>Lines 854-872: the type is defined, \<open>forwarding\<close> becomes a pointer to it, and the byref
  member of the literal's structure becomes a pointer to it.\<close>

definition link_byref ::
  "string \<Rightarrow> int \<Rightarrow> nat \<Rightarrow> structure_builder \<Rightarrow> byref_state \<Rightarrow> error + byref_state" where
  "link_byref literal_name byref_address byref_member_index byref_struct st =
     (let byref_struct_name = ''Block_byref_'' @ hex_int byref_address;
          byref_struct' = struct_replace 1 (PointerTo byref_struct_name) ''forwarding''
                            byref_struct;
          reg = define_type byref_struct_name byref_struct'
                  (define_type byref_struct_name byref_struct (bs_types st))
      in if \<not> byref_member_index < length (members (bs_literal_struct st)) then Inl IndexError
         else
           (let byref_member_name = mname (members (bs_literal_struct st) ! byref_member_index)
            in if \<not> prefix ''byref_ptr_'' byref_member_name then Inl AssertionError
               else
                 (let literal_struct' =
                        struct_replace byref_member_index (PointerTo byref_struct_name)
                          byref_member_name (bs_literal_struct st)
                  in Inr (st\<lparr>bs_literal_struct := literal_struct',
                              bs_types := define_type literal_name literal_struct' reg\<rparr>))))"

text \<open>One iteration of \<open>for byref_src, byref_member_index in byref_srcs\<close>. Each \<open>continue\<close>
  returns the state; an exception leaves the whole loop.\<close>

definition byref_iteration ::
  "binary_view \<Rightarrow> insn list \<Rightarrow> string \<Rightarrow> hlil option \<times> nat \<Rightarrow> byref_state
     \<Rightarrow> error + byref_state" where
  "byref_iteration bv func literal_name entry st =
     (case fst entry of
        None \<Rightarrow> Inr st
      | Some byref_src \<Rightarrow>
         (case byref_src of
            HighLevelILAddressOf x \<Rightarrow>
              (case x of
                 HighLevelILVar var_id \<Rightarrow>
                   (case find_byref_insn var_id func of
                      None \<Rightarrow>
                        Inr (st\<lparr>bs_messages :=
                                  bs_messages st @ [ByrefVarNotFound byref_src var_id]\<rparr>)
                    | Some byref_insn \<Rightarrow>
                       (case reload_hlil_instruction func byref_insn of
                          Inl e \<Rightarrow> Inl e
                        | Inr byref_insn' \<Rightarrow>
                           (case node_var (snd byref_insn') of
                              Inl e \<Rightarrow> Inl e
                            | Inr v \<Rightarrow>
                               (case scan_flags_size v func
                                       (bs_byref_flags st, bs_byref_size st) of
                                  Inl e \<Rightarrow> Inl e
                                | Inr fs \<Rightarrow>
                                   (let st1 = st\<lparr>bs_byref_flags := fst fs,
                                                bs_byref_size := snd fs\<rparr> in
                                    case fst fs of
                                      None \<Rightarrow>
                                        Inr (st1\<lparr>bs_messages :=
                                               bs_messages st @ [ByrefFailed (fst byref_insn')]\<rparr>)
                                    | Some byref_flags \<Rightarrow>
                                       (case snd fs of
                                          None \<Rightarrow>
                                            Inr (st1\<lparr>bs_messages :=
                                               bs_messages st @ [ByrefFailed (fst byref_insn')]\<rparr>)
                                        | Some byref_size \<Rightarrow>
                                           (case byref_members bv func byref_insn' byref_flags
                                                   (bs_byref_layout st) byref_header of
                                              Inl e \<Rightarrow> Inl e
                                            | Inr (byref_struct, byref_layout, msgs) \<Rightarrow>
                                                link_byref literal_name (fst byref_insn')
                                                  (snd entry) byref_struct
                                                  (st1\<lparr>bs_byref_layout := byref_layout,
                                                       bs_messages :=
                                                         bs_messages st
                                                         @ [ByrefInfo (fst byref_insn')
                                                              byref_flags byref_size]
                                                         @ msgs\<rparr>))))))))
               | _ \<Rightarrow>
                   Inr (st\<lparr>bs_messages := bs_messages st @ [ByrefSrcNotVar byref_src]\<rparr>))
          | _ \<Rightarrow> Inl AssertionError))"

fun byref_loop ::
  "binary_view \<Rightarrow> insn list \<Rightarrow> string \<Rightarrow> (hlil option \<times> nat) list \<Rightarrow> byref_state
     \<Rightarrow> error + byref_state" where
  "byref_loop bv func literal_name [] st = Inr st"
| "byref_loop bv func literal_name (entry # rest) st =
     (case byref_iteration bv func literal_name entry st of
        Inl e \<Rightarrow> Inl e
      | Inr st' \<Rightarrow> byref_loop bv func literal_name rest st')"

text \<open>The whole block; an \<open>Inl\<close> is what the \<open>except\<close> clause prints before returning.\<close>

definition annotate_stack_byrefs ::
  "binary_view \<Rightarrow> insn list \<Rightarrow> literal_annotation \<Rightarrow> block_descriptor \<Rightarrow> error + byref_state" where
  "annotate_stack_byrefs bv func la bd =
     (let st0 = \<lparr>bs_byref_flags = None, bs_byref_size = None, bs_byref_layout = None,
                 bs_literal_struct = la_struct_builder la,
                 bs_types = [(la_struct_name la, la_struct_builder la)], bs_messages = []\<rparr>
      in if \<not> imported_variables_size bd > 0 then Inr st0
         else
           (case la_byref_indexes la of
              None \<Rightarrow> Inl AttributeError
            | Some byref_indexes \<Rightarrow>
               if \<not> length byref_indexes > 0 then Inr st0
               else
                 (case (case la_insn la of
                          Insn i \<Rightarrow> node_var (snd i)
                        | DataVar a \<Rightarrow> Inl AttributeError) of
                    Inl e \<Rightarrow> Inl e
                  | Inr v \<Rightarrow>
                     (case collect_byref_srcs v byref_indexes func [] [] of
                        Inl e \<Rightarrow> Inl e
                      | Inr (byref_srcs, msgs) \<Rightarrow>
                          if length byref_srcs \<noteq> length byref_indexes then Inl AssertionError
                          else byref_loop bv func (la_struct_name la) byref_srcs
                                 (st0\<lparr>bs_messages := msgs\<rparr>)))))"

section \<open>Layout slots as the specification names them\<close>

datatype slot_kind =
    NonObjectBytes nat
  | NonObjectWords
  | StrongPointer
  | ByrefPointer
  | WeakPointer
  | UnretainedPointer
  | NotASlot

definition slot_kind_of :: "struct_member \<Rightarrow> slot_kind" where
  "slot_kind_of m =
     (if mtype m = ObjcId \<and> prefix ''strong_ptr_'' (mname m) then StrongPointer
      else if mtype m = ObjcId \<and> prefix ''byref_ptr_'' (mname m) then ByrefPointer
      else if mtype m = ObjcId \<and> prefix ''weak_ptr_'' (mname m) then WeakPointer
      else if mtype m = ObjcId \<and> prefix ''unretained_ptr_'' (mname m) then UnretainedPointer
      else if mtype m = UInt64 \<and> prefix ''non_object_'' (mname m) then NonObjectWords
      else (case mtype m of
              UInt8Array n \<Rightarrow> if prefix ''non_object_'' (mname m) then NonObjectBytes n else NotASlot
            | _ \<Rightarrow> NotASlot))"


definition high_nibble :: "8 word \<Rightarrow> nat" where
  "high_nibble b = unat b div 16"

definition low_nibble :: "8 word \<Rightarrow> nat" where
  "low_nibble b = unat b mod 16"

definition slots_of_op :: "8 word \<Rightarrow> slot_kind list" where
  "slots_of_op b =
     (let n = low_nibble b in
      if high_nibble b = 1 then [NonObjectBytes n]
      else if high_nibble b = 2 then replicate n NonObjectWords
      else if high_nibble b = 3 then replicate n StrongPointer
      else if high_nibble b = 4 then replicate n ByrefPointer
      else if high_nibble b = 5 then replicate n WeakPointer
      else if high_nibble b = 6 then replicate n UnretainedPointer
      else [])"

fun byref_positions :: "nat \<Rightarrow> slot_kind list \<Rightarrow> nat list" where
  "byref_positions i [] = []"
| "byref_positions i (k # ks) =
     (if k = ByrefPointer then [i] else []) @ byref_positions (Suc i) ks"

section \<open>Predicates used in the properties\<close>


text \<open>The right-hand side that binds header field \<open>k\<close> to the given value in
  \<open>from_stack\<close>: the stack-block marker import for field 0, a constant for fields 1, 3
  and 4, a constant or anything else (\<open>reserved = None\<close>) for field 2. Fields beyond the
  header are not constrained.\<close>

definition header_source ::
  "int \<Rightarrow> int \<Rightarrow> int option \<Rightarrow> int \<Rightarrow> int \<Rightarrow> nat \<Rightarrow> hlil \<Rightarrow> bool" where
  "header_source isa flags reserved invoke descriptor k src \<longleftrightarrow>
     (if k = 0 then src = HighLevelILImport ''__NSConcreteStackBlock'' isa
      else if k = 1 then const_value src = Some flags
      else if k = 2 then const_value src = reserved
      else if k = 3 then const_value src = Some invoke
      else if k = 4 then const_value src = Some descriptor
      else True)"

text \<open>An instruction of a stream that assigns the header consistently: it is skipped by
  the generator, or it is yielded with a right-hand side as above.\<close>

definition header_insn ::
  "var_id \<Rightarrow> int \<Rightarrow> int \<Rightarrow> int option \<Rightarrow> int \<Rightarrow> int \<Rightarrow> insn \<Rightarrow> bool" where
  "header_insn v isa flags reserved invoke descriptor i \<longleftrightarrow>
     (case yield_struct_field_assign v i of
        Inl e \<Rightarrow> False
      | Inr None \<Rightarrow> True
      | Inr (Some (k, src)) \<Rightarrow> header_source isa flags reserved invoke descriptor k src)"

text \<open>Some instruction of the stream is yielded as an assignment to field \<open>k\<close>.\<close>

definition assigns_field :: "var_id \<Rightarrow> insn list \<Rightarrow> nat \<Rightarrow> bool" where
  "assigns_field v func k \<longleftrightarrow>
     list_ex (\<lambda>i. case yield_struct_field_assign v i of
                     Inr (Some (k', src)) \<Rightarrow> k' = k
                   | _ \<Rightarrow> False) func"

definition bound :: "from_stack_locals \<Rightarrow> nat \<Rightarrow> bool" where
  "bound L k \<longleftrightarrow>
     (if k = 0 then l_isa L \<noteq> None
      else if k = 1 then l_flags L \<noteq> None
      else if k = 2 then l_reserved L \<noteq> None
      else if k = 3 then l_invoke L \<noteq> None
      else if k = 4 then l_descriptor L \<noteq> None
      else True)"

definition agrees ::
  "int \<Rightarrow> int \<Rightarrow> int option \<Rightarrow> int \<Rightarrow> int \<Rightarrow> from_stack_locals \<Rightarrow> bool" where
  "agrees isa flags reserved invoke descriptor L \<longleftrightarrow>
     (l_isa L = None \<or> l_isa L = Some isa)
     \<and> (l_flags L = None \<or> l_flags L = Some flags)
     \<and> (l_reserved L = None \<or> l_reserved L = Some reserved)
     \<and> (l_invoke L = None \<or> l_invoke L = Some invoke)
     \<and> (l_descriptor L = None \<or> l_descriptor L = Some descriptor)"

text \<open>A base expression of a struct-field destination that
  \<open>yield_struct_field_assign_hlil_instructions_for_var_id\<close> has no branch for.\<close>

definition unsupported_base :: "hlil \<Rightarrow> bool" where
  "unsupported_base dsrc \<longleftrightarrow>
     (case dsrc of
        HighLevelILVar w \<Rightarrow> False
      | HighLevelILArrayIndex b idx \<Rightarrow> False
      | HighLevelILStructField b k \<Rightarrow> False
      | HighLevelILDerefField b k \<Rightarrow> False
      | _ \<Rightarrow> True)"

text \<open>An instruction the generator passes over with \<open>continue\<close>: not an assignment, a
  destination that is not a struct field (a plain variable among them), a field of an
  array element or of a field whose base is not a variable, a field behind a pointer
  dereference, or a field of another variable.\<close>

definition skipped_insn :: "var_id \<Rightarrow> insn \<Rightarrow> bool" where
  "skipped_insn v i \<longleftrightarrow>
     (case snd i of
        HighLevelILAssign dest src \<Rightarrow>
          (case dest of
             HighLevelILStructField dsrc k \<Rightarrow>
               (case dsrc of
                  HighLevelILVar w \<Rightarrow> w \<noteq> v
                | HighLevelILArrayIndex b idx \<Rightarrow>
                    (case b of HighLevelILVar w \<Rightarrow> w \<noteq> v | _ \<Rightarrow> True)
                | HighLevelILStructField b k' \<Rightarrow>
                    (case b of HighLevelILVar w \<Rightarrow> w \<noteq> v | _ \<Rightarrow> True)
                | HighLevelILDerefField b k' \<Rightarrow> True
                | _ \<Rightarrow> False)
           | _ \<Rightarrow> True)
      | _ \<Rightarrow> True)"

text \<open>A member as (type, name), and the members the byref properties speak of.\<close>

definition member_sig :: "struct_member \<Rightarrow> ctype \<times> string" where
  "member_sig m = (mtype m, mname m)"

definition byref_header_sigs :: "(ctype \<times> string) list" where
  "byref_header_sigs =
     [(Class, ''isa''), (VoidPtr, ''forwarding''), (VolatileInt32, ''flags''), (UInt32, ''size'')]"

definition keep_destroy_sigs :: "int \<Rightarrow> (ctype \<times> string) list" where
  "keep_destroy_sigs byref_flags =
     (if byref_flags AND 0x02000000 \<noteq> 0
      then [(BlockByrefKeepFunction, ''byref_keep''), (BlockByrefDestroyFunction, ''byref_destroy'')]
      else [])"

definition layout_member_type :: "int \<Rightarrow> ctype" where
  "layout_member_type c = (if c = 0 then VoidPtr else if c < 0x1000 then UInt64 else UInt8ConstPtr)"

section \<open>Concrete inputs\<close>

definition empty_view :: binary_view where
  "empty_view = \<lparr>bv_start = 0, bv_data = [], bv_ascii_string_at = (\<lambda>_. None)\<rparr>"

definition bytecode_view :: "8 word list \<Rightarrow> binary_view" where
  "bytecode_view bs = \<lparr>bv_start = 0x2000, bv_data = bs, bv_ascii_string_at = (\<lambda>_. None)\<rparr>"

definition c1_view :: binary_view where
  "c1_view =
     \<lparr>bv_start = 0x2fe0,
      bv_data =
        [0x00, 0x10, 0, 0, 0, 0, 0, 0,
         0, 0, 0, 0x10,
         0, 0, 0, 0,
         0x00, 0x20, 0, 0, 0, 0, 0, 0,
         0x00, 0x30, 0, 0, 0, 0, 0, 0,
         0, 0, 0, 0, 0, 0, 0, 0,
         0x28, 0, 0, 0, 0, 0, 0, 0],
      bv_ascii_string_at = (\<lambda>_. None)\<rparr>"

text \<open>The image of \<open>c1_view\<close> cut after 24 bytes: the literal's \<open>descriptor\<close> word is not
  readable.\<close>

definition c1_short_view :: binary_view where
  "c1_short_view = c1_view\<lparr>bv_data := take 24 (bv_data c1_view)\<rparr>"

definition c6_view :: "int \<Rightarrow> binary_view" where
  "c6_view sz =
     \<lparr>bv_start = 0x3000,
      bv_data =
        [0, 0, 0, 0, 0, 0, 0, 0,
         word_of_int sz, 0, 0, 0, 0, 0, 0, 0,
         0x00, 0x40, 0, 0, 0, 0, 0, 0,
         0x00, 0x50, 0, 0, 0, 0, 0, 0,
         0, 0, 0, 0, 0, 0, 0, 0,
         0x00, 0x01, 0, 0, 0, 0, 0, 0],
      bv_ascii_string_at = (\<lambda>_. None)\<rparr>"

text \<open>The descriptor of \<open>c6_view\<close> (reserved 0, size 0x30) followed by one zero word, cut
  after \<open>n\<close> bytes.\<close>

definition c6_short_view :: "nat \<Rightarrow> binary_view" where
  "c6_short_view n =
     \<lparr>bv_start = 0x3000,
      bv_data =
        take n
          [0, 0, 0, 0, 0, 0, 0, 0,
           0x30, 0, 0, 0, 0, 0, 0, 0,
           0, 0, 0, 0, 0, 0, 0, 0],
      bv_ascii_string_at = (\<lambda>_. None)\<rparr>"







text \<open>The stream of claim C2: fields 3, 1 and 4 of variable 1, then the initialisation of
  the variable itself with the stack-block marker.\<close>

definition c2_stream :: "insn list" where
  "c2_stream =
     [(0x10, HighLevelILAssign (HighLevelILStructField (HighLevelILVar 1) 3)
               (HighLevelILConstPtr 0x4000)),
      (0x14, HighLevelILAssign (HighLevelILStructField (HighLevelILVar 1) 1)
               (HighLevelILConst 0x02000000)),
      (0x18, HighLevelILAssign (HighLevelILStructField (HighLevelILVar 1) 4)
               (HighLevelILConstPtr 0x5000)),
      (0x1c, HighLevelILVarInit 1 (HighLevelILImport ''__NSConcreteStackBlock'' 0x1c))]"

text \<open>The same assignments as the HLIL shows them once the variable has the
  \<open>Block_literal\<close> type (a declaration, and the marker assigned to field 0), without and
  with an assignment to field 2.\<close>

definition c2_retyped :: "insn list" where
  "c2_retyped =
     [(0x0c, HighLevelILVarDeclare 1),
      (0x10, HighLevelILAssign (HighLevelILStructField (HighLevelILVar 1) 3)
               (HighLevelILConstPtr 0x4000)),
      (0x14, HighLevelILAssign (HighLevelILStructField (HighLevelILVar 1) 1)
               (HighLevelILConst 0x02000000)),
      (0x18, HighLevelILAssign (HighLevelILStructField (HighLevelILVar 1) 4)
               (HighLevelILConstPtr 0x5000)),
      (0x1c, HighLevelILAssign (HighLevelILStructField (HighLevelILVar 1) 0)
               (HighLevelILImport ''__NSConcreteStackBlock'' 0x1c))]"

definition c2_with_reserved :: "insn list" where
  "c2_with_reserved =
     c2_retyped
     @ [(0x20, HighLevelILAssign (HighLevelILStructField (HighLevelILVar 1) 2)
                 (HighLevelILConst 0))]"

definition c3_bad_insn :: insn where
  "c3_bad_insn =
     (0x0e, HighLevelILAssign (HighLevelILStructField (HighLevelILDeref (HighLevelILVar 7)) 1)
              (HighLevelILConst 0))"

definition c3_stream :: "insn list" where
  "c3_stream = (0x0c, HighLevelILVarDeclare 1) # c3_bad_insn # tl c2_with_reserved"

definition c8_func :: "insn list" where
  "c8_func =
     [(0x104, HighLevelILVarDeclare 2),
      (0x110, HighLevelILAssign (HighLevelILStructField (HighLevelILVar 2) 4)
                (HighLevelILConst 0x100))]"

text \<open>A stack block (variable 1) capturing two byref variables: variable 2, whose flags
  and size are assigned constants, and variable 3, whose flags and size are assigned from
  other variables. \<open>first\<close> and \<open>second\<close> are the variables whose addresses are stored in
  the literal's members 5 and 6.\<close>

definition c10_func :: "var_id \<Rightarrow> var_id \<Rightarrow> insn list" where
  "c10_func first second =
     [(0x100, HighLevelILVarDeclare 1),
      (0x104, HighLevelILVarDeclare 2),
      (0x108, HighLevelILVarDeclare 3),
      (0x110, HighLevelILAssign (HighLevelILStructField (HighLevelILVar 2) 2)
                (HighLevelILConst 0x20000000)),
      (0x114, HighLevelILAssign (HighLevelILStructField (HighLevelILVar 2) 3)
                (HighLevelILConst 0x20)),
      (0x118, HighLevelILAssign (HighLevelILStructField (HighLevelILVar 3) 2)
                (HighLevelILVar 9)),
      (0x11c, HighLevelILAssign (HighLevelILStructField (HighLevelILVar 3) 3)
                (HighLevelILVar 10)),
      (0x120, HighLevelILAssign (HighLevelILStructField (HighLevelILVar 1) 0)
                (HighLevelILImport ''__NSConcreteStackBlock'' 0x120)),
      (0x124, HighLevelILAssign (HighLevelILStructField (HighLevelILVar 1) 1)
                (HighLevelILConst 0xc0000000)),
      (0x128, HighLevelILAssign (HighLevelILStructField (HighLevelILVar 1) 2)
                (HighLevelILConst 0)),
      (0x12c, HighLevelILAssign (HighLevelILStructField (HighLevelILVar 1) 3)
                (HighLevelILConstPtr 0x4000)),
      (0x130, HighLevelILAssign (HighLevelILStructField (HighLevelILVar 1) 4)
                (HighLevelILConstPtr 0x5000)),
      (0x134, HighLevelILAssign (HighLevelILStructField (HighLevelILVar 1) 5)
                (HighLevelILAddressOf (HighLevelILVar first))),
      (0x138, HighLevelILAssign (HighLevelILStructField (HighLevelILVar 1) 6)
                (HighLevelILAddressOf (HighLevelILVar second)))]"

definition c10_descriptor :: block_descriptor where
  "c10_descriptor =
     \<lparr>bd_address = 0x5000, bd_block_flags = 0xc0000000, bd_reserved = Some 0,
      bd_size = 0x30, bd_copy = None, bd_dispose = None, bd_signature = Some 0,
      bd_signature_raw = Some None, bd_layout = Some (Some 0x20), bd_layout_end = None\<rparr>"

definition c10_vars :: "var_id \<Rightarrow> variable_info" where
  "c10_vars v = \<lparr>var_name = ''var_58'', var_type = ''struct Block_literal''\<rparr>"

definition c10_annotation :: literal_annotation where
  "c10_annotation =
     \<lparr>la_struct_builder =
        \<lparr>packed = True,
         members =
           [\<lparr>mtype = Class, mname = ''isa'', moffset = 0\<rparr>,
            \<lparr>mtype = VolatileUInt32, mname = ''flags'', moffset = 8\<rparr>,
            \<lparr>mtype = UInt32, mname = ''reserved'', moffset = 12\<rparr>,
            \<lparr>mtype = BlockInvokeFunction, mname = ''invoke'', moffset = 16\<rparr>,
            \<lparr>mtype = PointerTo ''Block_descriptor_1'', mname = ''descriptor'', moffset = 24\<rparr>,
            \<lparr>mtype = ObjcId, mname = ''byref_ptr_20'', moffset = 32\<rparr>,
            \<lparr>mtype = ObjcId, mname = ''byref_ptr_28'', moffset = 40\<rparr>],
         width = 48\<rparr>,
      la_struct_name = ''Block_literal_100'',
      la_byref_indexes = Some [5, 6],
      la_descriptor = c10_descriptor,
      la_insn = Insn (0x100, HighLevelILVarDeclare 1),
      la_var_name = Some ''stack_block_var_58'',
      la_var_type = Some ''struct Block_literal_100'',
      la_comment = None,
      la_messages = []\<rparr>"

section \<open>Properties\<close>

lemmas block_flag_defs =
  BLOCK_HAS_EXTENDED_LAYOUT_def BLOCK_HAS_SIGNATURE_def BLOCK_IS_GLOBAL_def
  BLOCK_HAS_COPY_DISPOSE_def

lemmas byref_flag_defs =
  BLOCK_BYREF_HAS_COPY_DISPOSE_def BLOCK_BYREF_LAYOUT_MASK_def
  BLOCK_BYREF_LAYOUT_EXTENDED_def BLOCK_BYREF_LAYOUT_NON_OBJECT_def
  BLOCK_BYREF_LAYOUT_STRONG_def BLOCK_BYREF_LAYOUT_WEAK_def
  BLOCK_BYREF_LAYOUT_UNRETAINED_def

lemmas layout_op_defs =
  BLOCK_LAYOUT_ESCAPE_def BLOCK_LAYOUT_NON_OBJECT_BYTES_def BLOCK_LAYOUT_NON_OBJECT_WORDS_def
  BLOCK_LAYOUT_STRONG_def BLOCK_LAYOUT_BYREF_def BLOCK_LAYOUT_WEAK_def
  BLOCK_LAYOUT_UNRETAINED_def

lemma members_struct_append:
  "members (struct_append ty nm s) = members s @ [\<lparr>mtype = ty, mname = nm, moffset = (if packed s then width s else align_up (width s) (type_alignment ty))\<rparr>]"
  by (simp add: struct_append_def Let_def)

lemma append_each_members:
  "\<exists>ms. members (append_each n ty pre s) = members s @ ms \<and> length ms = n
        \<and> list_all (\<lambda>m. mtype m = ty \<and> prefix pre (mname m)) ms"
proof (induction n arbitrary: s)
  case 0
  show ?case by simp
next
  case (Suc n)
  obtain ms where ms: "members (append_each n ty pre (struct_append ty (pre @ hex_str (width s)) s))
      = members (struct_append ty (pre @ hex_str (width s)) s) @ ms" "length ms = n"
      "list_all (\<lambda>m. mtype m = ty \<and> prefix pre (mname m)) ms"
    using Suc.IH by blast
  show ?case
    by (rule exI[where x = "\<lparr>mtype = ty, mname = pre @ hex_str (width s), moffset = (if packed s then width s else align_up (width s) (type_alignment ty))\<rparr> # ms"])
       (simp add: ms members_struct_append)
qed

lemma append_byref_ptrs_members:
  "\<exists>ms. members (fst (append_byref_ptrs n s bi)) = members s @ ms \<and> length ms = n
        \<and> list_all (\<lambda>m. mtype m = ObjcId \<and> prefix ''byref_ptr_'' (mname m)) ms
        \<and> snd (append_byref_ptrs n s bi)
            = map_option (\<lambda>l. l @ [length (members s) ..< length (members s) + n]) bi"
proof (induction n arbitrary: s bi)
  case 0
  show ?case by (cases bi) simp_all
next
  case (Suc n)
  let ?s1 = "struct_append ObjcId (''byref_ptr_'' @ hex_str (width s)) s"
  let ?bi1 = "map_option (\<lambda>l. l @ [length (members s)]) bi"
  obtain ms where ms: "members (fst (append_byref_ptrs n ?s1 ?bi1)) = members ?s1 @ ms"
      "length ms = n"
      "list_all (\<lambda>m. mtype m = ObjcId \<and> prefix ''byref_ptr_'' (mname m)) ms"
      "snd (append_byref_ptrs n ?s1 ?bi1)
         = map_option (\<lambda>l. l @ [length (members ?s1) ..< length (members ?s1) + n]) ?bi1"
    using Suc.IH by blast
  have upt: "[length (members s)] @ [Suc (length (members s)) ..< Suc (length (members s)) + n]
      = [length (members s) ..< length (members s) + Suc n]"
    by (simp add: upt_rec)
  show ?case
    apply (rule exI[where x = "\<lparr>mtype = ObjcId, mname = ''byref_ptr_'' @ hex_str (width s), moffset = (if packed s then width s else align_up (width s) (type_alignment ObjcId))\<rparr> # ms"])
    using ms upt by (cases bi) (simp_all add: members_struct_append)
qed


lemma slot_kinds_of_each:
  assumes "list_all (\<lambda>m. mtype m = ty \<and> prefix pre (mname m)) ms"
    and "\<And>m. mtype m = ty \<Longrightarrow> prefix pre (mname m) \<Longrightarrow> slot_kind_of m = k"
  shows "map slot_kind_of ms = replicate (length ms) k"
  using assms by (induction ms) simp_all

lemma kind_strong: "mtype m = ObjcId \<Longrightarrow> prefix ''strong_ptr_'' (mname m) \<Longrightarrow> slot_kind_of m = StrongPointer"
  by (simp add: slot_kind_of_def)

lemma kind_byref: "mtype m = ObjcId \<Longrightarrow> prefix ''byref_ptr_'' (mname m) \<Longrightarrow> slot_kind_of m = ByrefPointer"
  by (cases "mname m") (auto simp: slot_kind_of_def)

lemma kind_weak: "mtype m = ObjcId \<Longrightarrow> prefix ''weak_ptr_'' (mname m) \<Longrightarrow> slot_kind_of m = WeakPointer"
  by (cases "mname m") (auto simp: slot_kind_of_def)

lemma kind_unretained: "mtype m = ObjcId \<Longrightarrow> prefix ''unretained_ptr_'' (mname m) \<Longrightarrow> slot_kind_of m = UnretainedPointer"
  by (cases "mname m") (auto simp: slot_kind_of_def)

lemma kind_words: "mtype m = UInt64 \<Longrightarrow> prefix ''non_object_'' (mname m) \<Longrightarrow> slot_kind_of m = NonObjectWords"
  by (cases "mname m") (auto simp: slot_kind_of_def)

lemma kind_bytes: "mtype m = UInt8Array n \<Longrightarrow> prefix ''non_object_'' (mname m) \<Longrightarrow> slot_kind_of m = NonObjectBytes n"
  by (cases "mname m") (auto simp: slot_kind_of_def)


text \<open>C4. For every non-zero compact layout value \<open>v < 0x1000\<close> with the extended-layout
  flag set, \<open>append_layout_fields\<close> appends exactly
  \<open>((v>>8)&0xf) + ((v>>4)&0xf) + (v&0xf)\<close> members: first the strong pointers, then the
  byref pointers, then the weak pointers. The member index of each byref pointer is
  appended to \<open>byref_indexes\<close> (when that list is given), nothing is printed, and
  \<open>layout_end_obj\<close> comes back unchanged: the compact form sets no \<open>layout_end\<close>.\<close>

theorem C4_compact_layout:
  assumes "layout \<noteq> 0" and "layout < 0x1000"
  shows "let n_strong = nat (drop_bit 8 layout AND 0xf);
             n_byref = nat (drop_bit 4 layout AND 0xf);
             n_weak = nat (layout AND 0xf);
             first_byref = length (members s) + n_strong
         in \<exists>s' ms.
              append_layout_fields bv s layout True byref_indexes layout_end_obj
                = Inr (s',
                       map_option (\<lambda>l. l @ [first_byref ..< first_byref + n_byref]) byref_indexes,
                       layout_end_obj, [])
              \<and> members s' = members s @ ms
              \<and> length ms = n_strong + n_byref + n_weak
              \<and> map slot_kind_of ms
                  = replicate n_strong StrongPointer @ replicate n_byref ByrefPointer
                    @ replicate n_weak WeakPointer"
proof -
  define n_strong where "n_strong = nat (drop_bit 8 layout AND 0xf)"
  define n_byref where "n_byref = nat (drop_bit 4 layout AND 0xf)"
  define n_weak where "n_weak = nat (layout AND 0xf)"
  define s1 where "s1 = append_each n_strong ObjcId ''strong_ptr_'' s"
  define r where "r = append_byref_ptrs n_byref s1 byref_indexes"
  define s3 where "s3 = append_each n_weak ObjcId ''weak_ptr_'' (fst r)"
  obtain ms1 where ms1: "members s1 = members s @ ms1" "length ms1 = n_strong"
      "list_all (\<lambda>m. mtype m = ObjcId \<and> prefix ''strong_ptr_'' (mname m)) ms1"
    unfolding s1_def using append_each_members by blast
  obtain ms2 where ms2: "members (fst r) = members s1 @ ms2" "length ms2 = n_byref"
      "list_all (\<lambda>m. mtype m = ObjcId \<and> prefix ''byref_ptr_'' (mname m)) ms2"
      "snd r = map_option (\<lambda>l. l @ [length (members s1) ..< length (members s1) + n_byref])
                 byref_indexes"
    unfolding r_def using append_byref_ptrs_members by blast
  obtain ms3 where ms3: "members s3 = members (fst r) @ ms3" "length ms3 = n_weak"
      "list_all (\<lambda>m. mtype m = ObjcId \<and> prefix ''weak_ptr_'' (mname m)) ms3"
    unfolding s3_def using append_each_members by blast
  have k1: "map slot_kind_of ms1 = replicate n_strong StrongPointer"
    using slot_kinds_of_each [OF ms1(3)] kind_strong ms1(2) by simp
  have k2: "map slot_kind_of ms2 = replicate n_byref ByrefPointer"
    using slot_kinds_of_each [OF ms2(3)] kind_byref ms2(2) by simp
  have k3: "map slot_kind_of ms3 = replicate n_weak WeakPointer"
    using slot_kinds_of_each [OF ms3(3)] kind_weak ms3(2) by simp
  have res: "append_layout_fields bv s layout True byref_indexes layout_end_obj
      = Inr (s3, snd r, layout_end_obj, [])"
    using assms
    by (simp add: append_layout_fields_def Let_def s3_def r_def s1_def
        n_strong_def n_byref_def n_weak_def)
  have "append_layout_fields bv s layout True byref_indexes layout_end_obj
          = Inr (s3,
                 map_option (\<lambda>l. l @ [length (members s) + n_strong
                                        ..< length (members s) + n_strong + n_byref])
                   byref_indexes,
                 layout_end_obj, [])
        \<and> members s3 = members s @ (ms1 @ ms2 @ ms3)
        \<and> length (ms1 @ ms2 @ ms3) = n_strong + n_byref + n_weak
        \<and> map slot_kind_of (ms1 @ ms2 @ ms3)
            = replicate n_strong StrongPointer @ replicate n_byref ByrefPointer
              @ replicate n_weak WeakPointer"
    using res ms1 ms2 ms3 k1 k2 k3 by simp
  then show ?thesis
    unfolding Let_def n_strong_def n_byref_def n_weak_def by blast
qed

theorem C4_compact_layout_witness:
  "(0x123::int) \<noteq> 0 \<and> (0x123::int) < 0x1000 \<and>
   (\<exists>s' ms.
      append_layout_fields empty_view (StructureBuilder_create True) 0x123 True (Some []) None
        = Inr (s', Some [1, 2], None, [])
      \<and> members s' = ms
      \<and> length ms = 6
      \<and> map slot_kind_of ms
          = [StrongPointer, ByrefPointer, ByrefPointer, WeakPointer, WeakPointer, WeakPointer])"
  using C4_compact_layout [of "0x123" "StructureBuilder_create True" empty_view "Some []" None]
  by (simp add: StructureBuilder_create_def Let_def upt_rec eval_nat_numeral)

lemma and_15_mod: "(x::int) AND 0x0f = x mod 16"
proof -
  have "x AND mask 4 = take_bit 4 x" by (simp add: take_bit_eq_mask)
  moreover have "mask 4 = (15::int)" by (simp add: mask_eq_exp_minus_1)
  ultimately show ?thesis by (simp add: take_bit_eq_mod)
qed

lemma opcode_of_byte: "drop_bit 4 (uint (b::8 word) AND 0xf0) = int (high_nibble b)"
proof -
  have lt: "uint b < 256" using uint_lt2p [of b] by simp
  have "drop_bit 4 (uint b AND 0xf0) = drop_bit 4 (uint b) AND 15" by simp
  also have "\<dots> = (uint b div 16) mod 16" by (simp add: and_15_mod drop_bit_eq_div)
  also have "\<dots> = uint b div 16"
  proof -
    have "0 \<le> uint b div 16" by (simp add: pos_imp_zdiv_nonneg_iff)
    moreover have "uint b div 16 < 16" using lt by simp
    ultimately show ?thesis by (simp only: mod_pos_pos_trivial)
  qed
  finally show ?thesis by (simp add: high_nibble_def zdiv_int)
qed

lemma opcode_of_byte_simp: "drop_bit 4 (uint (b::8 word)) AND 15 = int (high_nibble b)"
  using opcode_of_byte [of b] by simp

lemma oparg_of_byte: "uint (b::8 word) AND 0x0f = int (low_nibble b)"
  by (simp add: and_15_mod low_nibble_def zmod_int)

lemma read_bytes_Suc:
  assumes "read_bytes bv a (Suc n) = Some (b # bs)"
  shows "read8 bv a = Some (uint b, a + 1)" and "read_bytes bv (a + 1) n = Some bs"
proof -
  let ?d = "drop (nat (a - bv_start bv)) (bv_data bv)"
  from assms have rng: "bv_start bv \<le> a" "a + int (Suc n) \<le> bv_end bv"
    and tk: "take (Suc n) ?d = b # bs"
    by (auto simp: read_bytes_def split: if_splits)
  from tk obtain rest where d: "?d = b # rest" and bs: "bs = take n rest"
    by (cases ?d) auto
  have "nat (a + 1 - bv_start bv) = Suc (nat (a - bv_start bv))"
    using rng(1) by linarith
  then have "drop (nat (a + 1 - bv_start bv)) (bv_data bv) = drop 1 ?d"
    by simp
  then have d1: "drop (nat (a + 1 - bv_start bv)) (bv_data bv) = rest"
    using d by simp
  show "read8 bv a = Some (uint b, a + 1)"
    using rng d by (simp add: read8_def read_le_def read_bytes_def)
  show "read_bytes bv (a + 1) n = Some bs"
    using rng d1 bs by (simp add: read_bytes_def)
qed

lemma byref_positions_append:
  "byref_positions i (xs @ ys) = byref_positions i xs @ byref_positions (i + length xs) ys"
  by (induction xs arbitrary: i) simp_all

lemma byref_positions_byref:
  "byref_positions i (replicate n ByrefPointer) = [i ..< i + n]"
  by (induction n arbitrary: i) (simp_all add: upt_rec)

lemma byref_positions_other:
  "k \<noteq> ByrefPointer \<Longrightarrow> byref_positions i (replicate n k) = []"
  by (induction n arbitrary: i) simp_all

lemma map_option_append_Nil: "map_option (\<lambda>l. l @ []) bi = bi"
  by (cases bi) simp_all


lemma layout_bytecode_emit:
  assumes rd: "read8 bv a = Some (uint b, a + 1)"
    and op: "1 \<le> high_nibble b" "high_nibble b \<le> 6"
  shows "\<exists>s1 ms. layout_bytecode bv a s bi
           = layout_bytecode bv (a + 1) s1
               (map_option (\<lambda>l. l @ byref_positions (length (members s)) (slots_of_op b)) bi)
         \<and> members s1 = members s @ ms \<and> map slot_kind_of ms = slots_of_op b"
proof -
  let ?n = "low_nibble b"
  from op consider "high_nibble b = 1" | "high_nibble b = 2" | "high_nibble b = 3"
    | "high_nibble b = 4" | "high_nibble b = 5" | "high_nibble b = 6"
    by linarith
  then show ?thesis
  proof cases
    case 1
    let ?s1 = "struct_append (UInt8Array ?n) (''non_object_'' @ hex_str (width s)) s"
    have step: "layout_bytecode bv a s bi = layout_bytecode bv (a + 1) ?s1 bi"
      by (subst layout_bytecode.simps)
         (simp add: rd opcode_of_byte_simp oparg_of_byte layout_op_defs Let_def 1)
    have "slot_kind_of \<lparr>mtype = UInt8Array ?n, mname = ''non_object_'' @ hex_str (width s),
             moffset = (if packed s then width s else align_up (width s) 1)\<rparr>
          = NonObjectBytes ?n"
      by (rule kind_bytes) simp_all
    then show ?thesis
      using step 1
      by (intro exI[where x = ?s1] exI[where x = "[\<lparr>mtype = UInt8Array ?n,
             mname = ''non_object_'' @ hex_str (width s),
             moffset = (if packed s then width s else align_up (width s) 1)\<rparr>]"])
         (simp add: members_struct_append slots_of_op_def option.map_ident)
  next
    case 2
    let ?s1 = "append_each ?n UInt64 ''non_object_'' s"
    have step: "layout_bytecode bv a s bi = layout_bytecode bv (a + 1) ?s1 bi"
      by (subst layout_bytecode.simps)
         (simp add: rd opcode_of_byte_simp oparg_of_byte layout_op_defs Let_def 2)
    obtain ms where ms: "members ?s1 = members s @ ms" "length ms = ?n"
        "list_all (\<lambda>m. mtype m = UInt64 \<and> prefix ''non_object_'' (mname m)) ms"
      using append_each_members by blast
    have "map slot_kind_of ms = replicate ?n NonObjectWords"
      using slot_kinds_of_each [OF ms(3)] kind_words ms(2) by simp
    then show ?thesis
      using step 2 ms(1)
      by (intro exI[where x = ?s1] exI[where x = ms])
         (simp add: slots_of_op_def byref_positions_other option.map_ident)
  next
    case 3
    let ?s1 = "append_each ?n ObjcId ''strong_ptr_'' s"
    have step: "layout_bytecode bv a s bi = layout_bytecode bv (a + 1) ?s1 bi"
      by (subst layout_bytecode.simps)
         (simp add: rd opcode_of_byte_simp oparg_of_byte layout_op_defs Let_def 3)
    obtain ms where ms: "members ?s1 = members s @ ms" "length ms = ?n"
        "list_all (\<lambda>m. mtype m = ObjcId \<and> prefix ''strong_ptr_'' (mname m)) ms"
      using append_each_members by blast
    have "map slot_kind_of ms = replicate ?n StrongPointer"
      using slot_kinds_of_each [OF ms(3)] kind_strong ms(2) by simp
    then show ?thesis
      using step 3 ms(1)
      by (intro exI[where x = ?s1] exI[where x = ms])
         (simp add: slots_of_op_def byref_positions_other option.map_ident)
  next
    case 4
    let ?r = "append_byref_ptrs ?n s bi"
    have step: "layout_bytecode bv a s bi = layout_bytecode bv (a + 1) (fst ?r) (snd ?r)"
      by (subst layout_bytecode.simps)
         (simp add: rd opcode_of_byte_simp oparg_of_byte layout_op_defs Let_def 4)
    obtain ms where ms: "members (fst ?r) = members s @ ms" "length ms = ?n"
        "list_all (\<lambda>m. mtype m = ObjcId \<and> prefix ''byref_ptr_'' (mname m)) ms"
        "snd ?r = map_option (\<lambda>l. l @ [length (members s) ..< length (members s) + ?n]) bi"
      using append_byref_ptrs_members by blast
    have "map slot_kind_of ms = replicate ?n ByrefPointer"
      using slot_kinds_of_each [OF ms(3)] kind_byref ms(2) by simp
    then show ?thesis
      using step 4 ms(1) ms(4)
      by (intro exI[where x = "fst ?r"] exI[where x = ms])
         (simp add: slots_of_op_def byref_positions_byref)
  next
    case 5
    let ?s1 = "append_each ?n ObjcId ''weak_ptr_'' s"
    have step: "layout_bytecode bv a s bi = layout_bytecode bv (a + 1) ?s1 bi"
      by (subst layout_bytecode.simps)
         (simp add: rd opcode_of_byte_simp oparg_of_byte layout_op_defs Let_def 5)
    obtain ms where ms: "members ?s1 = members s @ ms" "length ms = ?n"
        "list_all (\<lambda>m. mtype m = ObjcId \<and> prefix ''weak_ptr_'' (mname m)) ms"
      using append_each_members by blast
    have "map slot_kind_of ms = replicate ?n WeakPointer"
      using slot_kinds_of_each [OF ms(3)] kind_weak ms(2) by simp
    then show ?thesis
      using step 5 ms(1)
      by (intro exI[where x = ?s1] exI[where x = ms])
         (simp add: slots_of_op_def byref_positions_other option.map_ident)
  next
    case 6
    let ?s1 = "append_each ?n ObjcId ''unretained_ptr_'' s"
    have step: "layout_bytecode bv a s bi = layout_bytecode bv (a + 1) ?s1 bi"
      by (subst layout_bytecode.simps)
         (simp add: rd opcode_of_byte_simp oparg_of_byte layout_op_defs Let_def 6)
    obtain ms where ms: "members ?s1 = members s @ ms" "length ms = ?n"
        "list_all (\<lambda>m. mtype m = ObjcId \<and> prefix ''unretained_ptr_'' (mname m)) ms"
      using append_each_members by blast
    have "map slot_kind_of ms = replicate ?n UnretainedPointer"
      using slot_kinds_of_each [OF ms(3)] kind_unretained ms(2) by simp
    then show ?thesis
      using step 6 ms(1)
      by (intro exI[where x = ?s1] exI[where x = ms])
         (simp add: slots_of_op_def byref_positions_other option.map_ident)
  qed
qed

lemma layout_bytecode_stop:
  assumes rd: "read8 bv a = Some (uint t, a + 1)"
    and op: "high_nibble t = 0 \<or> 7 \<le> high_nibble t"
  shows "layout_bytecode bv a s bi
           = Inr (s, bi, a + 1, if high_nibble t = 0 then [] else [UnknownLayoutOp (uint t)])"
  using op
  by (subst layout_bytecode.simps)
     (auto simp: rd opcode_of_byte_simp oparg_of_byte layout_op_defs Let_def)


lemma layout_bytecode_stream:
  assumes "read_bytes bv a (Suc (length ops)) = Some (ops @ [t])"
    and "list_all (\<lambda>b. 1 \<le> high_nibble b \<and> high_nibble b \<le> 6) ops"
    and "high_nibble t = 0 \<or> 7 \<le> high_nibble t"
  shows "\<exists>s' ms. layout_bytecode bv a s bi
           = Inr (s',
                  map_option (\<lambda>l. l @ byref_positions (length (members s))
                                        (concat (map slots_of_op ops))) bi,
                  a + int (length ops) + 1,
                  if high_nibble t = 0 then [] else [UnknownLayoutOp (uint t)])
         \<and> members s' = members s @ ms
         \<and> map slot_kind_of ms = concat (map slots_of_op ops)"
  using assms
proof (induction ops arbitrary: a s bi)
  case Nil
  then have "read8 bv a = Some (uint t, a + 1)"
    using read_bytes_Suc(1) [of bv a 0 t "[]"] by simp
  then show ?case
    using layout_bytecode_stop [OF _ Nil.prems(3)] by (simp add: option.map_ident)
next
  case (Cons b ops)
  have rd: "read8 bv a = Some (uint b, a + 1)"
    and rest: "read_bytes bv (a + 1) (Suc (length ops)) = Some (ops @ [t])"
    using read_bytes_Suc [of bv a "Suc (length ops)" b "ops @ [t]"] Cons.prems(1) by simp_all
  from Cons.prems(2) have opb: "1 \<le> high_nibble b" "high_nibble b \<le> 6"
    and ops: "list_all (\<lambda>b. 1 \<le> high_nibble b \<and> high_nibble b \<le> 6) ops"
    by simp_all
  let ?bi1 = "map_option (\<lambda>l. l @ byref_positions (length (members s)) (slots_of_op b)) bi"
  obtain s1 ms1 where s1: "layout_bytecode bv a s bi = layout_bytecode bv (a + 1) s1 ?bi1"
      "members s1 = members s @ ms1" "map slot_kind_of ms1 = slots_of_op b"
    using layout_bytecode_emit [OF rd opb] by blast
  obtain s' ms where s': "layout_bytecode bv (a + 1) s1 ?bi1
        = Inr (s',
               map_option (\<lambda>l. l @ byref_positions (length (members s1))
                                     (concat (map slots_of_op ops))) ?bi1,
               a + 1 + int (length ops) + 1,
               if high_nibble t = 0 then [] else [UnknownLayoutOp (uint t)])"
      "members s' = members s1 @ ms" "map slot_kind_of ms = concat (map slots_of_op ops)"
    using Cons.IH [OF rest ops Cons.prems(3)] by blast
  have len: "length (members s1) = length (members s) + length (slots_of_op b)"
    using s1(2) s1(3) [symmetric] by simp
  have bi: "map_option (\<lambda>l. l @ byref_positions (length (members s1))
                                  (concat (map slots_of_op ops))) ?bi1
      = map_option (\<lambda>l. l @ byref_positions (length (members s))
                                (concat (map slots_of_op (b # ops)))) bi"
    by (cases bi) (simp_all add: byref_positions_append len)
  show ?case
    using s1 s' bi
    by (intro exI[where x = s'] exI[where x = "ms1 @ ms"]) simp
qed

text \<open>C5. Let the bytes \<open>ops @ [t]\<close> stand at address \<open>layout \<ge> 0x1000\<close>, every byte of
  \<open>ops\<close> with opcode (high nibble) 1..6 and \<open>t\<close> with opcode 0 (ESCAPE) or 7..15. Then the
  decoder appends, for each byte of \<open>ops\<close> in order, the slots of its opcode with operand
  \<open>n\<close> (one \<open>n\<close>-byte NonObjectBytes run, \<open>n\<close> NonObjectWords, \<open>n\<close> Strong, \<open>n\<close> Byref, \<open>n\<close> Weak
  or \<open>n\<close> Unretained pointers), records the member index of every byref slot, stops at
  \<open>t\<close> without emitting a slot for it, and sets \<open>layout_end\<close> to the address right after
  \<open>t\<close>. For ESCAPE nothing is printed; for an opcode 7..15 the result is the same partial
  slot list with one warning, not a failure.\<close>

theorem C5_bytecode_layout:
  assumes "0x1000 \<le> layout"
    and "read_bytes bv layout (Suc (length ops)) = Some (ops @ [t])"
    and "list_all (\<lambda>b. 1 \<le> high_nibble b \<and> high_nibble b \<le> 6) ops"
    and "high_nibble t = 0 \<or> 7 \<le> high_nibble t"
  shows "\<exists>s' ms.
           append_layout_fields bv s layout True byref_indexes layout_end_obj
             = Inr (s',
                    map_option (\<lambda>l. l @ byref_positions (length (members s))
                                          (concat (map slots_of_op ops))) byref_indexes,
                    map_option (\<lambda>bd. bd\<lparr>bd_layout_end := Some (layout + int (length ops) + 1)\<rparr>)
                      layout_end_obj,
                    if high_nibble t = 0 then [] else [UnknownLayoutOp (uint t)])
           \<and> members s' = members s @ ms
           \<and> map slot_kind_of ms = concat (map slots_of_op ops)"
proof -
  obtain s' ms where r: "layout_bytecode bv layout s byref_indexes
        = Inr (s',
               map_option (\<lambda>l. l @ byref_positions (length (members s))
                                     (concat (map slots_of_op ops))) byref_indexes,
               layout + int (length ops) + 1,
               if high_nibble t = 0 then [] else [UnknownLayoutOp (uint t)])"
      "members s' = members s @ ms" "map slot_kind_of ms = concat (map slots_of_op ops)"
    using layout_bytecode_stream [OF assms(2-4)] by blast
  have "append_layout_fields bv s layout True byref_indexes layout_end_obj
      = Inr (s',
             map_option (\<lambda>l. l @ byref_positions (length (members s))
                                   (concat (map slots_of_op ops))) byref_indexes,
             map_option (\<lambda>bd. bd\<lparr>bd_layout_end := Some (layout + int (length ops) + 1)\<rparr>)
               layout_end_obj,
             if high_nibble t = 0 then [] else [UnknownLayoutOp (uint t)])"
    using assms(1) by (simp add: append_layout_fields_def r(1))
  then show ?thesis using r(2,3) by blast
qed


theorem C5_bytecode_layout_witness:
  "(0x1000::int) \<le> 0x2000
   \<and> read_bytes (bytecode_view [0x32, 0x41, 0x13, 0x00]) 0x2000 (Suc (length [0x32, 0x41, 0x13 :: 8 word]))
        = Some ([0x32, 0x41, 0x13] @ [0x00])
   \<and> list_all (\<lambda>b. 1 \<le> high_nibble b \<and> high_nibble b \<le> 6) [0x32, 0x41, 0x13]
   \<and> (high_nibble 0x00 = 0 \<or> 7 \<le> high_nibble 0x00)
   \<and> (\<exists>s' ms.
         append_layout_fields (bytecode_view [0x32, 0x41, 0x13, 0x00])
             (StructureBuilder_create True) 0x2000 True (Some []) None
           = Inr (s', Some [2], None, [])
         \<and> members s' = ms
         \<and> map slot_kind_of ms = [StrongPointer, StrongPointer, ByrefPointer, NonObjectBytes 3])"
proof -
  have k: "slots_of_op 0x32 = [StrongPointer, StrongPointer]"
    "slots_of_op 0x41 = [ByrefPointer]" "slots_of_op 0x13 = [NonObjectBytes 3]"
    by code_simp+
  have h: "high_nibble 0x32 = 3" "high_nibble 0x41 = 4" "high_nibble 0x13 = 1"
    "high_nibble 0x00 = 0"
    by code_simp+
  show ?thesis
    using C5_bytecode_layout [of "0x2000" "bytecode_view [0x32, 0x41, 0x13, 0x00]"
        "[0x32, 0x41, 0x13]" "0x00" "StructureBuilder_create True" "Some []" None]
    by (simp add: bytecode_view_def read_bytes_def bv_end_def k h StructureBuilder_create_def
        numeral_2_eq_2 [symmetric])
qed

text \<open>A literal whose \<open>descriptor\<close> word cannot be read is still constructed, with
  \<open>descriptor\<close> \<open>None\<close>; the pipeline then ends at \<open>print(bl)\<close>.\<close>

lemma from_data_unreadable_descriptor:
  "from_data c1_short_view 0x2fe0
     = Inr \<lparr>bl_is_stack_block = False, bl_target = DataVar 0x2fe0, bl_address = 0x2fe0,
            bl_isa = Some 0x1000, bl_flags = 0x10000000, bl_reserved = Some 0,
            bl_invoke = Some 0x2000, bl_descriptor = None\<rparr>"
  "annotate_global_block_literal c1_short_view 0x2fe0 = Inl TypeError"
  by code_simp+

lemma c1_from_data:
  "from_data c1_view 0x2fe0
     = Inr \<lparr>bl_is_stack_block = False, bl_target = DataVar 0x2fe0, bl_address = 0x2fe0,
            bl_isa = Some 0x1000, bl_flags = 0x10000000, bl_reserved = Some 0,
            bl_invoke = Some 0x2000, bl_descriptor = Some 0x3000\<rparr>"
  by (simp add: from_data_def c1_view_def read64_value_def read32_value_def read64_def
      read32_def read_le_def read_bytes_def bv_end_def BlockLiteral_init_values_def
      BLOCK_IS_GLOBAL_def)

lemma c1_descriptor:
  "BlockDescriptor_init c1_view 0x3000 0x10000000
     = Inr \<lparr>bd_address = 0x3000, bd_block_flags = 0x10000000, bd_reserved = Some 0,
            bd_size = 0x28, bd_copy = None, bd_dispose = None, bd_signature = None,
            bd_signature_raw = None, bd_layout = None, bd_layout_end = None\<rparr>"
  by (simp add: BlockDescriptor_init_def read_copy_dispose_def read_signature_layout_def
      c1_view_def read64_value_def read64_def read_le_def read_bytes_def bv_end_def
      block_flag_defs)

text \<open>C1. The scenario of the claim: the global literal (isa 0x1000, flags 0x10000000,
  reserved 0, invoke 0x2000, descriptor 0x3000) followed by its descriptor at 0x3000
  (reserved 0, size 0x28). The literal and the descriptor decode as the claim says, with
  \<open>imported_variables_size = 8\<close>, but the descriptor has no \<open>layout\<close> attribute
  (HAS_SIGNATURE is clear) and \<open>annotate_literal\<close> reads it: the pipeline ends with
  AttributeError, so no structure and no size-mismatch comment is produced.\<close>

theorem C1_global_literal_without_signature:
  "from_data c1_view 0x2fe0
     = Inr \<lparr>bl_is_stack_block = False, bl_target = DataVar 0x2fe0, bl_address = 0x2fe0,
            bl_isa = Some 0x1000, bl_flags = 0x10000000, bl_reserved = Some 0,
            bl_invoke = Some 0x2000, bl_descriptor = Some 0x3000\<rparr>
   \<and> (\<exists>bd. BlockDescriptor_init c1_view 0x3000 0x10000000 = Inr bd
            \<and> bd_size bd = 0x28 \<and> imported_variables_size bd = 8 \<and> bd_layout bd = None)
   \<and> annotate_global_block_literal c1_view 0x2fe0 = Inl AttributeError"
  by (simp add: annotate_global_block_literal_def c1_from_data c1_descriptor
      annotate_literal_def literal_struct_def imported_variables_size_def)

lemma BlockLiteral_init_values_int:
  "BlockLiteral_init_values is_stack tgt (Some isa) (Some flags) reserved (Some invoke)
       (Some descriptor)
     = (case BlockLiteral_init is_stack tgt isa flags reserved invoke descriptor of
          Inl e \<Rightarrow> Inl e
        | Inr bl \<Rightarrow>
            Inr \<lparr>bl_is_stack_block = bl_is_stack_block bl, bl_target = bl_target bl,
                 bl_address = bl_address bl, bl_isa = Some (bl_isa bl),
                 bl_flags = bl_flags bl, bl_reserved = bl_reserved bl,
                 bl_invoke = Some (bl_invoke bl),
                 bl_descriptor = Some (bl_descriptor bl)\<rparr>)"
  by (simp add: BlockLiteral_init_values_def BlockLiteral_init_def)

lemma read64_offset: "read64 bv a = Some (v, o') \<Longrightarrow> o' = a + 8"
  by (auto simp: read64_def read_le_def split: option.splits)

lemma read64_Some_iff:
  "(\<exists>v o'. read64 bv a = Some (v, o')) \<longleftrightarrow> bv_start bv \<le> a \<and> a + 8 \<le> bv_end bv"
  by (simp add: read64_def read_le_def read_bytes_def)

text \<open>The image is contiguous: once a read fails inside or behind it, every later read
  fails.\<close>

lemma read64_fails_later:
  assumes "read64 bv x = None" and "bv_start bv \<le> x" and "x \<le> y"
  shows "read64 bv y = None"
  using assms by (simp add: read64_def read_le_def read_bytes_def split: if_splits)

lemma read64_value_Some:
  "read64 bv a = Some (v, o') \<Longrightarrow> read64_value bv a = (Some v, a + 8)"
  using read64_offset [of bv a v o'] by (simp add: read64_value_def)

lemma read64_value_None:
  "read64 bv a = None \<Longrightarrow> read64_value bv a = (None, a)"
  by (simp add: read64_value_def)

lemma read64_value_fst: "fst (read64_value bv a) = map_option fst (read64 bv a)"
  by (cases "read64 bv a") (auto simp: read64_value_def)

text \<open>\<open>copy\<close> and \<open>dispose\<close> behind a readable \<open>size\<close> word at \<open>off - 8\<close>.\<close>

lemma read_copy_dispose_eval:
  assumes st: "bv_start bv \<le> off"
    and r: "read_copy_dispose bv flags off = (c, d, o')"
  shows "c = (if flags AND 0x02000000 \<noteq> 0 then map_option fst (read64 bv off) else None)"
    and "d = (if flags AND 0x02000000 \<noteq> 0 then map_option fst (read64 bv (off + 8)) else None)"
    and "flags AND 0x02000000 = 0 \<Longrightarrow> o' = off"
    and "flags AND 0x02000000 \<noteq> 0 \<Longrightarrow> read64 bv (off + 8) \<noteq> None \<Longrightarrow> o' = off + 16"
    and "flags AND 0x02000000 \<noteq> 0 \<Longrightarrow> read64 bv (off + 8) = None \<Longrightarrow>
           bv_start bv \<le> o' \<and> o' \<le> off + 16 \<and> read64 bv o' = None"
proof -
  show "c = (if flags AND 0x02000000 \<noteq> 0 then map_option fst (read64 bv off) else None)"
    using r
    by (cases "read64 bv off")
      (auto simp: read_copy_dispose_def BLOCK_HAS_COPY_DISPOSE_def read64_value_def
        split: prod.splits if_splits)
  show "d = (if flags AND 0x02000000 \<noteq> 0 then map_option fst (read64 bv (off + 8)) else None)"
  proof (cases "read64 bv off")
    case None
    have "read64 bv (off + 8) = None"
      using read64_fails_later [OF None st] by simp
    with None r show ?thesis
      by (auto simp: read_copy_dispose_def BLOCK_HAS_COPY_DISPOSE_def read64_value_def
          split: prod.splits if_splits)
  next
    case (Some p)
    obtain v q where p: "p = (v, q)" by (cases p)
    have q: "q = off + 8" using Some p read64_offset by blast
    show ?thesis
      using r Some p q
      by (cases "read64 bv (off + 8)")
        (auto simp: read_copy_dispose_def BLOCK_HAS_COPY_DISPOSE_def read64_value_def
          split: prod.splits if_splits)
  qed
  show "flags AND 0x02000000 = 0 \<Longrightarrow> o' = off"
    using r by (simp add: read_copy_dispose_def BLOCK_HAS_COPY_DISPOSE_def)
  show "o' = off + 16" if f: "flags AND 0x02000000 \<noteq> 0" and ok: "read64 bv (off + 8) \<noteq> None"
  proof (cases "read64 bv off")
    case None
    have "read64 bv (off + 8) = None"
      using read64_fails_later [OF None st] by simp
    with ok show ?thesis by simp
  next
    case (Some p)
    obtain v q where p: "p = (v, q)" by (cases p)
    have q: "q = off + 8" using Some p read64_offset by blast
    from ok obtain v2 q2 where s2: "read64 bv (off + 8) = Some (v2, q2)" by auto
    have q2: "q2 = off + 8 + 8" using s2 read64_offset by blast
    show ?thesis
      using r f Some p q s2 q2
      by (simp add: read_copy_dispose_def BLOCK_HAS_COPY_DISPOSE_def read64_value_def)
  qed
  show "bv_start bv \<le> o' \<and> o' \<le> off + 16 \<and> read64 bv o' = None"
    if f: "flags AND 0x02000000 \<noteq> 0" and bad: "read64 bv (off + 8) = None"
  proof (cases "read64 bv off")
    case None
    with r f have "o' = off"
      by (simp add: read_copy_dispose_def BLOCK_HAS_COPY_DISPOSE_def read64_value_def)
    with None st show ?thesis by simp
  next
    case (Some p)
    obtain v q where p: "p = (v, q)" by (cases p)
    have q: "q = off + 8" using Some p read64_offset by blast
    from r f Some p q bad have "o' = off + 8"
      by (simp add: read_copy_dispose_def BLOCK_HAS_COPY_DISPOSE_def read64_value_def)
    with bad st show ?thesis by simp
  qed
qed

lemma read_signature_layout_clear:
  "flags AND 0x40000000 = 0 \<Longrightarrow> read_signature_layout bv flags off = Inr (None, None, None)"
  by (simp add: read_signature_layout_def BLOCK_HAS_SIGNATURE_def)

lemma read_signature_layout_unreadable:
  "flags AND 0x40000000 \<noteq> 0 \<Longrightarrow> read64 bv off = None \<Longrightarrow>
     read_signature_layout bv flags off = Inl HostError"
  by (simp add: read_signature_layout_def BLOCK_HAS_SIGNATURE_def read64_value_def)

lemma read_signature_layout_set:
  assumes f: "flags AND 0x40000000 \<noteq> 0" and s: "read64 bv off = Some (sg, o5)"
  shows "read_signature_layout bv flags off
     = (if sg \<noteq> 0 \<and> bv_ascii_string_at bv sg = None then Inl AttributeError
        else Inr (Some sg,
                  Some (if sg \<noteq> 0 then bv_ascii_string_at bv sg else None),
                  Some (map_option fst (read64 bv (off + 8)))))"
proof -
  have o5: "o5 = off + 8" using s read64_offset by blast
  show ?thesis
    using f s o5
    by (cases "bv_ascii_string_at bv sg")
      (simp_all add: read_signature_layout_def BLOCK_HAS_SIGNATURE_def read64_value_def
        read64_value_fst [symmetric])
qed

text \<open>\<open>BlockDescriptor.__init__\<close> in closed form, once \<open>reserved\<close> and \<open>size\<close> are read and
  the size passes the assertion.\<close>

lemma BlockDescriptor_init_eval:
  assumes r1: "read64 bv a = Some (reserved, o1)"
    and r2: "read64 bv o1 = Some (sz, o2)"
    and big: "32 \<le> sz"
  shows "BlockDescriptor_init bv a flags =
     (if flags AND 0x40000000 \<noteq> 0 then
        (case read64 bv (a + (if flags AND 0x02000000 \<noteq> 0 then 32 else 16)) of
           None \<Rightarrow> Inl HostError
         | Some (sg, o5) \<Rightarrow>
             if sg \<noteq> 0 \<and> bv_ascii_string_at bv sg = None then Inl AttributeError
             else
               Inr \<lparr>bd_address = a, bd_block_flags = flags, bd_reserved = Some reserved,
                    bd_size = sz,
                    bd_copy = (if flags AND 0x02000000 \<noteq> 0
                               then map_option fst (read64 bv (a + 16)) else None),
                    bd_dispose = (if flags AND 0x02000000 \<noteq> 0
                                  then map_option fst (read64 bv (a + 24)) else None),
                    bd_signature = Some sg,
                    bd_signature_raw = Some (if sg \<noteq> 0 then bv_ascii_string_at bv sg else None),
                    bd_layout =
                      Some (map_option fst
                              (read64 bv (a + (if flags AND 0x02000000 \<noteq> 0 then 40 else 24)))),
                    bd_layout_end = None\<rparr>)
      else
        Inr \<lparr>bd_address = a, bd_block_flags = flags, bd_reserved = Some reserved, bd_size = sz,
             bd_copy = (if flags AND 0x02000000 \<noteq> 0
                        then map_option fst (read64 bv (a + 16)) else None),
             bd_dispose = (if flags AND 0x02000000 \<noteq> 0
                           then map_option fst (read64 bv (a + 24)) else None),
             bd_signature = None, bd_signature_raw = None, bd_layout = None,
             bd_layout_end = None\<rparr>)"
proof -
  have o1: "o1 = a + 8" and o2: "o2 = a + 16"
    using read64_offset [OF r1] read64_offset [OF r2] by simp_all
  have v1: "read64_value bv a = (Some reserved, a + 8)"
    using read64_value_Some [OF r1] .
  have v2: "read64_value bv (a + 8) = (Some sz, a + 16)"
    using read64_value_Some [of bv "a + 8" sz o2] r2 o1 by simp
  have st: "bv_start bv \<le> a + 16"
    using r1 by (simp add: read64_def read_le_def read_bytes_def split: if_splits)
  obtain c d o4 where cd: "read_copy_dispose bv flags (a + 16) = (c, d, o4)"
    by (cases "read_copy_dispose bv flags (a + 16)") auto
  note e = read_copy_dispose_eval [OF st cd]
  have c: "c = (if flags AND 0x02000000 \<noteq> 0 then map_option fst (read64 bv (a + 16)) else None)"
    using e(1) .
  have d: "d = (if flags AND 0x02000000 \<noteq> 0 then map_option fst (read64 bv (a + 24)) else None)"
    using e(2) by (simp add: add.assoc)
  have init: "BlockDescriptor_init bv a flags =
      (case read_signature_layout bv flags o4 of
         Inl e \<Rightarrow> Inl e
       | Inr (signature, signature_raw, layout) \<Rightarrow>
           Inr \<lparr>bd_address = a, bd_block_flags = flags, bd_reserved = Some reserved,
                bd_size = sz, bd_copy = c, bd_dispose = d,
                bd_signature = signature, bd_signature_raw = signature_raw,
                bd_layout = layout, bd_layout_end = None\<rparr>)"
    using big by (simp add: BlockDescriptor_init_def v1 v2 cd)
  show ?thesis
  proof (cases "flags AND 0x40000000 \<noteq> 0")
    case False
    then have "read_signature_layout bv flags o4 = Inr (None, None, None)"
      using read_signature_layout_clear by simp
    with init c d False show ?thesis by simp
  next
    case sig: True
    let ?S = "a + (if flags AND 0x02000000 \<noteq> 0 then 32 else 16)"
    have S8: "?S + 8 = a + (if flags AND 0x02000000 \<noteq> 0 then 40 else 24)"
      by simp
    show ?thesis
    proof (cases "flags AND 0x02000000 \<noteq> 0 \<and> read64 bv (a + 24) = None")
      case True
      then have f: "flags AND 0x02000000 \<noteq> 0" and bad: "read64 bv (a + 16 + 8) = None"
        by (simp_all add: add.assoc)
      from e(5) [OF f bad] have o4: "bv_start bv \<le> o4" "o4 \<le> a + 32" "read64 bv o4 = None"
        by simp_all
      have "read64 bv (a + 32) = None"
        using read64_fails_later [OF o4(3) o4(1) o4(2)] .
      moreover have "read_signature_layout bv flags o4 = Inl HostError"
        using read_signature_layout_unreadable [OF sig o4(3)] .
      ultimately show ?thesis
        using init sig f by simp
    next
      case False
      have o4: "o4 = ?S"
      proof (cases "flags AND 0x02000000 \<noteq> 0")
        case True
        with False have "read64 bv (a + 16 + 8) \<noteq> None" by (simp add: add.assoc)
        from e(4) [OF True this] True show ?thesis by simp
      next
        case False
        then have "flags AND 0x02000000 = 0" by simp
        from e(3) [OF this] False show ?thesis by simp
      qed
      show ?thesis
      proof (cases "read64 bv ?S")
        case None
        have "read_signature_layout bv flags o4 = Inl HostError"
          using read_signature_layout_unreadable [OF sig] None o4 by simp
        with init sig None show ?thesis by simp
      next
        case (Some p)
        obtain sg o5 where p: "p = (sg, o5)" by (cases p)
        have s: "read64 bv o4 = Some (sg, o5)" using Some p o4 by simp
        note rs = read_signature_layout_set [OF sig s]
        have l: "read64 bv (o4 + 8)
                   = read64 bv (a + (if flags AND 0x02000000 \<noteq> 0 then 40 else 24))"
          using o4 by (simp add: add.assoc)
        show ?thesis
          unfolding init rs l
          using sig Some p c d by simp
      qed
    qed
  qed
qed

text \<open>C6. \<open>BlockDescriptor.__init__\<close> reads \<open>reserved\<close> and \<open>size\<close> (8 bytes each)
  unconditionally. Once these two reads succeed: a size below 32 fails with
  AssertionError whatever the flags are and whatever follows in memory (no conditional
  field has been read). A constructed descriptor has size at least 32; \<open>copy\<close> and
  \<open>dispose\<close> are the results of the reads of the next two words if HAS_COPY_DISPOSE
  (0x02000000) is set in the owning literal's flags (Python's \<open>None\<close> where such a read
  fails) and are \<open>None\<close> without a read otherwise; \<open>signature\<close> and \<open>layout\<close> are assigned if
  and only if HAS_SIGNATURE (0x40000000) is set, from the two words after those
  (\<open>layout\<close> is \<open>None\<close> where its read fails). With the size at least 32 the construction
  succeeds exactly when HAS_SIGNATURE is clear, or the signature word is readable and is
  0 or the address of a string: unreadable \<open>copy\<close>, \<open>dispose\<close> or \<open>layout\<close> words do not make
  it fail. With both flags clear nothing more is read at all.\<close>

theorem C6_descriptor_decoding:
  assumes r1: "read64 bv a = Some (reserved, o1)"
    and r2: "read64 bv o1 = Some (sz, o2)"
  shows "(sz < 32 \<longrightarrow> BlockDescriptor_init bv a flags = Inl AssertionError)
    \<and> (\<forall>bd. BlockDescriptor_init bv a flags = Inr bd \<longrightarrow>
          32 \<le> sz \<and> bd_reserved bd = Some reserved \<and> bd_size bd = sz
          \<and> bd_copy bd = (if flags AND 0x02000000 \<noteq> 0
                          then map_option fst (read64 bv (a + 16)) else None)
          \<and> bd_dispose bd = (if flags AND 0x02000000 \<noteq> 0
                             then map_option fst (read64 bv (a + 24)) else None)
          \<and> bd_signature bd
              = (if flags AND 0x40000000 \<noteq> 0
                 then map_option fst
                        (read64 bv (a + (if flags AND 0x02000000 \<noteq> 0 then 32 else 16)))
                 else None)
          \<and> bd_layout bd
              = (if flags AND 0x40000000 \<noteq> 0
                 then Some (map_option fst
                        (read64 bv (a + (if flags AND 0x02000000 \<noteq> 0 then 40 else 24))))
                 else None)
          \<and> (bd_signature bd \<noteq> None) = (flags AND 0x40000000 \<noteq> 0)
          \<and> (bd_layout bd \<noteq> None) = (flags AND 0x40000000 \<noteq> 0))
    \<and> ((\<exists>bd. BlockDescriptor_init bv a flags = Inr bd) \<longleftrightarrow>
          32 \<le> sz
          \<and> (flags AND 0x40000000 \<noteq> 0 \<longrightarrow>
               (\<exists>sg o5. read64 bv (a + (if flags AND 0x02000000 \<noteq> 0 then 32 else 16))
                           = Some (sg, o5)
                        \<and> (sg \<noteq> 0 \<longrightarrow> bv_ascii_string_at bv sg \<noteq> None))))
    \<and> (32 \<le> sz \<and> flags AND 0x02000000 = 0 \<and> flags AND 0x40000000 = 0 \<longrightarrow>
          BlockDescriptor_init bv a flags
            = Inr \<lparr>bd_address = a, bd_block_flags = flags, bd_reserved = Some reserved,
                   bd_size = sz, bd_copy = None, bd_dispose = None, bd_signature = None,
                   bd_signature_raw = None, bd_layout = None, bd_layout_end = None\<rparr>)"
proof -
  have o1: "o1 = a + 8" and o2: "o2 = a + 16"
    using read64_offset [OF r1] read64_offset [OF r2] by simp_all
  have v1: "read64_value bv a = (Some reserved, a + 8)"
    using read64_value_Some [OF r1] .
  have v2: "read64_value bv (a + 8) = (Some sz, a + 16)"
    using read64_value_Some [of bv "a + 8" sz o2] r2 o1 by simp
  have small: "BlockDescriptor_init bv a flags = Inl AssertionError" if "sz < 32"
    using that by (simp add: BlockDescriptor_init_def v1 v2)
  note ev = BlockDescriptor_init_eval [OF r1 r2, of flags]
  let ?S = "a + (if flags AND 0x02000000 \<noteq> 0 then 32 else 16)"
  have plain: "32 \<le> sz \<and> flags AND 0x02000000 = 0 \<and> flags AND 0x40000000 = 0 \<longrightarrow>
       BlockDescriptor_init bv a flags
         = Inr \<lparr>bd_address = a, bd_block_flags = flags, bd_reserved = Some reserved,
                bd_size = sz, bd_copy = None, bd_dispose = None, bd_signature = None,
                bd_signature_raw = None, bd_layout = None, bd_layout_end = None\<rparr>"
    using ev by simp
  have fields: "32 \<le> sz \<and> bd_reserved bd = Some reserved \<and> bd_size bd = sz
          \<and> bd_copy bd = (if flags AND 0x02000000 \<noteq> 0
                          then map_option fst (read64 bv (a + 16)) else None)
          \<and> bd_dispose bd = (if flags AND 0x02000000 \<noteq> 0
                             then map_option fst (read64 bv (a + 24)) else None)
          \<and> bd_signature bd
              = (if flags AND 0x40000000 \<noteq> 0
                 then map_option fst (read64 bv ?S)
                 else None)
          \<and> bd_layout bd
              = (if flags AND 0x40000000 \<noteq> 0
                 then Some (map_option fst
                        (read64 bv (a + (if flags AND 0x02000000 \<noteq> 0 then 40 else 24))))
                 else None)
          \<and> (bd_signature bd \<noteq> None) = (flags AND 0x40000000 \<noteq> 0)
          \<and> (bd_layout bd \<noteq> None) = (flags AND 0x40000000 \<noteq> 0)"
    if ok: "BlockDescriptor_init bv a flags = Inr bd" for bd
  proof -
    have big: "32 \<le> sz"
    proof (rule ccontr)
      assume "\<not> 32 \<le> sz"
      then have "sz < 32" by simp
      from small [OF this] ok show False by simp
    qed
    show ?thesis
    proof (cases "flags AND 0x40000000 \<noteq> 0")
      case False
      with ev [OF big] ok have "bd = \<lparr>bd_address = a, bd_block_flags = flags,
             bd_reserved = Some reserved, bd_size = sz,
             bd_copy = (if flags AND 0x02000000 \<noteq> 0
                        then map_option fst (read64 bv (a + 16)) else None),
             bd_dispose = (if flags AND 0x02000000 \<noteq> 0
                           then map_option fst (read64 bv (a + 24)) else None),
             bd_signature = None, bd_signature_raw = None, bd_layout = None,
             bd_layout_end = None\<rparr>"
        by simp
      with big False show ?thesis by simp
    next
      case sig: True
      show ?thesis
      proof (cases "read64 bv ?S")
        case None
        with ev [OF big] ok sig show ?thesis by simp
      next
        case (Some p)
        obtain sg o5 where p: "p = (sg, o5)" by (cases p)
        from ev [OF big] ok sig Some p
        have "bd = \<lparr>bd_address = a, bd_block_flags = flags, bd_reserved = Some reserved,
                    bd_size = sz,
                    bd_copy = (if flags AND 0x02000000 \<noteq> 0
                               then map_option fst (read64 bv (a + 16)) else None),
                    bd_dispose = (if flags AND 0x02000000 \<noteq> 0
                                  then map_option fst (read64 bv (a + 24)) else None),
                    bd_signature = Some sg,
                    bd_signature_raw = Some (if sg \<noteq> 0 then bv_ascii_string_at bv sg else None),
                    bd_layout =
                      Some (map_option fst
                              (read64 bv (a + (if flags AND 0x02000000 \<noteq> 0 then 40 else 24)))),
                    bd_layout_end = None\<rparr>"
          by (simp split: if_splits)
        with big sig Some p show ?thesis by simp
      qed
    qed
  qed
  have succ: "(\<exists>bd. BlockDescriptor_init bv a flags = Inr bd) \<longleftrightarrow>
          32 \<le> sz
          \<and> (flags AND 0x40000000 \<noteq> 0 \<longrightarrow>
               (\<exists>sg o5. read64 bv ?S = Some (sg, o5)
                        \<and> (sg \<noteq> 0 \<longrightarrow> bv_ascii_string_at bv sg \<noteq> None)))"
  proof (cases "32 \<le> sz")
    case False
    then have "sz < 32" by simp
    from small [OF this] False show ?thesis by simp
  next
    case big: True
    show ?thesis
    proof (cases "flags AND 0x40000000 \<noteq> 0")
      case False
      with ev [OF big] big show ?thesis by simp
    next
      case sig: True
      show ?thesis
      proof (cases "read64 bv ?S")
        case None
        with ev [OF big] big sig show ?thesis by simp
      next
        case (Some p)
        obtain sg o5 where p: "p = (sg, o5)" by (cases p)
        from ev [OF big] big sig Some p show ?thesis by auto
      qed
    qed
  qed
  from small have c1: "sz < 32 \<longrightarrow> BlockDescriptor_init bv a flags = Inl AssertionError"
    by simp
  from fields have c2: "\<forall>bd. BlockDescriptor_init bv a flags = Inr bd \<longrightarrow>
          32 \<le> sz \<and> bd_reserved bd = Some reserved \<and> bd_size bd = sz
          \<and> bd_copy bd = (if flags AND 0x02000000 \<noteq> 0
                          then map_option fst (read64 bv (a + 16)) else None)
          \<and> bd_dispose bd = (if flags AND 0x02000000 \<noteq> 0
                             then map_option fst (read64 bv (a + 24)) else None)
          \<and> bd_signature bd
              = (if flags AND 0x40000000 \<noteq> 0
                 then map_option fst (read64 bv ?S)
                 else None)
          \<and> bd_layout bd
              = (if flags AND 0x40000000 \<noteq> 0
                 then Some (map_option fst
                        (read64 bv (a + (if flags AND 0x02000000 \<noteq> 0 then 40 else 24))))
                 else None)
          \<and> (bd_signature bd \<noteq> None) = (flags AND 0x40000000 \<noteq> 0)
          \<and> (bd_layout bd \<noteq> None) = (flags AND 0x40000000 \<noteq> 0)"
    by blast
  show ?thesis
    by (rule conjI [OF c1 conjI [OF c2 conjI [OF succ plain]]])
qed

lemma c6_reads:
  "read64 (c6_view 0x30) 0x3000 = Some (0, 0x3008)"
  "read64 (c6_view 0x30) 0x3008 = Some (0x30, 0x3010)"
  "read64 (c6_view 0x10) 0x3000 = Some (0, 0x3008)"
  "read64 (c6_view 0x10) 0x3008 = Some (0x10, 0x3010)"
  "read64 (c6_view 0x30) 0x3010 = Some (0x4000, 0x3018)"
  "read64 (c6_view 0x30) 0x3018 = Some (0x5000, 0x3020)"
  "read64 (c6_view 0x30) 0x3020 = Some (0, 0x3028)"
  "read64 (c6_view 0x30) 0x3028 = Some (0x100, 0x3030)"
  by (simp_all add: c6_view_def read64_def read_le_def read_bytes_def bv_end_def)

lemma c6_short_reads:
  "read64 (c6_short_view n) 0x3000 = (if 8 \<le> n then Some (0, 0x3008) else None)"
  "read64 (c6_short_view 16) 0x3008 = Some (0x30, 0x3010)"
  "read64 (c6_short_view 24) 0x3008 = Some (0x30, 0x3010)"
  "read64 (c6_short_view 16) 0x3010 = None"
  "read64 (c6_short_view 16) 0x3018 = None"
  "read64 (c6_short_view 24) 0x3010 = Some (0, 0x3018)"
  "read64 (c6_short_view 24) 0x3018 = None"
  by (simp_all add: c6_short_view_def read64_def read_le_def read_bytes_def bv_end_def)

theorem C6_descriptor_decoding_witness:
  "read64 (c6_view 0x30) 0x3000 = Some (0, 0x3008)
   \<and> read64 (c6_view 0x30) 0x3008 = Some (0x30, 0x3010)
   \<and> read64 (c6_view 0x10) 0x3000 = Some (0, 0x3008)
   \<and> read64 (c6_view 0x10) 0x3008 = Some (0x10, 0x3010)
   \<and> read64 (c6_short_view 16) 0x3000 = Some (0, 0x3008)
   \<and> read64 (c6_short_view 16) 0x3008 = Some (0x30, 0x3010)
   \<and> read64 (c6_short_view 24) 0x3000 = Some (0, 0x3008)
   \<and> read64 (c6_short_view 24) 0x3008 = Some (0x30, 0x3010)
   \<and> BlockDescriptor_init (c6_view 0x10) 0x3000 0x42000000 = Inl AssertionError
   \<and> (\<exists>bd. BlockDescriptor_init (c6_view 0x30) 0x3000 0x42000000 = Inr bd
          \<and> bd_copy bd = Some 0x4000 \<and> bd_dispose bd = Some 0x5000
          \<and> bd_signature bd = Some 0 \<and> bd_layout bd = Some (Some 0x100))
   \<and> BlockDescriptor_init (c6_view 0x30) 0x3000 0
        = Inr \<lparr>bd_address = 0x3000, bd_block_flags = 0, bd_reserved = Some 0, bd_size = 0x30,
               bd_copy = None, bd_dispose = None, bd_signature = None,
               bd_signature_raw = None, bd_layout = None, bd_layout_end = None\<rparr>
   \<and> (\<exists>bd. BlockDescriptor_init (c6_short_view 16) 0x3000 0x02000000 = Inr bd
          \<and> bd_copy bd = None \<and> bd_dispose bd = None \<and> bd_signature bd = None
          \<and> bd_layout bd = None)
   \<and> (\<exists>bd. BlockDescriptor_init (c6_short_view 24) 0x3000 0x40000000 = Inr bd
          \<and> bd_copy bd = None \<and> bd_dispose bd = None \<and> bd_signature bd = Some 0
          \<and> bd_layout bd = Some None)
   \<and> (\<nexists>bd. BlockDescriptor_init (c6_short_view 16) 0x3000 0x40000000 = Inr bd)"
proof -
  note a = C6_descriptor_decoding [OF c6_reads(3) c6_reads(4), of "0x42000000"]
  note b = C6_descriptor_decoding [OF c6_reads(1) c6_reads(2), of "0x42000000"]
  note c = C6_descriptor_decoding [OF c6_reads(1) c6_reads(2), of 0]
  note d = C6_descriptor_decoding [of "c6_short_view 16" "0x3000" 0 "0x3008" "0x30" "0x3010"
      "0x02000000"]
  note e = C6_descriptor_decoding [of "c6_short_view 24" "0x3000" 0 "0x3008" "0x30" "0x3010"
      "0x40000000"]
  note f = C6_descriptor_decoding [of "c6_short_view 16" "0x3000" 0 "0x3008" "0x30" "0x3010"
      "0x40000000"]
  have 1: "BlockDescriptor_init (c6_view 0x10) 0x3000 0x42000000 = Inl AssertionError"
    using a by simp
  have 2: "\<exists>bd. BlockDescriptor_init (c6_view 0x30) 0x3000 0x42000000 = Inr bd
          \<and> bd_copy bd = Some 0x4000 \<and> bd_dispose bd = Some 0x5000
          \<and> bd_signature bd = Some 0 \<and> bd_layout bd = Some (Some 0x100)"
    using b by (simp add: c6_reads) (use c6_reads in auto)
  have 3: "BlockDescriptor_init (c6_view 0x30) 0x3000 0
        = Inr \<lparr>bd_address = 0x3000, bd_block_flags = 0, bd_reserved = Some 0, bd_size = 0x30,
               bd_copy = None, bd_dispose = None, bd_signature = None,
               bd_signature_raw = None, bd_layout = None, bd_layout_end = None\<rparr>"
    using c by simp
  have 4: "\<exists>bd. BlockDescriptor_init (c6_short_view 16) 0x3000 0x02000000 = Inr bd
          \<and> bd_copy bd = None \<and> bd_dispose bd = None \<and> bd_signature bd = None
          \<and> bd_layout bd = None"
    using d by (simp add: c6_short_reads) (use c6_short_reads in auto)
  have 5: "\<exists>bd. BlockDescriptor_init (c6_short_view 24) 0x3000 0x40000000 = Inr bd
          \<and> bd_copy bd = None \<and> bd_dispose bd = None \<and> bd_signature bd = Some 0
          \<and> bd_layout bd = Some None"
    using e by (simp add: c6_short_reads) (use c6_short_reads in auto)
  have 6: "\<nexists>bd. BlockDescriptor_init (c6_short_view 16) 0x3000 0x40000000 = Inr bd"
    using f by (simp add: c6_short_reads)
  show ?thesis
    using 1 2 3 4 5 6 by (simp add: c6_reads c6_short_reads)
qed

subsection \<open>annotate_literal\<close>

lemma struct_append_prefix: "prefix (members s) (members (struct_append ty nm s))"
  by (simp add: members_struct_append)

lemma append_each_prefix: "prefix (members s) (members (append_each n ty pre s))"
  using append_each_members [of n ty pre s] by auto

lemma append_byref_ptrs_prefix: "prefix (members s) (members (fst (append_byref_ptrs n s bi)))"
  using append_byref_ptrs_members [of n s bi] by auto

lemma layout_bytecode_prefix:
  "layout_bytecode bv off s bi = Inr (s', bi', e, msgs) \<Longrightarrow> prefix (members s) (members s')"
proof (induction bv off s bi rule: layout_bytecode.induct)
  case (1 bv off s byref_indexes)
  from "1.prems" obtain op off' where rd: "read8 bv off = Some (op, off')"
    by (subst (asm) layout_bytecode.simps) (auto split: option.splits)
  define opcode where "opcode = drop_bit 4 (op AND 0xf0)"
  define oparg where "oparg = op AND 0x0f"
  note IH = "1.IH" [OF rd refl opcode_def oparg_def]
  have unf: "layout_bytecode bv off s byref_indexes =
           (if opcode = BLOCK_LAYOUT_ESCAPE then Inr (s, byref_indexes, off', [])
           else if opcode = BLOCK_LAYOUT_NON_OBJECT_BYTES then
             layout_bytecode bv off'
               (struct_append (UInt8Array (nat oparg)) (''non_object_'' @ hex_str (width s)) s)
               byref_indexes
           else if opcode = BLOCK_LAYOUT_NON_OBJECT_WORDS then
             layout_bytecode bv off' (append_each (nat oparg) UInt64 ''non_object_'' s)
               byref_indexes
           else if opcode = BLOCK_LAYOUT_STRONG then
             layout_bytecode bv off' (append_each (nat oparg) ObjcId ''strong_ptr_'' s)
               byref_indexes
           else if opcode = BLOCK_LAYOUT_BYREF then
             layout_bytecode bv off' (fst (append_byref_ptrs (nat oparg) s byref_indexes))
               (snd (append_byref_ptrs (nat oparg) s byref_indexes))
           else if opcode = BLOCK_LAYOUT_WEAK then
             layout_bytecode bv off' (append_each (nat oparg) ObjcId ''weak_ptr_'' s)
               byref_indexes
           else if opcode = BLOCK_LAYOUT_UNRETAINED then
             layout_bytecode bv off' (append_each (nat oparg) ObjcId ''unretained_ptr_'' s)
               byref_indexes
           else Inr (s, byref_indexes, off', [UnknownLayoutOp op]))"
    by (subst layout_bytecode.simps) (simp add: rd Let_def opcode_def oparg_def)
  consider (stop) "opcode = BLOCK_LAYOUT_ESCAPE"
    | (bytes) "opcode \<noteq> BLOCK_LAYOUT_ESCAPE" "opcode = BLOCK_LAYOUT_NON_OBJECT_BYTES"
    | (words) "opcode \<noteq> BLOCK_LAYOUT_ESCAPE" "opcode \<noteq> BLOCK_LAYOUT_NON_OBJECT_BYTES"
        "opcode = BLOCK_LAYOUT_NON_OBJECT_WORDS"
    | (strong) "opcode \<noteq> BLOCK_LAYOUT_ESCAPE" "opcode \<noteq> BLOCK_LAYOUT_NON_OBJECT_BYTES"
        "opcode \<noteq> BLOCK_LAYOUT_NON_OBJECT_WORDS" "opcode = BLOCK_LAYOUT_STRONG"
    | (byref) "opcode \<noteq> BLOCK_LAYOUT_ESCAPE" "opcode \<noteq> BLOCK_LAYOUT_NON_OBJECT_BYTES"
        "opcode \<noteq> BLOCK_LAYOUT_NON_OBJECT_WORDS" "opcode \<noteq> BLOCK_LAYOUT_STRONG"
        "opcode = BLOCK_LAYOUT_BYREF"
    | (weak) "opcode \<noteq> BLOCK_LAYOUT_ESCAPE" "opcode \<noteq> BLOCK_LAYOUT_NON_OBJECT_BYTES"
        "opcode \<noteq> BLOCK_LAYOUT_NON_OBJECT_WORDS" "opcode \<noteq> BLOCK_LAYOUT_STRONG"
        "opcode \<noteq> BLOCK_LAYOUT_BYREF" "opcode = BLOCK_LAYOUT_WEAK"
    | (unret) "opcode \<noteq> BLOCK_LAYOUT_ESCAPE" "opcode \<noteq> BLOCK_LAYOUT_NON_OBJECT_BYTES"
        "opcode \<noteq> BLOCK_LAYOUT_NON_OBJECT_WORDS" "opcode \<noteq> BLOCK_LAYOUT_STRONG"
        "opcode \<noteq> BLOCK_LAYOUT_BYREF" "opcode \<noteq> BLOCK_LAYOUT_WEAK"
        "opcode = BLOCK_LAYOUT_UNRETAINED"
    | (unknown) "opcode \<noteq> BLOCK_LAYOUT_ESCAPE" "opcode \<noteq> BLOCK_LAYOUT_NON_OBJECT_BYTES"
        "opcode \<noteq> BLOCK_LAYOUT_NON_OBJECT_WORDS" "opcode \<noteq> BLOCK_LAYOUT_STRONG"
        "opcode \<noteq> BLOCK_LAYOUT_BYREF" "opcode \<noteq> BLOCK_LAYOUT_WEAK"
        "opcode \<noteq> BLOCK_LAYOUT_UNRETAINED"
    by blast
  then show ?case
  proof cases
    case stop
    with "1.prems" unf show ?thesis by simp
  next
    case bytes
    with "1.prems" unf IH(1) [OF bytes] show ?thesis
      using prefix_order.trans [OF struct_append_prefix] by simp
  next
    case words
    with "1.prems" unf IH(2) [OF words] show ?thesis
      using prefix_order.trans [OF append_each_prefix] by simp
  next
    case strong
    with "1.prems" unf IH(3) [OF strong] show ?thesis
      using prefix_order.trans [OF append_each_prefix] by simp
  next
    case byref
    with "1.prems" unf IH(4) [OF byref] show ?thesis
      using prefix_order.trans [OF append_byref_ptrs_prefix] by simp
  next
    case weak
    with "1.prems" unf IH(5) [OF weak] show ?thesis
      using prefix_order.trans [OF append_each_prefix] by simp
  next
    case unret
    with "1.prems" unf IH(6) [OF unret] show ?thesis
      using prefix_order.trans [OF append_each_prefix] by simp
  next
    case unknown
    with "1.prems" unf show ?thesis by simp
  qed
qed

lemma append_layout_fields_prefix:
  assumes "append_layout_fields bv s layout ext bi leo = Inr (s', bi', leo', msgs)"
  shows "prefix (members s) (members s')"
proof -
  consider (zero) "layout = 0" | (noext) "layout \<noteq> 0" "\<not> ext"
    | (compact) "layout \<noteq> 0" "ext" "layout < 0x1000"
    | (bytecode) "layout \<noteq> 0" "ext" "\<not> layout < 0x1000"
    by blast
  then show ?thesis
  proof cases
    case zero
    with assms show ?thesis by (simp add: append_layout_fields_def)
  next
    case noext
    with assms show ?thesis by (simp add: append_layout_fields_def)
  next
    case compact
    let ?s1 = "append_each (nat (drop_bit 8 layout AND 0xf)) ObjcId ''strong_ptr_'' s"
    let ?r = "append_byref_ptrs (nat (drop_bit 4 layout AND 0xf)) ?s1 bi"
    have s': "s' = append_each (nat (layout AND 0xf)) ObjcId ''weak_ptr_'' (fst ?r)"
      using assms compact by (simp add: append_layout_fields_def Let_def)
    have "prefix (members s) (members ?s1)" by (rule append_each_prefix)
    also have "prefix (members ?s1) (members (fst ?r))" by (rule append_byref_ptrs_prefix)
    also have "prefix (members (fst ?r))
        (members (append_each (nat (layout AND 0xf)) ObjcId ''weak_ptr_'' (fst ?r)))"
      by (rule append_each_prefix)
    finally show ?thesis unfolding s' .
  next
    case bytecode
    show ?thesis
    proof (cases "layout_bytecode bv layout s bi")
      case (Inl e)
      with assms bytecode show ?thesis by (simp add: append_layout_fields_def)
    next
      case (Inr r)
      obtain s2 bi2 off m2 where r: "r = (s2, bi2, off, m2)" by (cases r) auto
      from assms bytecode Inr r have "s2 = s'" by (simp add: append_layout_fields_def)
      with Inr r have "layout_bytecode bv layout s bi = Inr (s', bi2, off, m2)" by simp
      then show ?thesis by (rule layout_bytecode_prefix)
    qed
  qed
qed



















subsection \<open>from_stack\<close>

lemma all_bound_iff: "all_bound L \<longleftrightarrow> bound L 0 \<and> bound L 1 \<and> bound L 2 \<and> bound L 3 \<and> bound L 4"
  by (simp add: all_bound_def bound_def)

lemma agrees_all_bound:
  assumes "agrees isa flags reserved invoke descriptor L" and "all_bound L"
  shows "L = \<lparr>l_isa = Some isa, l_flags = Some flags, l_reserved = Some reserved,
              l_invoke = Some invoke, l_descriptor = Some descriptor\<rparr>"
  using assms by (cases L) (auto simp: agrees_def all_bound_def)

lemma const_value_not_field:
  "const_value src = Some c \<Longrightarrow>
     (case src of HighLevelILStructField s k \<Rightarrow> (Inl RuntimeError :: error + from_stack_locals)
      | _ \<Rightarrow> r) = r"
  by (cases src) (simp_all add: const_value_def)

lemma from_stack_assign_header:
  assumes hs: "header_source isa flags reserved invoke descriptor k src"
    and ag: "agrees isa flags reserved invoke descriptor L"
  shows "\<exists>L'. from_stack_assign k src L = Inr L'
           \<and> agrees isa flags reserved invoke descriptor L'
           \<and> bound L' k \<and> (\<forall>k'. bound L k' \<longrightarrow> bound L' k')"
proof -
  consider "k = 0" | "k = 1" | "k = 2" | "k = 3" | "k = 4" | "k > 4" by linarith
  then show ?thesis
  proof cases
    case 1
    with hs ag show ?thesis
      by (simp add: header_source_def from_stack_assign_def agrees_def bound_def)
  next
    case 2
    with hs have cv: "const_value src = Some flags" by (simp add: header_source_def)
    have "from_stack_assign k src L = Inr (L\<lparr>l_flags := Some flags\<rparr>)"
      using 2 cv const_value_not_field [OF cv]
      by (simp add: from_stack_assign_def)
    with ag show ?thesis by (simp add: agrees_def bound_def 2)
  next
    case 3
    with hs ag show ?thesis
      by (simp add: header_source_def from_stack_assign_def agrees_def bound_def)
  next
    case 4
    with hs ag show ?thesis
      by (simp add: header_source_def from_stack_assign_def agrees_def bound_def)
  next
    case 5
    with hs ag show ?thesis
      by (simp add: header_source_def from_stack_assign_def agrees_def bound_def)
  next
    case 6
    with hs ag show ?thesis
      by (simp add: header_source_def from_stack_assign_def agrees_def bound_def)
  qed
qed


lemma assigns_field_Cons:
  "assigns_field v (i # rest) k \<longleftrightarrow>
     (case yield_struct_field_assign v i of Inr (Some (k', src)) \<Rightarrow> k' = k | _ \<Rightarrow> False)
     \<or> assigns_field v rest k"
  by (simp add: assigns_field_def)

lemma from_stack_loop_header:
  assumes "list_all (header_insn v isa flags reserved invoke descriptor) rest"
    and "agrees isa flags reserved invoke descriptor L"
    and "\<forall>k<5. bound L k \<or> assigns_field v rest k"
  shows "from_stack_loop v rest L
           = Inr \<lparr>l_isa = Some isa, l_flags = Some flags, l_reserved = Some reserved,
                  l_invoke = Some invoke, l_descriptor = Some descriptor\<rparr>"
  using assms
proof (induction rest arbitrary: L)
  case Nil
  then have "all_bound L"
    by (simp add: all_bound_iff assigns_field_def)
  with Nil.prems(2) show ?case
    using agrees_all_bound by simp
next
  case (Cons i rest)
  from Cons.prems(1) have hi: "header_insn v isa flags reserved invoke descriptor i"
    and hr: "list_all (header_insn v isa flags reserved invoke descriptor) rest"
    by simp_all
  show ?case
  proof (cases "yield_struct_field_assign v i")
    case (Inl e)
    with hi show ?thesis by (simp add: header_insn_def)
  next
    case (Inr y)
    show ?thesis
    proof (cases y)
      case None
      have "\<forall>k<5. bound L k \<or> assigns_field v rest k"
        using Cons.prems(3) Inr None by (simp add: assigns_field_Cons)
      then have "from_stack_loop v rest L
           = Inr \<lparr>l_isa = Some isa, l_flags = Some flags, l_reserved = Some reserved,
                  l_invoke = Some invoke, l_descriptor = Some descriptor\<rparr>"
        using Cons.IH [OF hr Cons.prems(2)] by blast
      then show ?thesis using Inr None by simp
    next
      case (Some p)
      obtain k src where p: "p = (k, src)" by (cases p) auto
      have y: "yield_struct_field_assign v i = Inr (Some (k, src))"
        using Inr Some p by simp
      from hi y have hs: "header_source isa flags reserved invoke descriptor k src"
        by (simp add: header_insn_def)
      from from_stack_assign_header [OF hs Cons.prems(2)] obtain L'
        where L': "from_stack_assign k src L = Inr L'"
          "agrees isa flags reserved invoke descriptor L'"
          "bound L' k" "\<forall>k'. bound L k' \<longrightarrow> bound L' k'"
        by blast
      show ?thesis
      proof (cases "all_bound L'")
        case True
        then show ?thesis
          using y L'(1) agrees_all_bound [OF L'(2) True] by simp
      next
        case False
        have "\<forall>k'<5. bound L' k' \<or> assigns_field v rest k'"
        proof (intro allI impI)
          fix k' :: nat assume "k' < 5"
          with Cons.prems(3) have "bound L k' \<or> assigns_field v (i # rest) k'" by blast
          then show "bound L' k' \<or> assigns_field v rest k'"
            using L'(3,4) y by (auto simp: assigns_field_Cons)
        qed
        then have "from_stack_loop v rest L'
           = Inr \<lparr>l_isa = Some isa, l_flags = Some flags, l_reserved = Some reserved,
                  l_invoke = Some invoke, l_descriptor = Some descriptor\<rparr>"
          using Cons.IH [OF hr L'(2)] by blast
        then show ?thesis using y L'(1) False by simp
      qed
    qed
  qed
qed

text \<open>C2 (amended). Let the function's HLIL, in any order and among any other instructions
  that the scan skips, assign every one of the five header fields of the block's variable
  by struct-field assignments: field 0 from the stack-block marker import, fields 1
  (flags, IS_GLOBAL clear), 3 (invoke, non-zero) and 4 (descriptor, non-zero) from
  constants, and field 2 (reserved) from anything. Then \<open>from_stack\<close> succeeds and returns
  the Stack-variant literal with exactly these values, whatever the order of the
  assignments.\<close>

theorem C2_from_stack_any_order:
  assumes "reload_hlil_instruction func bl_insn0 = Inr bl_insn"
    and "from_stack_var_id bl_insn = Inr v"
    and "list_all (header_insn v isa flags reserved invoke descriptor) func"
    and "list_all (assigns_field v func) [0, 1, 2, 3, 4]"
    and "invoke \<noteq> 0" and "descriptor \<noteq> 0" and "flags AND BLOCK_IS_GLOBAL = 0"
  shows "from_stack func bl_insn0
           = Inr \<lparr>bl_is_stack_block = True, bl_target = Insn bl_insn,
                  bl_address = fst bl_insn, bl_isa = isa, bl_flags = flags,
                  bl_reserved = reserved, bl_invoke = invoke, bl_descriptor = descriptor\<rparr>"
proof -
  have "\<forall>k<5. bound no_locals k \<or> assigns_field v func k"
  proof (intro allI impI)
    fix k :: nat assume "k < 5"
    then consider "k = 0" | "k = 1" | "k = 2" | "k = 3" | "k = 4" by linarith
    then show "bound no_locals k \<or> assigns_field v func k"
      using assms(4) by cases simp_all
  qed
  moreover have "agrees isa flags reserved invoke descriptor no_locals"
    by (simp add: agrees_def no_locals_def)
  ultimately have loop: "from_stack_loop v func no_locals
           = Inr \<lparr>l_isa = Some isa, l_flags = Some flags, l_reserved = Some reserved,
                  l_invoke = Some invoke, l_descriptor = Some descriptor\<rparr>"
    using from_stack_loop_header [OF assms(3)] by blast
  show ?thesis
    using assms(1,2,5,6,7) loop
    by (simp add: from_stack_def BlockLiteral_init_def)
qed

lemmas scan_defs =
  from_stack_def from_stack_var_id_def yield_struct_field_assign_def dest_src_var_def
  from_stack_assign_def const_value_def all_bound_def no_locals_def node_var_def

text \<open>C2 (as stated). On the stream of the claim (fields 3, 1 and 4 and the initialisation
  of the variable, no assignment to field 2) \<open>from_stack\<close> does not return a literal: it
  raises UnboundLocalError. The same holds when the marker is assigned to field 0 by a
  struct-field assignment: \<open>reserved\<close> is still unbound.\<close>

theorem C2_from_stack_counterexample:
  "from_stack c2_stream
       (0x1c, HighLevelILVarInit 1 (HighLevelILImport ''__NSConcreteStackBlock'' 0x1c))
     = Inl UnboundLocalError
   \<and> from_stack c2_retyped (0x0c, HighLevelILVarDeclare 1) = Inl UnboundLocalError"
  by (simp add: c2_stream_def c2_retyped_def scan_defs)

theorem C2_from_stack_any_order_witness:
  "reload_hlil_instruction c2_with_reserved (0x0c, HighLevelILVarDeclare 1)
     = Inr (0x0c, HighLevelILVarDeclare 1)
   \<and> from_stack_var_id (0x0c, HighLevelILVarDeclare 1) = Inr 1
   \<and> list_all (header_insn 1 0x1c 0x02000000 (Some 0) 0x4000 0x5000) c2_with_reserved
   \<and> list_all (assigns_field 1 c2_with_reserved) [0, 1, 2, 3, 4]
   \<and> (0x4000 :: int) \<noteq> 0 \<and> (0x5000 :: int) \<noteq> 0 \<and> (0x02000000 :: int) AND BLOCK_IS_GLOBAL = 0
   \<and> from_stack c2_with_reserved (0x0c, HighLevelILVarDeclare 1)
       = Inr \<lparr>bl_is_stack_block = True, bl_target = Insn (0x0c, HighLevelILVarDeclare 1),
              bl_address = 0x0c, bl_isa = 0x1c, bl_flags = 0x02000000,
              bl_reserved = Some 0, bl_invoke = 0x4000, bl_descriptor = 0x5000\<rparr>"
proof -
  have a: "reload_hlil_instruction c2_with_reserved (0x0c, HighLevelILVarDeclare 1)
     = Inr (0x0c, HighLevelILVarDeclare 1)"
    by (simp add: c2_with_reserved_def c2_retyped_def)
  have b: "from_stack_var_id (0x0c, HighLevelILVarDeclare 1) = Inr 1"
    by (simp add: from_stack_var_id_def)
  have c: "list_all (header_insn 1 0x1c 0x02000000 (Some 0) 0x4000 0x5000) c2_with_reserved"
    by (simp add: c2_with_reserved_def c2_retyped_def header_insn_def header_source_def
        yield_struct_field_assign_def dest_src_var_def const_value_def)
  have d: "list_all (assigns_field 1 c2_with_reserved) [0, 1, 2, 3, 4]"
    by (simp add: c2_with_reserved_def c2_retyped_def assigns_field_def
        yield_struct_field_assign_def dest_src_var_def)
  have e: "(0x4000 :: int) \<noteq> 0" "(0x5000 :: int) \<noteq> 0"
    "(0x02000000 :: int) AND BLOCK_IS_GLOBAL = 0"
    by (simp_all add: BLOCK_IS_GLOBAL_def)
  show ?thesis
    using C2_from_stack_any_order [OF a b c d e] a b c d e by simp
qed

lemma yield_unsupported:
  "unsupported_base dsrc \<Longrightarrow>
     yield_struct_field_assign v (a, HighLevelILAssign (HighLevelILStructField dsrc k) src)
       = Inl NotImplementedError"
  by (cases dsrc) (simp_all add: unsupported_base_def yield_struct_field_assign_def
      dest_src_var_def)

lemma dest_src_var_skipped:
  assumes "case dsrc of
                  HighLevelILVar w \<Rightarrow> w \<noteq> v
                | HighLevelILArrayIndex b idx \<Rightarrow>
                    (case b of HighLevelILVar w \<Rightarrow> w \<noteq> v | _ \<Rightarrow> True)
                | HighLevelILStructField b k' \<Rightarrow>
                    (case b of HighLevelILVar w \<Rightarrow> w \<noteq> v | _ \<Rightarrow> True)
                | HighLevelILDerefField b k' \<Rightarrow> True
                | _ \<Rightarrow> False"
  shows "dest_src_var dsrc = Inr None \<or> (\<exists>w. dest_src_var dsrc = Inr (Some w) \<and> w \<noteq> v)"
proof (cases dsrc)
  case (HighLevelILArrayIndex b idx)
  with assms show ?thesis by (cases b) (simp_all add: dest_src_var_def)
next
  case (HighLevelILStructField b k')
  with assms show ?thesis by (cases b) (simp_all add: dest_src_var_def)
qed (use assms in \<open>simp_all add: dest_src_var_def\<close>)

lemma yield_skipped:
  assumes "skipped_insn v i"
  shows "yield_struct_field_assign v i = Inr None"
proof (cases "snd i")
  case (HighLevelILAssign dest src)
  show ?thesis
  proof (cases dest)
    case (HighLevelILStructField dsrc k)
    with assms HighLevelILAssign have "dest_src_var dsrc = Inr None
        \<or> (\<exists>w. dest_src_var dsrc = Inr (Some w) \<and> w \<noteq> v)"
      by (intro dest_src_var_skipped) (simp add: skipped_insn_def)
    then show ?thesis
      using HighLevelILAssign HighLevelILStructField
      by (auto simp: yield_struct_field_assign_def)
  qed (use HighLevelILAssign in \<open>simp_all add: yield_struct_field_assign_def\<close>)
qed (simp_all add: yield_struct_field_assign_def)

lemma from_stack_loop_skipped:
  "list_all (skipped_insn v) pre \<Longrightarrow> from_stack_loop v (pre @ rest) L = from_stack_loop v rest L"
  by (induction pre) (simp_all add: yield_skipped)

text \<open>C3 (amended). An assignment to a struct field whose base expression is none of a
  variable, an array element, a struct field or a pointer-dereferenced field raises
  NotImplementedError as soon as the scan reaches it, whatever follows it; when only
  skipped instructions precede it, \<open>from_stack\<close> as a whole fails with that error, which
  gives the instance up. Every other non-matching instruction (not an assignment, a
  destination that is not a struct field, a field chain not rooted at a variable, a
  dereferenced field, a field of another variable) is passed over silently and the scan
  continues with the remaining instructions.\<close>

theorem C3_unrecognised_destination:
  "(unsupported_base dsrc \<longrightarrow>
      from_stack_loop v
          ((a, HighLevelILAssign (HighLevelILStructField dsrc k) src) # rest) L
        = Inl NotImplementedError)
   \<and> (skipped_insn v i \<longrightarrow> from_stack_loop v (i # rest) L = from_stack_loop v rest L)
   \<and> (unsupported_base dsrc \<and> list_all (skipped_insn v) pre
        \<and> reload_hlil_instruction
             (pre @ (a, HighLevelILAssign (HighLevelILStructField dsrc k) src) # rest) i0
            = Inr bl_insn
        \<and> from_stack_var_id bl_insn = Inr v \<longrightarrow>
      from_stack (pre @ (a, HighLevelILAssign (HighLevelILStructField dsrc k) src) # rest) i0
        = Inl NotImplementedError)"
proof (intro conjI impI)
  assume "unsupported_base dsrc"
  then show "from_stack_loop v
          ((a, HighLevelILAssign (HighLevelILStructField dsrc k) src) # rest) L
        = Inl NotImplementedError"
    by (simp add: yield_unsupported)
next
  assume "skipped_insn v i"
  then show "from_stack_loop v (i # rest) L = from_stack_loop v rest L"
    by (simp add: yield_skipped)
next
  assume h: "unsupported_base dsrc \<and> list_all (skipped_insn v) pre
        \<and> reload_hlil_instruction
             (pre @ (a, HighLevelILAssign (HighLevelILStructField dsrc k) src) # rest) i0
            = Inr bl_insn
        \<and> from_stack_var_id bl_insn = Inr v"
  then have "from_stack_loop v
      (pre @ (a, HighLevelILAssign (HighLevelILStructField dsrc k) src) # rest) no_locals
      = Inl NotImplementedError"
    by (simp add: from_stack_loop_skipped yield_unsupported)
  with h show "from_stack
      (pre @ (a, HighLevelILAssign (HighLevelILStructField dsrc k) src) # rest) i0
        = Inl NotImplementedError"
    by (simp add: from_stack_def)
qed

text \<open>C3 (as stated). One assignment with an unrecognised destination shape, placed before
  the header assignments, makes \<open>from_stack\<close> fail with NotImplementedError, although the
  same stream without it yields the literal: the assignment is not skipped and the scan
  does not continue.\<close>

theorem C3_unrecognised_destination_counterexample:
  "from_stack c3_stream (0x0c, HighLevelILVarDeclare 1) = Inl NotImplementedError
   \<and> c3_stream = (0x0c, HighLevelILVarDeclare 1) # c3_bad_insn # tl c2_with_reserved
   \<and> c2_with_reserved = (0x0c, HighLevelILVarDeclare 1) # tl c2_with_reserved
   \<and> from_stack c2_with_reserved (0x0c, HighLevelILVarDeclare 1)
       = Inr \<lparr>bl_is_stack_block = True, bl_target = Insn (0x0c, HighLevelILVarDeclare 1),
              bl_address = 0x0c, bl_isa = 0x1c, bl_flags = 0x02000000,
              bl_reserved = Some 0, bl_invoke = 0x4000, bl_descriptor = 0x5000\<rparr>"
  by (simp add: c3_stream_def c3_bad_insn_def c2_with_reserved_def c2_retyped_def scan_defs
      BlockLiteral_init_def BLOCK_IS_GLOBAL_def)

theorem C3_unrecognised_destination_witness:
  "unsupported_base (HighLevelILDeref (HighLevelILVar 7))
   \<and> skipped_insn 1 (0x0c, HighLevelILVarDeclare 1)
   \<and> list_all (skipped_insn 1) [(0x0c, HighLevelILVarDeclare 1)]
   \<and> reload_hlil_instruction c3_stream (0x0c, HighLevelILVarDeclare 1)
       = Inr (0x0c, HighLevelILVarDeclare 1)
   \<and> from_stack_var_id (0x0c, HighLevelILVarDeclare 1) = Inr 1
   \<and> from_stack_loop 1 (c3_bad_insn # tl c2_with_reserved) no_locals = Inl NotImplementedError
   \<and> from_stack_loop 1 c3_stream no_locals
       = from_stack_loop 1 (c3_bad_insn # tl c2_with_reserved) no_locals
   \<and> from_stack c3_stream (0x0c, HighLevelILVarDeclare 1) = Inl NotImplementedError"
proof -
  have u: "unsupported_base (HighLevelILDeref (HighLevelILVar 7))"
    by (simp add: unsupported_base_def)
  have s: "skipped_insn 1 (0x0c, HighLevelILVarDeclare 1)"
    by (simp add: skipped_insn_def)
  have r: "reload_hlil_instruction c3_stream (0x0c, HighLevelILVarDeclare 1)
       = Inr (0x0c, HighLevelILVarDeclare 1)"
    by (simp add: c3_stream_def)
  have v: "from_stack_var_id (0x0c, HighLevelILVarDeclare 1) = Inr 1"
    by (simp add: from_stack_var_id_def)
  have l: "list_all (skipped_insn 1) [(0x0c, HighLevelILVarDeclare 1)]"
    using s by simp
  have r': "reload_hlil_instruction
       ([(0x0c, HighLevelILVarDeclare 1)]
        @ (0x0e, HighLevelILAssign
                   (HighLevelILStructField (HighLevelILDeref (HighLevelILVar 7)) 1)
                   (HighLevelILConst 0)) # tl c2_with_reserved)
       (0x0c, HighLevelILVarDeclare 1)
       = Inr (0x0c, HighLevelILVarDeclare 1)"
    by simp
  note t1 = C3_unrecognised_destination [of "HighLevelILDeref (HighLevelILVar 7)" 1 "0x0e" 1
        "HighLevelILConst 0" "tl c2_with_reserved" no_locals "(0x0c, HighLevelILVarDeclare 1)"
        "[(0x0c, HighLevelILVarDeclare 1)]" "(0x0c, HighLevelILVarDeclare 1)"
        "(0x0c, HighLevelILVarDeclare 1)"]
  note t2 = C3_unrecognised_destination [of "HighLevelILDeref (HighLevelILVar 7)" 1 "0x0e" 1
        "HighLevelILConst 0" "c3_bad_insn # tl c2_with_reserved" no_locals
        "(0x0c, HighLevelILVarDeclare 1)"
        "[(0x0c, HighLevelILVarDeclare 1)]" "(0x0c, HighLevelILVarDeclare 1)"
        "(0x0c, HighLevelILVarDeclare 1)"]
  have c1: "from_stack_loop 1 (c3_bad_insn # tl c2_with_reserved) no_locals
      = Inl NotImplementedError"
    unfolding c3_bad_insn_def using t1 u by blast
  have c2: "from_stack_loop 1 c3_stream no_locals
       = from_stack_loop 1 (c3_bad_insn # tl c2_with_reserved) no_locals"
    unfolding c3_stream_def using t2 s by blast
  have c3: "from_stack c3_stream (0x0c, HighLevelILVarDeclare 1) = Inl NotImplementedError"
    using t1 u l r' v unfolding c3_stream_def c3_bad_insn_def append_Cons append_Nil
    by blast
  show ?thesis
    using u s l r v c1 c2 c3 by blast
qed

subsection \<open>Byref cells\<close>

lemma sigs_struct_append:
  "map member_sig (members (struct_append ty nm s)) = map member_sig (members s) @ [(ty, nm)]"
  by (simp add: members_struct_append member_sig_def)

lemma byref_header_members:
  "map member_sig (members byref_header) = byref_header_sigs"
  by (simp add: byref_header_def sigs_struct_append StructureBuilder_create_def
      byref_header_sigs_def)

lemma keep_destroy_members:
  "map member_sig (members (byref_keep_destroy byref_flags byref_header))
     = byref_header_sigs @ keep_destroy_sigs byref_flags"
  by (simp add: byref_keep_destroy_def keep_destroy_sigs_def sigs_struct_append
      byref_header_members BLOCK_BYREF_HAS_COPY_DISPOSE_def)

lemma byref_payload_simple:
  assumes "byref_flags AND BLOCK_BYREF_LAYOUT_MASK = nib"
    and "nib \<noteq> BLOCK_BYREF_LAYOUT_EXTENDED"
  shows "byref_payload bv func byref_insn byref_flags byref_layout s =
      (if nib = BLOCK_BYREF_LAYOUT_NON_OBJECT then
        Inr (struct_append UInt64 ''non_object_0'' s, byref_layout, [])
      else if nib = BLOCK_BYREF_LAYOUT_STRONG then
        Inr (struct_append ObjcId ''strong_ptr_0'' s, byref_layout, [])
      else if nib = BLOCK_BYREF_LAYOUT_WEAK then
        Inr (struct_append ObjcId ''weak_ptr_0'' s, byref_layout, [])
      else if nib = BLOCK_BYREF_LAYOUT_UNRETAINED then
        Inr (struct_append ObjcId ''unretained_ptr_0'' s, byref_layout, [])
      else Inr (s, byref_layout, []))"
  using assms by (simp add: byref_payload_def Let_def)

lemma layout_index_eval:
  "index_by_name (struct_append VoidPtr ''layout'' (byref_keep_destroy byref_flags byref_header))
       ''layout''
     = Some (if byref_flags AND 0x02000000 \<noteq> 0 then 6 else 4)"
  by (simp add: index_by_name_def byref_keep_destroy_def byref_header_def struct_append_def
      StructureBuilder_create_def BLOCK_BYREF_HAS_COPY_DISPOSE_def Let_def)

lemma layout_member_replaced:
  "map member_sig
     (members (struct_replace (if byref_flags AND 0x02000000 \<noteq> 0 then 6 else 4) ty ''layout''
        (struct_append VoidPtr ''layout'' (byref_keep_destroy byref_flags byref_header))))
     = byref_header_sigs @ keep_destroy_sigs byref_flags @ [(ty, ''layout'')]"
  by (simp add: struct_replace_def byref_keep_destroy_def byref_header_def struct_append_def
      StructureBuilder_create_def BLOCK_BYREF_HAS_COPY_DISPOSE_def Let_def member_sig_def
      byref_header_sigs_def keep_destroy_sigs_def eval_nat_numeral)


lemma byref_extended_eval:
  assumes r: "reload_hlil_instruction func byref_insn = Inr insn'"
    and v: "node_var (snd insn') = Inr v"
    and sc: "scan_layout v (if byref_flags AND 0x02000000 \<noteq> 0 then 6 else 4) func
               = Inr (Some c)"
  shows "\<exists>s2. map member_sig (members s2)
                 = byref_header_sigs @ keep_destroy_sigs byref_flags
                   @ [(layout_member_type c, ''layout'')]
            \<and> byref_extended_layout bv func byref_insn byref_layout
                  (byref_keep_destroy byref_flags byref_header)
                = (case append_layout_fields bv s2 c True None None of
                     Inl e \<Rightarrow> Inl e
                   | Inr (s3, bi, leo, msgs) \<Rightarrow> Inr (s3, Some c, msgs))"
proof -
  let ?i = "if byref_flags AND 0x02000000 \<noteq> 0 then 6 else 4 :: nat"
  let ?s1 = "struct_append VoidPtr ''layout'' (byref_keep_destroy byref_flags byref_header)"
  let ?s2 = "if c \<noteq> 0 then
               (if c < 0x1000 then struct_replace ?i UInt64 ''layout'' ?s1
                else struct_replace ?i UInt8ConstPtr ''layout'' ?s1)
             else ?s1"
  have e: "byref_extended_layout bv func byref_insn byref_layout
                  (byref_keep_destroy byref_flags byref_header)
                = (case append_layout_fields bv ?s2 c True None None of
                     Inl e \<Rightarrow> Inl e
                   | Inr (s3, bi, leo, msgs) \<Rightarrow> Inr (s3, Some c, msgs))"
    unfolding byref_extended_layout_def Let_def layout_index_eval
    using r v sc by simp
  have s1: "map member_sig (members ?s1)
      = byref_header_sigs @ keep_destroy_sigs byref_flags @ [(VoidPtr, ''layout'')]"
    by (simp add: sigs_struct_append keep_destroy_members)
  have m: "map member_sig (members ?s2)
                 = byref_header_sigs @ keep_destroy_sigs byref_flags
                   @ [(layout_member_type c, ''layout'')]"
    using s1 layout_member_replaced [of byref_flags UInt64]
      layout_member_replaced [of byref_flags UInt8ConstPtr]
    by (simp add: layout_member_type_def)
  from m e show ?thesis by blast
qed

text \<open>Every result of the extended branch, whatever \<open>byref_layout\<close> was bound to on
  entry: the layout word decoded is the constant the scan finds, else the earlier
  binding.\<close>

lemma byref_extended_Inr:
  assumes ok: "byref_extended_layout bv func byref_insn byref_layout
                 (byref_keep_destroy byref_flags byref_header) = Inr (s3, layout', msgs)"
  shows "\<exists>d (s2 :: structure_builder) bi leo found insn' v.
            layout' = Some d
          \<and> reload_hlil_instruction func byref_insn = Inr insn'
          \<and> node_var (snd insn') = Inr v
          \<and> scan_layout v (if byref_flags AND 0x02000000 \<noteq> 0 then 6 else 4) func = Inr found
          \<and> Some d = (case found of Some x \<Rightarrow> Some x | None \<Rightarrow> byref_layout)
          \<and> map member_sig (members s2)
              = byref_header_sigs @ keep_destroy_sigs byref_flags
                @ [(layout_member_type d, ''layout'')]
          \<and> append_layout_fields bv s2 d True None None = Inr (s3, bi, leo, msgs)
          \<and> prefix (members s2) (members s3)"
proof -
  let ?i = "if byref_flags AND 0x02000000 \<noteq> 0 then 6 else 4 :: nat"
  let ?s1 = "struct_append VoidPtr ''layout'' (byref_keep_destroy byref_flags byref_header)"
  have e: "byref_extended_layout bv func byref_insn byref_layout
             (byref_keep_destroy byref_flags byref_header)
      = (case reload_hlil_instruction func byref_insn of Inl e \<Rightarrow> Inl e | Inr byref_insn' \<Rightarrow>
         (case node_var (snd byref_insn') of Inl e \<Rightarrow> Inl e | Inr v \<Rightarrow>
          (case scan_layout v ?i func of Inl e \<Rightarrow> Inl e | Inr found \<Rightarrow>
           (case (case found of Some c \<Rightarrow> Some c | None \<Rightarrow> byref_layout) of
              None \<Rightarrow> Inl UnboundLocalError
            | Some layout \<Rightarrow>
               (case append_layout_fields bv
                       (if layout \<noteq> 0 then
                          (if layout < 0x1000 then struct_replace ?i UInt64 ''layout'' ?s1
                           else struct_replace ?i UInt8ConstPtr ''layout'' ?s1)
                        else ?s1) layout True None None of
                  Inl e \<Rightarrow> Inl e
                | Inr (s3, bi, leo, msgs) \<Rightarrow> Inr (s3, Some layout, msgs))))))"
    unfolding byref_extended_layout_def Let_def layout_index_eval by simp
  show ?thesis
  proof (cases "reload_hlil_instruction func byref_insn")
    case (Inl x)
    with ok e show ?thesis by simp
  next
    case r: (Inr insn')
    show ?thesis
    proof (cases "node_var (snd insn')")
      case (Inl x)
      with ok e r show ?thesis by simp
    next
      case v: (Inr v)
      show ?thesis
      proof (cases "scan_layout v ?i func")
        case (Inl x)
        with ok e r v show ?thesis by simp
      next
        case sc: (Inr found)
        show ?thesis
        proof (cases "case found of Some c \<Rightarrow> Some c | None \<Rightarrow> byref_layout")
          case None
          with ok e r v sc show ?thesis by simp
        next
          case d: (Some d)
          let ?s2 = "if d \<noteq> 0 then
                       (if d < 0x1000 then struct_replace ?i UInt64 ''layout'' ?s1
                        else struct_replace ?i UInt8ConstPtr ''layout'' ?s1)
                     else ?s1"
          have s1: "map member_sig (members ?s1)
              = byref_header_sigs @ keep_destroy_sigs byref_flags @ [(VoidPtr, ''layout'')]"
            by (simp add: sigs_struct_append keep_destroy_members)
          have m: "map member_sig (members ?s2)
                 = byref_header_sigs @ keep_destroy_sigs byref_flags
                   @ [(layout_member_type d, ''layout'')]"
            using s1 layout_member_replaced [of byref_flags UInt64]
              layout_member_replaced [of byref_flags UInt8ConstPtr]
            by (simp add: layout_member_type_def)
          show ?thesis
          proof (cases "append_layout_fields bv ?s2 d True None None")
            case (Inl x)
            with ok e r v sc d show ?thesis by simp
          next
            case (Inr q)
            obtain x bi leo ms where q: "q = (x, bi, leo, ms)" by (cases q) auto
            from ok e r v sc d Inr q have eq: "x = s3" "layout' = Some d" "ms = msgs"
              by simp_all
            have a: "append_layout_fields bv ?s2 d True None None = Inr (s3, bi, leo, msgs)"
              using Inr q eq by simp
            have pre: "prefix (members ?s2) (members s3)"
              using a by (rule append_layout_fields_prefix)
            have dd: "Some d = (case found of Some x \<Rightarrow> Some x | None \<Rightarrow> byref_layout)"
              using d by simp
            show ?thesis
              apply (rule exI [of _ d])
              apply (rule exI [of _ ?s2])
              apply (rule exI [of _ bi])
              apply (rule exI [of _ leo])
              apply (rule exI [of _ found])
              apply (rule exI [of _ insn'])
              apply (rule exI [of _ v])
              apply (intro conjI)
                     apply (rule eq(2))
                    apply (rule r)
                   apply (rule v)
                  apply (rule sc)
                 apply (rule dd)
                apply (rule m)
               apply (rule a)
              apply (rule pre)
              done
          qed
        qed
      qed
    qed
  qed
qed

text \<open>C8. After the fixed header of a byref cell (isa, forwarding, flags, size) the members
  \<open>byref_keep\<close> and \<open>byref_destroy\<close> are appended if and only if the copy-dispose bit
  (0x02000000) of the byref flags is set. Then the layout nibble (flags AND 0x70000000)
  selects the payload: NonObject one \<open>uint64_t non_object_0\<close>, Strong one \<open>id strong_ptr_0\<close>,
  Weak one \<open>id weak_ptr_0\<close>, Unretained one \<open>id unretained_ptr_0\<close>, each exactly one member
  and nothing else; Extended the \<open>layout\<close> member followed by whatever the nested
  \<open>append_layout_fields\<close> appends, zero or more slots: when the variable is found again
  after the reload and the scan finds the constant \<open>c\<close> assigned to the layout member, the
  result is that of decoding \<open>c\<close>; and every result the extended branch returns at all,
  also one decoded from a layout word left bound by an earlier cell, consists of the
  header, keep and destroy as above, \<open>layout\<close>, and then the appended slots. The five
  nibble values are distinct, so the cases exclude each other; any other nibble appends
  no payload.\<close>

theorem C8_byref_payload:
  "map member_sig (members (byref_keep_destroy byref_flags byref_header))
     = byref_header_sigs
       @ (if byref_flags AND BLOCK_BYREF_HAS_COPY_DISPOSE \<noteq> 0
          then [(BlockByrefKeepFunction, ''byref_keep''),
                (BlockByrefDestroyFunction, ''byref_destroy'')]
          else [])
   \<and> (byref_flags AND BLOCK_BYREF_LAYOUT_MASK = BLOCK_BYREF_LAYOUT_NON_OBJECT \<longrightarrow>
        (\<exists>s'. byref_members bv func byref_insn byref_flags byref_layout byref_header
                 = Inr (s', byref_layout, [])
             \<and> map member_sig (members s')
                 = byref_header_sigs @ keep_destroy_sigs byref_flags
                   @ [(UInt64, ''non_object_0'')]))
   \<and> (byref_flags AND BLOCK_BYREF_LAYOUT_MASK = BLOCK_BYREF_LAYOUT_STRONG \<longrightarrow>
        (\<exists>s'. byref_members bv func byref_insn byref_flags byref_layout byref_header
                 = Inr (s', byref_layout, [])
             \<and> map member_sig (members s')
                 = byref_header_sigs @ keep_destroy_sigs byref_flags
                   @ [(ObjcId, ''strong_ptr_0'')]))
   \<and> (byref_flags AND BLOCK_BYREF_LAYOUT_MASK = BLOCK_BYREF_LAYOUT_WEAK \<longrightarrow>
        (\<exists>s'. byref_members bv func byref_insn byref_flags byref_layout byref_header
                 = Inr (s', byref_layout, [])
             \<and> map member_sig (members s')
                 = byref_header_sigs @ keep_destroy_sigs byref_flags
                   @ [(ObjcId, ''weak_ptr_0'')]))
   \<and> (byref_flags AND BLOCK_BYREF_LAYOUT_MASK = BLOCK_BYREF_LAYOUT_UNRETAINED \<longrightarrow>
        (\<exists>s'. byref_members bv func byref_insn byref_flags byref_layout byref_header
                 = Inr (s', byref_layout, [])
             \<and> map member_sig (members s')
                 = byref_header_sigs @ keep_destroy_sigs byref_flags
                   @ [(ObjcId, ''unretained_ptr_0'')]))
   \<and> (byref_flags AND BLOCK_BYREF_LAYOUT_MASK = BLOCK_BYREF_LAYOUT_EXTENDED
        \<and> reload_hlil_instruction func byref_insn = Inr insn'
        \<and> node_var (snd insn') = Inr v
        \<and> scan_layout v (if byref_flags AND 0x02000000 \<noteq> 0 then 6 else 4) func
            = Inr (Some c) \<longrightarrow>
        (\<exists>s2. map member_sig (members s2)
                 = byref_header_sigs @ keep_destroy_sigs byref_flags
                   @ [(layout_member_type c, ''layout'')]
             \<and> byref_members bv func byref_insn byref_flags byref_layout byref_header
                 = (case append_layout_fields bv s2 c True None None of
                      Inl e \<Rightarrow> Inl e
                    | Inr (s3, bi, leo, msgs) \<Rightarrow> Inr (s3, Some c, msgs))
             \<and> (\<forall>s3 r. byref_members bv func byref_insn byref_flags byref_layout
                            byref_header = Inr (s3, r) \<longrightarrow>
                   prefix (members s2) (members s3))))
   \<and> (byref_flags AND BLOCK_BYREF_LAYOUT_MASK = BLOCK_BYREF_LAYOUT_EXTENDED \<longrightarrow>
        (\<forall>s3 layout' msgs.
            byref_members bv func byref_insn byref_flags byref_layout byref_header
              = Inr (s3, layout', msgs) \<longrightarrow>
            (\<exists>d (s2 :: structure_builder) bi leo found insn2 v2.
                layout' = Some d
              \<and> reload_hlil_instruction func byref_insn = Inr insn2
              \<and> node_var (snd insn2) = Inr v2
              \<and> scan_layout v2 (if byref_flags AND 0x02000000 \<noteq> 0 then 6 else 4) func
                  = Inr found
              \<and> Some d = (case found of Some x \<Rightarrow> Some x | None \<Rightarrow> byref_layout)
              \<and> map member_sig (members s2)
                  = byref_header_sigs @ keep_destroy_sigs byref_flags
                    @ [(layout_member_type d, ''layout'')]
              \<and> append_layout_fields bv s2 d True None None = Inr (s3, bi, leo, msgs)
              \<and> prefix (members s2) (members s3))))
   \<and> (byref_flags AND BLOCK_BYREF_LAYOUT_MASK \<noteq> BLOCK_BYREF_LAYOUT_EXTENDED
        \<and> byref_flags AND BLOCK_BYREF_LAYOUT_MASK \<noteq> BLOCK_BYREF_LAYOUT_NON_OBJECT
        \<and> byref_flags AND BLOCK_BYREF_LAYOUT_MASK \<noteq> BLOCK_BYREF_LAYOUT_STRONG
        \<and> byref_flags AND BLOCK_BYREF_LAYOUT_MASK \<noteq> BLOCK_BYREF_LAYOUT_WEAK
        \<and> byref_flags AND BLOCK_BYREF_LAYOUT_MASK \<noteq> BLOCK_BYREF_LAYOUT_UNRETAINED \<longrightarrow>
        byref_members bv func byref_insn byref_flags byref_layout byref_header
          = Inr (byref_keep_destroy byref_flags byref_header, byref_layout, []))"
proof -
  let ?kd = "byref_keep_destroy byref_flags byref_header"
  let ?nib = "byref_flags AND BLOCK_BYREF_LAYOUT_MASK"
  note simple = byref_payload_simple [of byref_flags ?nib bv func byref_insn byref_layout ?kd,
      OF refl]
  have p0: "map member_sig (members ?kd)
     = byref_header_sigs
       @ (if byref_flags AND BLOCK_BYREF_HAS_COPY_DISPOSE \<noteq> 0
          then [(BlockByrefKeepFunction, ''byref_keep''),
                (BlockByrefDestroyFunction, ''byref_destroy'')]
          else [])"
    using keep_destroy_members [of byref_flags]
    by (simp add: keep_destroy_sigs_def BLOCK_BYREF_HAS_COPY_DISPOSE_def)
  have p1: "\<exists>s'. byref_members bv func byref_insn byref_flags byref_layout byref_header
                 = Inr (s', byref_layout, [])
             \<and> map member_sig (members s')
                 = byref_header_sigs @ keep_destroy_sigs byref_flags
                   @ [(UInt64, ''non_object_0'')]"
    if "?nib = BLOCK_BYREF_LAYOUT_NON_OBJECT"
    using that simple
    by (simp add: byref_members_def byref_flag_defs sigs_struct_append keep_destroy_members)
  have p2: "\<exists>s'. byref_members bv func byref_insn byref_flags byref_layout byref_header
                 = Inr (s', byref_layout, [])
             \<and> map member_sig (members s')
                 = byref_header_sigs @ keep_destroy_sigs byref_flags
                   @ [(ObjcId, ''strong_ptr_0'')]"
    if "?nib = BLOCK_BYREF_LAYOUT_STRONG"
    using that simple
    by (simp add: byref_members_def byref_flag_defs sigs_struct_append keep_destroy_members)
  have p3: "\<exists>s'. byref_members bv func byref_insn byref_flags byref_layout byref_header
                 = Inr (s', byref_layout, [])
             \<and> map member_sig (members s')
                 = byref_header_sigs @ keep_destroy_sigs byref_flags
                   @ [(ObjcId, ''weak_ptr_0'')]"
    if "?nib = BLOCK_BYREF_LAYOUT_WEAK"
    using that simple
    by (simp add: byref_members_def byref_flag_defs sigs_struct_append keep_destroy_members)
  have p4: "\<exists>s'. byref_members bv func byref_insn byref_flags byref_layout byref_header
                 = Inr (s', byref_layout, [])
             \<and> map member_sig (members s')
                 = byref_header_sigs @ keep_destroy_sigs byref_flags
                   @ [(ObjcId, ''unretained_ptr_0'')]"
    if "?nib = BLOCK_BYREF_LAYOUT_UNRETAINED"
    using that simple
    by (simp add: byref_members_def byref_flag_defs sigs_struct_append keep_destroy_members)
  have p5: "\<exists>s2. map member_sig (members s2)
                 = byref_header_sigs @ keep_destroy_sigs byref_flags
                   @ [(layout_member_type c, ''layout'')]
             \<and> byref_members bv func byref_insn byref_flags byref_layout byref_header
                 = (case append_layout_fields bv s2 c True None None of
                      Inl e \<Rightarrow> Inl e
                    | Inr (s3, bi, leo, msgs) \<Rightarrow> Inr (s3, Some c, msgs))
             \<and> (\<forall>s3 r. byref_members bv func byref_insn byref_flags byref_layout
                            byref_header = Inr (s3, r) \<longrightarrow>
                   prefix (members s2) (members s3))"
    if h: "?nib = BLOCK_BYREF_LAYOUT_EXTENDED
        \<and> reload_hlil_instruction func byref_insn = Inr insn'
        \<and> node_var (snd insn') = Inr v
        \<and> scan_layout v (if byref_flags AND 0x02000000 \<noteq> 0 then 6 else 4) func
            = Inr (Some c)"
  proof -
    from h have r: "reload_hlil_instruction func byref_insn = Inr insn'"
      and v: "node_var (snd insn') = Inr v"
      and sc: "scan_layout v (if byref_flags AND 0x02000000 \<noteq> 0 then 6 else 4) func
            = Inr (Some c)"
      by simp_all
    from byref_extended_eval [OF r v sc, of bv byref_layout] obtain s2
      where s2: "map member_sig (members s2)
                 = byref_header_sigs @ keep_destroy_sigs byref_flags
                   @ [(layout_member_type c, ''layout'')]"
        "byref_extended_layout bv func byref_insn byref_layout ?kd
                = (case append_layout_fields bv s2 c True None None of
                     Inl e \<Rightarrow> Inl e
                   | Inr (s3, bi, leo, msgs) \<Rightarrow> Inr (s3, Some c, msgs))"
      by blast
    have bm: "byref_members bv func byref_insn byref_flags byref_layout byref_header
        = (case append_layout_fields bv s2 c True None None of
                     Inl e \<Rightarrow> Inl e
                   | Inr (s3, bi, leo, msgs) \<Rightarrow> Inr (s3, Some c, msgs))"
      using h s2(2) by (simp add: byref_members_def byref_payload_def Let_def)
    have pre: "prefix (members s2) (members s3)"
      if "byref_members bv func byref_insn byref_flags byref_layout byref_header = Inr (s3, r)"
      for s3 r
    proof (cases "append_layout_fields bv s2 c True None None")
      case (Inl e)
      with that bm show ?thesis by simp
    next
      case (Inr q)
      obtain x bi leo msgs where q: "q = (x, bi, leo, msgs)" by (cases q) auto
      with that bm Inr have "x = s3" by simp
      with Inr q have "append_layout_fields bv s2 c True None None = Inr (s3, bi, leo, msgs)"
        by simp
      then show ?thesis by (rule append_layout_fields_prefix)
    qed
    from s2(1) bm pre show ?thesis by blast
  qed
  have p7: "\<exists>d (s2 :: structure_builder) bi leo found insn2 v2.
                layout' = Some d
              \<and> reload_hlil_instruction func byref_insn = Inr insn2
              \<and> node_var (snd insn2) = Inr v2
              \<and> scan_layout v2 (if byref_flags AND 0x02000000 \<noteq> 0 then 6 else 4) func
                  = Inr found
              \<and> Some d = (case found of Some x \<Rightarrow> Some x | None \<Rightarrow> byref_layout)
              \<and> map member_sig (members s2)
                  = byref_header_sigs @ keep_destroy_sigs byref_flags
                    @ [(layout_member_type d, ''layout'')]
              \<and> append_layout_fields bv s2 d True None None = Inr (s3, bi, leo, msgs)
              \<and> prefix (members s2) (members s3)"
    if nib: "?nib = BLOCK_BYREF_LAYOUT_EXTENDED"
      and bm: "byref_members bv func byref_insn byref_flags byref_layout byref_header
              = Inr (s3, layout', msgs)"
    for s3 layout' msgs
  proof -
    have "byref_extended_layout bv func byref_insn byref_layout ?kd = Inr (s3, layout', msgs)"
      using nib bm by (simp add: byref_members_def byref_payload_def Let_def)
    then show ?thesis by (rule byref_extended_Inr)
  qed
  have p6: "byref_members bv func byref_insn byref_flags byref_layout byref_header
          = Inr (?kd, byref_layout, [])"
    if "?nib \<noteq> BLOCK_BYREF_LAYOUT_EXTENDED
        \<and> ?nib \<noteq> BLOCK_BYREF_LAYOUT_NON_OBJECT
        \<and> ?nib \<noteq> BLOCK_BYREF_LAYOUT_STRONG
        \<and> ?nib \<noteq> BLOCK_BYREF_LAYOUT_WEAK
        \<and> ?nib \<noteq> BLOCK_BYREF_LAYOUT_UNRETAINED"
    using that simple by (simp add: byref_members_def)
  show ?thesis
    using p0 p1 p2 p3 p4 p5 p6 p7 by blast
qed

lemma c8_nibbles:
  "(0x20000000 :: int) AND BLOCK_BYREF_LAYOUT_MASK = BLOCK_BYREF_LAYOUT_NON_OBJECT"
  "(0x32000000 :: int) AND BLOCK_BYREF_LAYOUT_MASK = BLOCK_BYREF_LAYOUT_STRONG"
  "(0x40000000 :: int) AND BLOCK_BYREF_LAYOUT_MASK = BLOCK_BYREF_LAYOUT_WEAK"
  "(0x50000000 :: int) AND BLOCK_BYREF_LAYOUT_MASK = BLOCK_BYREF_LAYOUT_UNRETAINED"
  "(0x10000000 :: int) AND BLOCK_BYREF_LAYOUT_MASK = BLOCK_BYREF_LAYOUT_EXTENDED"
  by (simp_all add: byref_flag_defs)

lemma c8_kd:
  "keep_destroy_sigs 0x20000000 = []"
  "keep_destroy_sigs 0x32000000
     = [(BlockByrefKeepFunction, ''byref_keep''), (BlockByrefDestroyFunction, ''byref_destroy'')]"
  "keep_destroy_sigs 0x40000000 = []"
  "keep_destroy_sigs 0x50000000 = []"
  "keep_destroy_sigs 0x10000000 = []"
  by (simp_all add: keep_destroy_sigs_def)

lemma c8_scan:
  "reload_hlil_instruction c8_func (0x104, HighLevelILVarDeclare 2)
     = Inr (0x104, HighLevelILVarDeclare 2)"
  "node_var (snd (0x104 :: int, HighLevelILVarDeclare 2)) = Inr 2"
  "scan_layout 2 (if (0x10000000 :: int) AND 0x02000000 \<noteq> 0 then 6 else 4) c8_func
     = Inr (Some 0x100)"
  by (simp_all add: c8_func_def node_var_def yield_struct_field_assign_def dest_src_var_def
      const_value_def)

lemma c8_extended_value:
  "byref_members empty_view c8_func (0x104, HighLevelILVarDeclare 2) 0x10000000 None
      byref_header
     = Inr (\<lparr>packed = False,
             members =
               [\<lparr>mtype = Class, mname = ''isa'', moffset = 0\<rparr>,
                \<lparr>mtype = VoidPtr, mname = ''forwarding'', moffset = 8\<rparr>,
                \<lparr>mtype = VolatileInt32, mname = ''flags'', moffset = 16\<rparr>,
                \<lparr>mtype = UInt32, mname = ''size'', moffset = 20\<rparr>,
                \<lparr>mtype = UInt64, mname = ''layout'', moffset = 24\<rparr>,
                \<lparr>mtype = ObjcId, mname = ''strong_ptr_20'', moffset = 32\<rparr>],
             width = 40\<rparr>, Some 0x100, [])"
  by code_simp

lemma c8_extended_eval:
  "\<exists>s3. byref_members empty_view c8_func (0x104, HighLevelILVarDeclare 2) 0x10000000 None
            byref_header = Inr (s3, Some 0x100, [])
        \<and> map member_sig (members s3)
            = byref_header_sigs @ [(UInt64, ''layout''), (ObjcId, ''strong_ptr_20'')]"
  by (simp add: c8_extended_value member_sig_def byref_header_sigs_def)


text \<open>The extended branch entered with \<open>byref_layout\<close> still bound to 0x100 by an
  earlier cell, in a function that never assigns this cell's layout member.\<close>

lemma c8_stale_value:
  "byref_members empty_view [(0x104, HighLevelILVarDeclare 2)]
      (0x104, HighLevelILVarDeclare 2) 0x10000000 (Some 0x100) byref_header
     = Inr (\<lparr>packed = False,
             members =
               [\<lparr>mtype = Class, mname = ''isa'', moffset = 0\<rparr>,
                \<lparr>mtype = VoidPtr, mname = ''forwarding'', moffset = 8\<rparr>,
                \<lparr>mtype = VolatileInt32, mname = ''flags'', moffset = 16\<rparr>,
                \<lparr>mtype = UInt32, mname = ''size'', moffset = 20\<rparr>,
                \<lparr>mtype = UInt64, mname = ''layout'', moffset = 24\<rparr>,
                \<lparr>mtype = ObjcId, mname = ''strong_ptr_20'', moffset = 32\<rparr>],
             width = 40\<rparr>, Some 0x100, [])"
  by code_simp

lemma c8_stale_scan:
  "scan_layout v 4 [(0x104, HighLevelILVarDeclare 2)] = Inr None"
  by (simp add: yield_struct_field_assign_def)

theorem C8_byref_payload_witness:
  "(0x20000000 :: int) AND BLOCK_BYREF_LAYOUT_MASK = BLOCK_BYREF_LAYOUT_NON_OBJECT
   \<and> (\<exists>s'. byref_members empty_view [] (0x104, HighLevelILVarDeclare 2) 0x20000000 None
               byref_header = Inr (s', None, [])
          \<and> map member_sig (members s') = byref_header_sigs @ [(UInt64, ''non_object_0'')])
   \<and> (0x32000000 :: int) AND BLOCK_BYREF_LAYOUT_MASK = BLOCK_BYREF_LAYOUT_STRONG
   \<and> (\<exists>s'. byref_members empty_view [] (0x104, HighLevelILVarDeclare 2) 0x32000000 None
               byref_header = Inr (s', None, [])
          \<and> map member_sig (members s')
              = byref_header_sigs
                @ [(BlockByrefKeepFunction, ''byref_keep''),
                   (BlockByrefDestroyFunction, ''byref_destroy''),
                   (ObjcId, ''strong_ptr_0'')])
   \<and> (0x40000000 :: int) AND BLOCK_BYREF_LAYOUT_MASK = BLOCK_BYREF_LAYOUT_WEAK
   \<and> (\<exists>s'. byref_members empty_view [] (0x104, HighLevelILVarDeclare 2) 0x40000000 None
               byref_header = Inr (s', None, [])
          \<and> map member_sig (members s') = byref_header_sigs @ [(ObjcId, ''weak_ptr_0'')])
   \<and> (0x50000000 :: int) AND BLOCK_BYREF_LAYOUT_MASK = BLOCK_BYREF_LAYOUT_UNRETAINED
   \<and> (\<exists>s'. byref_members empty_view [] (0x104, HighLevelILVarDeclare 2) 0x50000000 None
               byref_header = Inr (s', None, [])
          \<and> map member_sig (members s') = byref_header_sigs @ [(ObjcId, ''unretained_ptr_0'')])
   \<and> (0x10000000 :: int) AND BLOCK_BYREF_LAYOUT_MASK = BLOCK_BYREF_LAYOUT_EXTENDED
   \<and> reload_hlil_instruction c8_func (0x104, HighLevelILVarDeclare 2)
       = Inr (0x104, HighLevelILVarDeclare 2)
   \<and> node_var (snd (0x104 :: int, HighLevelILVarDeclare 2)) = Inr 2
   \<and> scan_layout 2 (if (0x10000000 :: int) AND 0x02000000 \<noteq> 0 then 6 else 4) c8_func
       = Inr (Some 0x100)
   \<and> (\<exists>(s2 :: structure_builder) s3. map member_sig (members s2) = byref_header_sigs @ [(UInt64, ''layout'')]
          \<and> byref_members empty_view c8_func (0x104, HighLevelILVarDeclare 2) 0x10000000 None
               byref_header = Inr (s3, Some 0x100, [])
          \<and> prefix (members s2) (members s3)
          \<and> map member_sig (members s3)
              = byref_header_sigs @ [(UInt64, ''layout''), (ObjcId, ''strong_ptr_20'')])
   \<and> scan_layout 2 4 [(0x104, HighLevelILVarDeclare 2)] = Inr None
   \<and> (\<exists>(s2 :: structure_builder) s3 bi leo.
          byref_members empty_view [(0x104, HighLevelILVarDeclare 2)]
              (0x104, HighLevelILVarDeclare 2) 0x10000000 (Some 0x100) byref_header
            = Inr (s3, Some 0x100, [])
          \<and> map member_sig (members s2) = byref_header_sigs @ [(UInt64, ''layout'')]
          \<and> append_layout_fields empty_view s2 0x100 True None None = Inr (s3, bi, leo, [])
          \<and> prefix (members s2) (members s3)
          \<and> map member_sig (members s3)
              = byref_header_sigs @ [(UInt64, ''layout''), (ObjcId, ''strong_ptr_20'')])
   \<and> (0 :: int) AND BLOCK_BYREF_LAYOUT_MASK \<noteq> BLOCK_BYREF_LAYOUT_EXTENDED
   \<and> (0 :: int) AND BLOCK_BYREF_LAYOUT_MASK \<noteq> BLOCK_BYREF_LAYOUT_NON_OBJECT
   \<and> (0 :: int) AND BLOCK_BYREF_LAYOUT_MASK \<noteq> BLOCK_BYREF_LAYOUT_STRONG
   \<and> (0 :: int) AND BLOCK_BYREF_LAYOUT_MASK \<noteq> BLOCK_BYREF_LAYOUT_WEAK
   \<and> (0 :: int) AND BLOCK_BYREF_LAYOUT_MASK \<noteq> BLOCK_BYREF_LAYOUT_UNRETAINED
   \<and> byref_members empty_view [] (0x104, HighLevelILVarDeclare 2) 0 None byref_header
       = Inr (byref_header, None, [])"
proof -
  note n = C8_byref_payload [of "0x20000000" empty_view "[]" "(0x104, HighLevelILVarDeclare 2)"
      None "(0x104, HighLevelILVarDeclare 2)" 2 0]
  note s = C8_byref_payload [of "0x32000000" empty_view "[]" "(0x104, HighLevelILVarDeclare 2)"
      None "(0x104, HighLevelILVarDeclare 2)" 2 0]
  note w = C8_byref_payload [of "0x40000000" empty_view "[]" "(0x104, HighLevelILVarDeclare 2)"
      None "(0x104, HighLevelILVarDeclare 2)" 2 0]
  note u = C8_byref_payload [of "0x50000000" empty_view "[]" "(0x104, HighLevelILVarDeclare 2)"
      None "(0x104, HighLevelILVarDeclare 2)" 2 0]
  note x = C8_byref_payload [of "0x10000000" empty_view c8_func
      "(0x104, HighLevelILVarDeclare 2)" None "(0x104, HighLevelILVarDeclare 2)" 2 "0x100"]
  have a: "\<exists>s'. byref_members empty_view [] (0x104, HighLevelILVarDeclare 2) 0x20000000 None
               byref_header = Inr (s', None, [])
          \<and> map member_sig (members s') = byref_header_sigs @ [(UInt64, ''non_object_0'')]"
    using n c8_nibbles(1) c8_kd(1) by simp
  have b: "\<exists>s'. byref_members empty_view [] (0x104, HighLevelILVarDeclare 2) 0x32000000 None
               byref_header = Inr (s', None, [])
          \<and> map member_sig (members s')
              = byref_header_sigs
                @ [(BlockByrefKeepFunction, ''byref_keep''),
                   (BlockByrefDestroyFunction, ''byref_destroy''),
                   (ObjcId, ''strong_ptr_0'')]"
    using s c8_nibbles(2) c8_kd(2) by simp
  have c: "\<exists>s'. byref_members empty_view [] (0x104, HighLevelILVarDeclare 2) 0x40000000 None
               byref_header = Inr (s', None, [])
          \<and> map member_sig (members s') = byref_header_sigs @ [(ObjcId, ''weak_ptr_0'')]"
    using w c8_nibbles(3) c8_kd(3) by simp
  have d: "\<exists>s'. byref_members empty_view [] (0x104, HighLevelILVarDeclare 2) 0x50000000 None
               byref_header = Inr (s', None, [])
          \<and> map member_sig (members s') = byref_header_sigs @ [(ObjcId, ''unretained_ptr_0'')]"
    using u c8_nibbles(4) c8_kd(4) by simp
  note x6 = x [THEN conjunct2, THEN conjunct2, THEN conjunct2, THEN conjunct2,
      THEN conjunct2, THEN conjunct1, THEN mp]
  have ante: "(0x10000000 :: int) AND BLOCK_BYREF_LAYOUT_MASK = BLOCK_BYREF_LAYOUT_EXTENDED
      \<and> reload_hlil_instruction c8_func (0x104, HighLevelILVarDeclare 2)
          = Inr (0x104, HighLevelILVarDeclare 2)
      \<and> node_var (snd (0x104 :: int, HighLevelILVarDeclare 2)) = Inr 2
      \<and> scan_layout 2 (if (0x10000000 :: int) AND 0x02000000 \<noteq> 0 then 6 else 4) c8_func
          = Inr (Some 0x100)"
    by (intro conjI) (rule c8_nibbles(5) c8_scan)+
  from x6 [OF ante] obtain s2 where s2c: "map member_sig (members s2)
        = byref_header_sigs @ keep_destroy_sigs 0x10000000
          @ [(layout_member_type 0x100, ''layout'')]
      \<and> byref_members empty_view c8_func (0x104, HighLevelILVarDeclare 2) 0x10000000
                  None byref_header
          = (case append_layout_fields empty_view s2 0x100 True None None of
               Inl e \<Rightarrow> Inl e
             | Inr (s3, bi, leo, msgs) \<Rightarrow> Inr (s3, Some 0x100, msgs))
      \<and> (\<forall>s3 r. byref_members empty_view c8_func (0x104, HighLevelILVarDeclare 2) 0x10000000
                  None byref_header = Inr (s3, r) \<longrightarrow> prefix (members s2) (members s3))" ..
  note s2 = s2c [THEN conjunct1] s2c [THEN conjunct2, THEN conjunct2]
  have s2': "map member_sig (members s2) = byref_header_sigs @ [(UInt64, ''layout'')]"
    using s2(1) by (simp add: c8_kd(5) layout_member_type_def)
  from c8_extended_eval obtain s3 where s3:
    "byref_members empty_view c8_func (0x104, HighLevelILVarDeclare 2) 0x10000000 None
            byref_header = Inr (s3, Some 0x100, [])"
    "map member_sig (members s3)
            = byref_header_sigs @ [(UInt64, ''layout''), (ObjcId, ''strong_ptr_20'')]"
    by blast
  have pre: "prefix (members s2) (members s3)"
    using s2(2) [rule_format, of s3 "(Some 0x100, [])"] s3(1) by simp
  have e: "\<exists>(s2 :: structure_builder) s3. map member_sig (members s2) = byref_header_sigs @ [(UInt64, ''layout'')]
          \<and> byref_members empty_view c8_func (0x104, HighLevelILVarDeclare 2) 0x10000000 None
               byref_header = Inr (s3, Some 0x100, [])
          \<and> prefix (members s2) (members s3)
          \<and> map member_sig (members s3)
              = byref_header_sigs @ [(UInt64, ''layout''), (ObjcId, ''strong_ptr_20'')]"
    by (rule exI [of _ s2], rule exI [of _ s3], intro conjI) (rule s2' s3 pre)+
  note y = C8_byref_payload [of "0x10000000" empty_view "[(0x104, HighLevelILVarDeclare 2)]"
      "(0x104, HighLevelILVarDeclare 2)" "Some 0x100" "(0x104, HighLevelILVarDeclare 2)" 2 0]
  note y7 = y [THEN conjunct2, THEN conjunct2, THEN conjunct2, THEN conjunct2,
      THEN conjunct2, THEN conjunct2, THEN conjunct1, THEN mp, OF c8_nibbles(5),
      rule_format, OF c8_stale_value]
  from y7 obtain d and t2 :: structure_builder and bi leo found insn2 v2
    where st: "Some (0x100 :: int) = Some d
          \<and> reload_hlil_instruction [(0x104, HighLevelILVarDeclare 2)]
                (0x104, HighLevelILVarDeclare 2) = Inr insn2
          \<and> node_var (snd insn2) = Inr v2
          \<and> scan_layout v2 (if (0x10000000 :: int) AND 0x02000000 \<noteq> 0 then 6 else 4)
                [(0x104, HighLevelILVarDeclare 2)] = Inr found
          \<and> Some d = (case found of Some x \<Rightarrow> Some x | None \<Rightarrow> Some 0x100)
          \<and> map member_sig (members t2)
              = byref_header_sigs @ keep_destroy_sigs 0x10000000
                @ [(layout_member_type d, ''layout'')]
          \<and> append_layout_fields empty_view t2 d True None None
              = Inr (\<lparr>packed = False,
                      members =
                        [\<lparr>mtype = Class, mname = ''isa'', moffset = 0\<rparr>,
                         \<lparr>mtype = VoidPtr, mname = ''forwarding'', moffset = 8\<rparr>,
                         \<lparr>mtype = VolatileInt32, mname = ''flags'', moffset = 16\<rparr>,
                         \<lparr>mtype = UInt32, mname = ''size'', moffset = 20\<rparr>,
                         \<lparr>mtype = UInt64, mname = ''layout'', moffset = 24\<rparr>,
                         \<lparr>mtype = ObjcId, mname = ''strong_ptr_20'', moffset = 32\<rparr>],
                      width = 40\<rparr>, bi, leo, [])
          \<and> prefix (members t2)
                (members \<lparr>packed = False,
                      members =
                        [\<lparr>mtype = Class, mname = ''isa'', moffset = 0\<rparr>,
                         \<lparr>mtype = VoidPtr, mname = ''forwarding'', moffset = 8\<rparr>,
                         \<lparr>mtype = VolatileInt32, mname = ''flags'', moffset = 16\<rparr>,
                         \<lparr>mtype = UInt32, mname = ''size'', moffset = 20\<rparr>,
                         \<lparr>mtype = UInt64, mname = ''layout'', moffset = 24\<rparr>,
                         \<lparr>mtype = ObjcId, mname = ''strong_ptr_20'', moffset = 32\<rparr>],
                      width = 40\<rparr>)"
    by (elim exE) (rule that)
  have dv: "d = 0x100" using st by simp
  have t2: "map member_sig (members t2) = byref_header_sigs @ [(UInt64, ''layout'')]"
    using st dv by (simp add: c8_kd(5) layout_member_type_def)
  have g: "\<exists>(s2 :: structure_builder) s3 bi leo.
          byref_members empty_view [(0x104, HighLevelILVarDeclare 2)]
              (0x104, HighLevelILVarDeclare 2) 0x10000000 (Some 0x100) byref_header
            = Inr (s3, Some 0x100, [])
          \<and> map member_sig (members s2) = byref_header_sigs @ [(UInt64, ''layout'')]
          \<and> append_layout_fields empty_view s2 0x100 True None None = Inr (s3, bi, leo, [])
          \<and> prefix (members s2) (members s3)
          \<and> map member_sig (members s3)
              = byref_header_sigs @ [(UInt64, ''layout''), (ObjcId, ''strong_ptr_20'')]"
    apply (rule exI [of _ t2])
    apply (subst c8_stale_value)
    apply (rule exI)
    apply (rule exI [of _ bi])
    apply (rule exI [of _ leo])
    apply (intro conjI)
        apply (rule refl)
       apply (rule t2)
      apply (use st dv in simp)
     apply (use st in simp)
    apply (simp add: member_sig_def byref_header_sigs_def)
    done
  note z = C8_byref_payload [of 0 empty_view "[]" "(0x104, HighLevelILVarDeclare 2)"
      None "(0x104, HighLevelILVarDeclare 2)" 2 0]
  have zn: "(0 :: int) AND BLOCK_BYREF_LAYOUT_MASK \<noteq> BLOCK_BYREF_LAYOUT_EXTENDED"
    "(0 :: int) AND BLOCK_BYREF_LAYOUT_MASK \<noteq> BLOCK_BYREF_LAYOUT_NON_OBJECT"
    "(0 :: int) AND BLOCK_BYREF_LAYOUT_MASK \<noteq> BLOCK_BYREF_LAYOUT_STRONG"
    "(0 :: int) AND BLOCK_BYREF_LAYOUT_MASK \<noteq> BLOCK_BYREF_LAYOUT_WEAK"
    "(0 :: int) AND BLOCK_BYREF_LAYOUT_MASK \<noteq> BLOCK_BYREF_LAYOUT_UNRETAINED"
    by (simp_all add: byref_flag_defs)
  have f: "byref_members empty_view [] (0x104, HighLevelILVarDeclare 2) 0 None byref_header
       = Inr (byref_header, None, [])"
    using z zn by (simp add: byref_keep_destroy_def)
  show ?thesis
    by (intro conjI) (rule a b c d e f g zn c8_nibbles c8_scan c8_stale_scan)+
qed

lemma c10_from_stack:
  "from_stack (c10_func 2 3) (0x100, HighLevelILVarDeclare 1)
     = Inr \<lparr>bl_is_stack_block = True, bl_target = Insn (0x100, HighLevelILVarDeclare 1),
            bl_address = 0x100, bl_isa = 0x120, bl_flags = 0xc0000000, bl_reserved = Some 0,
            bl_invoke = 0x4000, bl_descriptor = 0x5000\<rparr>"
  by code_simp

lemma c10_annotate_literal:
  "annotate_literal empty_view (c10_func 2 3) c10_vars
       \<lparr>bl_is_stack_block = True, bl_target = Insn (0x100, HighLevelILVarDeclare 1),
        bl_address = 0x100, bl_isa = 0x120, bl_flags = 0xc0000000, bl_reserved = Some 0,
        bl_invoke = 0x4000, bl_descriptor = 0x5000\<rparr>
       c10_descriptor
     = Inr c10_annotation"
  by code_simp

text \<open>C10. Two byref cells of one literal, the first with constant flags and size, the
  second with neither. The names \<open>byref_flags\<close> and \<open>byref_size\<close> stay bound from the first
  iteration, so the second cell is not reported as failed: it is annotated with the first
  cell's flags and size and its type is defined. With the two cells in the other order the
  cell without constants comes first, is reported as failed and skipped, and the loop goes
  on to the other one.\<close>

theorem C10_stale_byref_flags:
  "(case annotate_stack_byrefs empty_view (c10_func 2 3) c10_annotation c10_descriptor of
      Inl e \<Rightarrow> False
    | Inr st \<Rightarrow>
        bs_messages st = [ByrefInfo 0x104 0x20000000 0x20, ByrefInfo 0x108 0x20000000 0x20]
        \<and> map fst (bs_types st)
            = [''Block_literal_100'', ''Block_byref_104'', ''Block_byref_108''])
   \<and> (case annotate_stack_byrefs empty_view (c10_func 3 2) c10_annotation c10_descriptor of
        Inl e \<Rightarrow> False
      | Inr st \<Rightarrow>
          bs_messages st = [ByrefFailed 0x108, ByrefInfo 0x104 0x20000000 0x20]
          \<and> map fst (bs_types st) = [''Block_literal_100'', ''Block_byref_104''])"
  by code_simp

text \<open>C9. A BlockLiteral is constructed exactly when invoke and descriptor are non-zero
  and the IS_GLOBAL bit of flags agrees with the variant (set for a global block, clear
  for a stack block); every other argument tuple fails with AssertionError. A constructed
  literal keeps the fields it was given, so it has invoke and descriptor non-zero and is
  the global variant if and only if IS_GLOBAL (0x10000000) is set in its flags. The same
  holds where \<open>from_data\<close> constructs the literal from the results of its reads: Python's
  \<open>None\<close> differs from 0, so an \<open>invoke\<close> or \<open>descriptor\<close> that is \<open>None\<close> passes its
  assertion, and a \<open>flags\<close> that is \<open>None\<close> raises TypeError at the variant check, after
  the two assertions.\<close>

theorem C9_block_literal_invariants:
  "(case BlockLiteral_init is_stack tgt isa flags reserved invoke descriptor of
      Inr bl \<Rightarrow>
        invoke \<noteq> 0 \<and> descriptor \<noteq> 0 \<and> (is_stack = (flags AND 0x10000000 = 0))
        \<and> bl_invoke bl = invoke \<and> bl_descriptor bl = descriptor \<and> bl_flags bl = flags
        \<and> bl_is_stack_block bl = is_stack
        \<and> bl_invoke bl \<noteq> 0 \<and> bl_descriptor bl \<noteq> 0
        \<and> ((\<not> bl_is_stack_block bl) = (bl_flags bl AND 0x10000000 \<noteq> 0))
    | Inl e \<Rightarrow>
        e = AssertionError
        \<and> (invoke = 0 \<or> descriptor = 0 \<or> (is_stack = (flags AND 0x10000000 \<noteq> 0))))
   \<and> (case BlockLiteral_init_values is_stack tgt isa_value flags_value reserved invoke_value
            descriptor_value of
        Inr bl \<Rightarrow>
          invoke_value \<noteq> Some 0 \<and> descriptor_value \<noteq> Some 0
          \<and> (\<exists>f. flags_value = Some f \<and> (is_stack = (f AND 0x10000000 = 0))
                 \<and> bl_flags bl = f)
          \<and> bl_invoke bl = invoke_value \<and> bl_descriptor bl = descriptor_value
          \<and> bl_is_stack_block bl = is_stack
          \<and> bl_invoke bl \<noteq> Some 0 \<and> bl_descriptor bl \<noteq> Some 0
          \<and> ((\<not> bl_is_stack_block bl) = (bl_flags bl AND 0x10000000 \<noteq> 0))
      | Inl e \<Rightarrow>
          (e = AssertionError
           \<and> (invoke_value = Some 0 \<or> descriptor_value = Some 0
                \<or> (\<exists>f. flags_value = Some f \<and> (is_stack = (f AND 0x10000000 \<noteq> 0)))))
          \<or> (e = TypeError \<and> invoke_value \<noteq> Some 0 \<and> descriptor_value \<noteq> Some 0
              \<and> flags_value = None))"
proof -
  have ints: "(case BlockLiteral_init is_stack tgt isa flags reserved invoke descriptor of
      Inr bl \<Rightarrow>
        invoke \<noteq> 0 \<and> descriptor \<noteq> 0 \<and> (is_stack = (flags AND 0x10000000 = 0))
        \<and> bl_invoke bl = invoke \<and> bl_descriptor bl = descriptor \<and> bl_flags bl = flags
        \<and> bl_is_stack_block bl = is_stack
        \<and> bl_invoke bl \<noteq> 0 \<and> bl_descriptor bl \<noteq> 0
        \<and> ((\<not> bl_is_stack_block bl) = (bl_flags bl AND 0x10000000 \<noteq> 0))
    | Inl e \<Rightarrow>
        e = AssertionError
        \<and> (invoke = 0 \<or> descriptor = 0 \<or> (is_stack = (flags AND 0x10000000 \<noteq> 0))))"
    by (auto simp: BlockLiteral_init_def BLOCK_IS_GLOBAL_def)
  have vals: "(case BlockLiteral_init_values is_stack tgt isa_value flags_value reserved
                  invoke_value descriptor_value of
        Inr bl \<Rightarrow>
          invoke_value \<noteq> Some 0 \<and> descriptor_value \<noteq> Some 0
          \<and> (\<exists>f. flags_value = Some f \<and> (is_stack = (f AND 0x10000000 = 0))
                 \<and> bl_flags bl = f)
          \<and> bl_invoke bl = invoke_value \<and> bl_descriptor bl = descriptor_value
          \<and> bl_is_stack_block bl = is_stack
          \<and> bl_invoke bl \<noteq> Some 0 \<and> bl_descriptor bl \<noteq> Some 0
          \<and> ((\<not> bl_is_stack_block bl) = (bl_flags bl AND 0x10000000 \<noteq> 0))
      | Inl e \<Rightarrow>
          (e = AssertionError
           \<and> (invoke_value = Some 0 \<or> descriptor_value = Some 0
                \<or> (\<exists>f. flags_value = Some f \<and> (is_stack = (f AND 0x10000000 \<noteq> 0)))))
          \<or> (e = TypeError \<and> invoke_value \<noteq> Some 0 \<and> descriptor_value \<noteq> Some 0
              \<and> flags_value = None))"
    by (cases flags_value) (auto simp: BlockLiteral_init_values_def BLOCK_IS_GLOBAL_def)
  from ints vals show ?thesis by (rule conjI)
qed


end
